(* ===== verification/Prelude.thy ===== *)
theory Prelude
  imports Complex_Main "HOL-Library.Product_Lexorder"
begin

text \<open>
  Shared vocabulary of the TutorLink development: the names of the model's
  string-typed identifiers, the collections of evaluation lemmas the component
  theories register their primitives in, and generic facts on lists, options
  and maps that the component proofs use through \<open>simp add:\<close>.
\<close>

section \<open>Names of the model's types\<close>

text \<open>Identifiers are the strings the frontend passes around (user ids, booking ids).\<close>

type_synonym user_id = string

text \<open>
  A JavaScript \<open>number\<close> that may be \<open>NaN\<close> (or come from \<open>undefined\<close>) is an
  \<open>option\<close>: \<open>None\<close> is \<open>NaN\<close>. Arithmetic on numbers is exact rational
  arithmetic: every value the booking code computes is a small rational
  (hours with minute resolution times a rate), far inside the range where
  IEEE doubles are exact enough for the comparisons the code makes.
\<close>

type_synonym js_num = "rat option"

named_theorems js_simps \<open>evaluation equations of the modelled JavaScript primitives\<close>
named_theorems status_simps \<open>equations deciding the status a component computes\<close>

section \<open>Generic lemmas\<close>

subsection \<open>Lists\<close>

lemma find_Some_in_set [intro]: "List.find P xs = Some x \<Longrightarrow> x \<in> set xs"
  by (induction xs) (auto split: if_splits)

lemma find_Some_prop: "List.find P xs = Some x \<Longrightarrow> P x"
  by (induction xs) (auto split: if_splits)

lemma find_None_iff': "List.find P xs = None \<longleftrightarrow> (\<forall>x \<in> set xs. \<not> P x)"
  by (induction xs) auto

lemma find_map_cong:
  "(\<And>x. x \<in> set xs \<Longrightarrow> P (f x) = Q x) \<Longrightarrow> List.find P (map f xs) = map_option f (List.find Q xs)"
  by (induction xs) auto

lemma filter_empty_iff_all_not: "filter P xs = [] \<longleftrightarrow> (\<forall>x \<in> set xs. \<not> P x)"
  by (induction xs) auto

lemma map_filter_map_eq:
  "(\<And>x. x \<in> set xs \<Longrightarrow> f x = g x) \<Longrightarrow> List.map_filter f xs = List.map_filter g xs"
  by (induction xs) (auto simp: List.map_filter_def)

lemma those_not_None_iff: "those xs \<noteq> None \<longleftrightarrow> (\<forall>x \<in> set xs. x \<noteq> None)"
  by (induction xs) (auto split: option.splits)

lemma mult_add_less_inj:
  assumes "(a::nat) * k + b = c * k + d" "b < k" "d < k"
  shows "a = c \<and> b = d"
proof -
  have "(a * k + b) div k = (c * k + d) div k" "(a * k + b) mod k = (c * k + d) mod k"
    using assms(1) by simp_all
  with assms(2,3) show ?thesis by simp
qed

lemma set_map_filter_iff: "y \<in> set (List.map_filter f xs) \<longleftrightarrow> (\<exists>x \<in> set xs. f x = Some y)"
  by (induction xs) (auto split: option.splits)

end
