(* ===== verification/Dates.thy ===== *)
theory Dates
  imports Prelude
begin

text \<open>
  The calendar arithmetic and the JavaScript \<open>Date\<close> and string primitives the
  frontend relies on: civil dates, month lengths, weekdays, the decimal
  rendering of numbers (\<open>String(n)\<close>, \<open>padStart\<close>), the date formatter
  \<open>formatDate\<close> of \<open>AvailabilityCalendar.tsx\<close> (and its twin \<open>formatLocalDate\<close> in
  \<open>RescheduleModal.tsx\<close>), the parser behind \<open>new Date("YYYY-MM-DD")\<close>, and the
  conversion of the UTC midnight that parser returns into the local calendar
  date that \<open>getFullYear\<close>/\<open>getMonth\<close>/\<open>getDate\<close> read.
\<close>

section \<open>Civil dates\<close>

text \<open>
  A calendar date as the frontend reads it from a local \<open>Date\<close>: the full year,
  the month \<^emph>\<open>as formatted\<close> (\<open>getMonth() + 1\<close>, so 1..12) and the day of the
  month.
\<close>

datatype cdate = CDate (year: int) (month: nat) (mday: nat)

definition cdate_key :: "cdate \<Rightarrow> int \<times> nat \<times> nat" where
  "cdate_key d = (year d, month d, mday d)"

text \<open>
  Dates are compared the way \<open>date < today\<close> compares two local midnights: by
  year, then month, then day.
\<close>

instantiation cdate :: linorder
begin

definition less_eq_cdate :: "cdate \<Rightarrow> cdate \<Rightarrow> bool" where
  "less_eq_cdate a b \<longleftrightarrow> cdate_key a \<le> cdate_key b"

definition less_cdate :: "cdate \<Rightarrow> cdate \<Rightarrow> bool" where
  "less_cdate a b \<longleftrightarrow> cdate_key a < cdate_key b"

instance
proof
  have inj: "\<And>a b. cdate_key a = cdate_key b \<Longrightarrow> a = b"
    by (case_tac a; case_tac b) (simp add: cdate_key_def)
  fix x y z :: cdate
  show "(x < y) = (x \<le> y \<and> \<not> y \<le> x)"
    by (auto simp: less_eq_cdate_def less_cdate_def)
  show "x \<le> x" by (simp add: less_eq_cdate_def)
  show "x \<le> y \<Longrightarrow> y \<le> z \<Longrightarrow> x \<le> z"
    unfolding less_eq_cdate_def by (rule order_trans)
  show "x \<le> y \<Longrightarrow> y \<le> x \<Longrightarrow> x = y"
    unfolding less_eq_cdate_def by (rule inj) (rule antisym)
  show "x \<le> y \<or> y \<le> x"
    unfolding less_eq_cdate_def by (rule linear)
qed

end

definition is_leap :: "int \<Rightarrow> bool" where
  "is_leap y \<longleftrightarrow> (4 dvd y \<and> \<not> 100 dvd y) \<or> 400 dvd y"

text \<open>
  \<open>new Date(year, month + 1, 0).getDate()\<close>: day 0 of the next month is the last
  day of this one, so this is the length of the (1-based) month \<open>m\<close>.
\<close>

definition days_in_month :: "int \<Rightarrow> nat \<Rightarrow> nat" where
  "days_in_month y m =
     (if m = 2 then (if is_leap y then 29 else 28)
      else if m = 4 \<or> m = 6 \<or> m = 9 \<or> m = 11 then 30 else 31)"

definition valid_date :: "cdate \<Rightarrow> bool" where
  "valid_date d \<longleftrightarrow> 1 \<le> month d \<and> month d \<le> 12 \<and> 1 \<le> mday d \<and> mday d \<le> days_in_month (year d) (month d)"

text \<open>
  Days since 1970-01-01 of a proleptic Gregorian date (the count \<open>Date\<close> keeps,
  divided by a day's milliseconds); used for the weekday.
\<close>

definition days_from_civil :: "cdate \<Rightarrow> int" where
  "days_from_civil d =
     (let y = year d - (if month d \<le> 2 then 1 else 0);
          era = y div 400;
          yoe = y - era * 400;
          mp = (int (month d) + 9) mod 12;
          doy = (153 * mp + 2) div 5 + int (mday d) - 1;
          doe = yoe * 365 + yoe div 4 - yoe div 100 + doy
      in era * 146097 + doe - 719468)"

text \<open>\<open>getDay()\<close>: 0 is Sunday; 1970-01-01 was a Thursday.\<close>

datatype weekday = Sun | Mon | Tue | Wed | Thu | Fri | Sat

definition weekday_of_int :: "int \<Rightarrow> weekday" where
  "weekday_of_int k =
     (let r = k mod 7 in
      if r = 0 then Sun else if r = 1 then Mon else if r = 2 then Tue else if r = 3 then Wed
      else if r = 4 then Thu else if r = 5 then Fri else Sat)"

definition get_day :: "cdate \<Rightarrow> weekday" where
  "get_day d = weekday_of_int (days_from_civil d + 4)"

text \<open>The day before, as the local calendar has it (only used for valid dates).\<close>

definition prev_day :: "cdate \<Rightarrow> cdate" where
  "prev_day d =
     (if 1 < mday d then CDate (year d) (month d) (mday d - 1)
      else if 1 < month d then CDate (year d) (month d - 1) (days_in_month (year d) (month d - 1))
      else CDate (year d - 1) 12 31)"

section \<open>Decimal strings\<close>

text \<open>\<open>String(n)\<close> for a non-negative integer: its decimal digits.\<close>

definition digit_char :: "nat \<Rightarrow> char" where
  "digit_char k = char_of (48 + k)"

fun nat_str :: "nat \<Rightarrow> string" where
  "nat_str n = (if n < 10 then [digit_char n] else nat_str (n div 10) @ [digit_char (n mod 10)])"

declare nat_str.simps [simp del]

definition int_str :: "int \<Rightarrow> string" where
  "int_str i = (if i < 0 then CHR ''-'' # nat_str (nat (- i)) else nat_str (nat i))"

text \<open>\<open>s.padStart(n, c)\<close>.\<close>

definition pad_start :: "nat \<Rightarrow> char \<Rightarrow> string \<Rightarrow> string" where
  "pad_start n c s = replicate (n - length s) c @ s"

definition pad2 :: "nat \<Rightarrow> string" where
  "pad2 k = pad_start 2 CHR ''0'' (nat_str k)"

definition is_digit :: "char \<Rightarrow> bool" where
  "is_digit c \<longleftrightarrow> 48 \<le> (of_char c :: nat) \<and> (of_char c :: nat) \<le> 57"

text \<open>The value of a string of decimal digits (leading zeros allowed).\<close>

definition digits_val :: "string \<Rightarrow> nat" where
  "digits_val s = foldl (\<lambda>acc c. 10 * acc + (of_char c - 48)) 0 s"

section \<open>Formatting and parsing dates\<close>

text \<open>
  \<open>formatDate\<close> / \<open>formatLocalDate\<close>:
  \<open>`${getFullYear()}-${String(getMonth() + 1).padStart(2, "0")}-${String(getDate()).padStart(2, "0")}`\<close>.
  An Invalid Date reads \<open>NaN\<close> from every getter.
\<close>

definition format_date :: "cdate \<Rightarrow> string" where
  "format_date d = int_str (year d) @ ''-'' @ pad2 (month d) @ ''-'' @ pad2 (mday d)"

definition format_js_date :: "cdate option \<Rightarrow> string" where
  "format_js_date od = (case od of None \<Rightarrow> ''NaN-NaN-NaN'' | Some d \<Rightarrow> format_date d)"

text \<open>
  \<open>new Date("YYYY-MM-DD")\<close>: the date-only ISO form, four-digit year, which the
  runtime reads as midnight UTC of that date; anything else (in particular an
  impossible date) is modelled as an Invalid Date, \<open>None\<close>.
\<close>

definition parse_iso_date :: "string \<Rightarrow> cdate option" where
  "parse_iso_date s =
     (if length s = 10 \<and> s ! 4 = CHR ''-'' \<and> s ! 7 = CHR ''-''
         \<and> (\<forall>c \<in> set (take 4 s @ take 2 (drop 5 s) @ drop 8 s). is_digit c)
      then (let d = CDate (int (digits_val (take 4 s))) (digits_val (take 2 (drop 5 s)))
                          (digits_val (drop 8 s))
            in if valid_date d then Some d else None)
      else None)"

text \<open>
  The local calendar date of the UTC midnight of \<open>d\<close>, for a time zone \<open>tz\<close>
  minutes east of UTC (\<open>- getTimezoneOffset()\<close>). Real offsets lie strictly
  between -24h and +24h: west of UTC the local clock still shows the evening of
  the day before; at or east of UTC it shows \<open>d\<close>.
\<close>

definition local_date_of_utc :: "int \<Rightarrow> cdate \<Rightarrow> cdate" where
  "local_date_of_utc tz d = (if tz < 0 then prev_day d else d)"

text \<open>\<open>formatDate(new Date(s))\<close> for a date string \<open>s\<close> received from the API.\<close>

definition reformat_api_date :: "int \<Rightarrow> string \<Rightarrow> string" where
  "reformat_api_date tz s = format_js_date (map_option (local_date_of_utc tz) (parse_iso_date s))"

section \<open>Decimal strings and the date round trip\<close>

lemma digits_val_snoc: "digits_val (xs @ [c]) = 10 * digits_val xs + (of_char c - 48)"
  by (simp add: digits_val_def)

lemma of_char_digit_char: "k < 10 \<Longrightarrow> of_char (digit_char k) = 48 + k"
  by (simp add: digit_char_def)

lemma is_digit_digit_char: "k < 10 \<Longrightarrow> is_digit (digit_char k)"
  by (simp add: is_digit_def of_char_digit_char)

lemma digits_val_nat_str: "digits_val (nat_str n) = n"
proof (induction n rule: nat_str.induct)
  case (1 n)
  show ?case
  proof (cases "n < 10")
    case True
    then show ?thesis by (simp add: nat_str.simps [of n] digits_val_def of_char_digit_char)
  next
    case False
    with "1.IH" show ?thesis
      by (simp add: nat_str.simps [of n] digits_val_snoc of_char_digit_char)
  qed
qed

lemma nat_str_digits: "\<forall>c \<in> set (nat_str n). is_digit c"
proof (induction n rule: nat_str.induct)
  case (1 n)
  then show ?case
    by (cases "n < 10") (auto simp: nat_str.simps [of n] is_digit_digit_char)
qed

lemma length_nat_str_step: "10 \<le> n \<Longrightarrow> length (nat_str n) = Suc (length (nat_str (n div 10)))"
  by (simp add: nat_str.simps [of n])

lemma length_nat_str_small: "n < 10 \<Longrightarrow> length (nat_str n) = 1"
  by (simp add: nat_str.simps [of n])

lemma length_nat_str_4: "1000 \<le> n \<Longrightarrow> n < 10000 \<Longrightarrow> length (nat_str n) = 4"
proof -
  assume a: "1000 \<le> n" "n < 10000"
  then have "10 \<le> n" "10 \<le> n div 10" "10 \<le> n div 10 div 10" "n div 10 div 10 div 10 < 10"
    by linarith+
  then show ?thesis
    by (simp add: length_nat_str_step length_nat_str_small)
qed

lemma length_nat_str_2: "10 \<le> n \<Longrightarrow> n < 100 \<Longrightarrow> length (nat_str n) = 2"
  by (simp add: length_nat_str_step length_nat_str_small)


lemma digits_val_zeros: "digits_val (replicate k CHR ''0'' @ xs) = digits_val xs"
proof -
  have "foldl (\<lambda>acc c. 10 * acc + (of_char c - 48)) 0 (replicate k CHR ''0'') = (0::nat)"
    by (induction k) auto
  then show ?thesis by (simp add: digits_val_def)
qed

lemma pad2_facts:
  assumes "k < 100"
  shows "length (pad2 k) = 2" and "digits_val (pad2 k) = k" and "\<forall>c \<in> set (pad2 k). is_digit c"
proof -
  have len: "length (nat_str k) \<le> 2"
    using assms by (cases "k < 10") (simp_all add: length_nat_str_small length_nat_str_2)
  then show "length (pad2 k) = 2" by (simp add: pad2_def pad_start_def)
  show "digits_val (pad2 k) = k"
    by (simp add: pad2_def pad_start_def digits_val_zeros digits_val_nat_str)
  have "is_digit CHR ''0''" by (simp add: is_digit_def)
  then show "\<forall>c \<in> set (pad2 k). is_digit c"
    using nat_str_digits [of k] by (auto simp: pad2_def pad_start_def)
qed

lemma days_in_month_le: "days_in_month y m \<le> 31"
  by (simp add: days_in_month_def)

lemma format_date_parts:
  assumes "0 \<le> year d"
  shows "format_date d = nat_str (nat (year d)) @ CHR ''-'' # pad2 (month d) @ CHR ''-'' # pad2 (mday d)"
  using assms by (simp add: format_date_def int_str_def)

lemma parse_iso_date_format_date:
  assumes v: "valid_date d" and y: "1000 \<le> year d" "year d \<le> 9999"
  shows "parse_iso_date (format_date d) = Some d"
proof -
  let ?y = "nat_str (nat (year d))" and ?m = "pad2 (month d)" and ?dd = "pad2 (mday d)"
  have m: "month d < 100" and dd: "mday d < 100"
    using v days_in_month_le [of "year d" "month d"] by (auto simp: valid_date_def)
  have ly: "length ?y = 4" using y by (simp add: length_nat_str_4)
  have lm: "length ?m = 2" and ld: "length ?dd = 2"
    using pad2_facts m dd by blast+
  have digs: "\<forall>c \<in> set (?y @ ?m @ ?dd). is_digit c"
    using nat_str_digits pad2_facts(3) [OF m] pad2_facts(3) [OF dd] by auto
  have vals: "int (digits_val ?y) = year d" "digits_val ?m = month d" "digits_val ?dd = mday d"
    using y pad2_facts(2) [OF m] pad2_facts(2) [OF dd] by (simp_all add: digits_val_nat_str)
  have d: "CDate (year d) (month d) (mday d) = d" by (cases d) simp
  have fd: "format_date d = ?y @ CHR ''-'' # ?m @ CHR ''-'' # ?dd"
    using y(1) by (simp add: format_date_parts)
  show ?thesis
    unfolding fd parse_iso_date_def
    using ly lm ld digs vals v d
    by (simp add: nth_append take_append drop_append)
qed

section \<open>Time zones\<close>

lemma days_in_month_ge: "28 \<le> days_in_month y m"
  by (simp add: days_in_month_def)

lemma valid_date_prev_day: "valid_date d \<Longrightarrow> valid_date (prev_day d)"
proof -
  assume v: "valid_date d"
  have dec: "days_in_month y 12 = 31" for y by (simp add: days_in_month_def)
  show ?thesis
  proof (cases "1 < mday d")
    case True
    with v show ?thesis by (auto simp: valid_date_def prev_day_def)
  next
    case False
    with v days_in_month_ge [of "year d" "month d - 1"] show ?thesis
      by (simp add: valid_date_def prev_day_def dec) linarith
  qed
qed
lemma prev_day_less: "valid_date d \<Longrightarrow> prev_day d < d"
  by (auto simp: prev_day_def less_cdate_def cdate_key_def valid_date_def)

lemma format_date_inj:
  assumes "valid_date a" "valid_date b" "1000 \<le> year a" "year a \<le> 9999" "1000 \<le> year b" "year b \<le> 9999"
    and "format_date a = format_date b"
  shows "a = b"
proof -
  have "Some a = Some b"
    using parse_iso_date_format_date [of a] parse_iso_date_format_date [of b] assms by metis
  then show ?thesis by simp
qed

lemma reformat_api_date_east:
  "0 \<le> tz \<Longrightarrow> parse_iso_date s = Some d \<Longrightarrow> reformat_api_date tz s = format_date d"
  by (simp add: reformat_api_date_def local_date_of_utc_def format_js_date_def)

lemma reformat_api_date_west:
  "tz < 0 \<Longrightarrow> parse_iso_date s = Some d \<Longrightarrow> reformat_api_date tz s = format_date (prev_day d)"
  by (simp add: reformat_api_date_def local_date_of_utc_def format_js_date_def)

lemma parse_iso_date_valid: "parse_iso_date s = Some d \<Longrightarrow> valid_date d"
  by (auto simp: parse_iso_date_def Let_def split: if_splits)

lemma parse_iso_date_year: "parse_iso_date s = Some d \<Longrightarrow> 0 \<le> year d"
  by (auto simp: parse_iso_date_def Let_def split: if_splits)

section \<open>Claims about dates\<close>

text \<open>
  (C14) A date the client sends in the API form \<open>YYYY-MM-DD\<close> (the form
  \<open>formatDate\<close> and \<open>toLocaleDateString("en-CA")\<close> produce) comes back through
  \<open>formatDate(new Date(s))\<close> as the same string in a time zone at or east of UTC,
  and as the day before west of UTC.
\<close>

theorem api_date_roundtrip:
  assumes "valid_date d" and "1001 \<le> year d" and "year d \<le> 9999"
  shows "reformat_api_date tz (format_date d) = (if tz < 0 then format_date (prev_day d) else format_date d)
         \<and> (tz < 0 \<longrightarrow> format_date (prev_day d) \<noteq> format_date d)"
proof -
  have p: "parse_iso_date (format_date d) = Some d"
    using assms by (intro parse_iso_date_format_date) simp_all
  have "format_date (prev_day d) \<noteq> format_date d"
  proof
    assume "format_date (prev_day d) = format_date d"
    moreover have "valid_date (prev_day d)" using assms(1) by (rule valid_date_prev_day)
    moreover have "1000 \<le> year (prev_day d) \<and> year (prev_day d) \<le> 9999"
      using assms by (auto simp: prev_day_def)
    ultimately have "prev_day d = d" using assms by (intro format_date_inj) simp_all
    with prev_day_less [OF assms(1)] show False by simp
  qed
  with p show ?thesis by (simp add: reformat_api_date_east reformat_api_date_west)
qed

end
