(* ===== verification/Template.thy ===== *)
theory Template
  imports Dates
begin

text \<open>
  The availability template: the \<open>TimeSlot\<close> record of
  \<open>AvailabilityCalendar.tsx\<close>, the weekday-keyed dictionary a tutor publishes
  (\<open>Record<string, TimeSlot>\<close>), and the editor component \<open>AvailabilityPicker.tsx\<close>
  that builds it: its default, its initial merge with the prop, its prop-sync
  effect and its per-field change handler, as one state machine over picker
  events. The invariant is that all seven weekday keys the picker renders are
  present, so its render never reads a field of \<open>undefined\<close>.
\<close>

section \<open>Data\<close>

text \<open>\<open>interface TimeSlot { enabled: boolean; start: string; end: string }\<close>\<close>

record time_slot =
  ts_enabled :: bool
  ts_start :: string
  ts_end :: string

text \<open>A dictionary from weekday abbreviation (\<open>"Mon"\<close>) to slot.\<close>

type_synonym availability = "string \<rightharpoonup> time_slot"

section \<open>AvailabilityPicker\<close>

definition days_of_week :: "string list" where
  "days_of_week = [''Mon'', ''Tue'', ''Wed'', ''Thu'', ''Fri'', ''Sat'', ''Sun'']"

text \<open>\<open>daysOfWeek.reduce(...)\<close>: every day disabled, 09:00 to 17:00.\<close>

definition default_slot :: time_slot where
  "default_slot = \<lparr>ts_enabled = False, ts_start = ''09:00'', ts_end = ''17:00''\<rparr>"

definition default_availability :: availability where
  "default_availability = foldl (\<lambda>acc day. acc(day \<mapsto> default_slot)) Map.empty days_of_week"

text \<open>\<open>value ? { ...defaultAvailability, ...value } : defaultAvailability\<close>\<close>

definition picker_init :: "availability option \<Rightarrow> availability" where
  "picker_init value = (case value of None \<Rightarrow> default_availability
                                    | Some v \<Rightarrow> default_availability ++ v)"

text \<open>The three fields \<open>handleAvailabilityChange\<close> may set, with their values.\<close>

datatype slot_field = Set_start string | Set_end string | Set_enabled bool

fun update_slot :: "slot_field \<Rightarrow> time_slot \<Rightarrow> time_slot" where
  "update_slot (Set_start s) ts = ts\<lparr>ts_start := s\<rparr>"
| "update_slot (Set_end s) ts = ts\<lparr>ts_end := s\<rparr>"
| "update_slot (Set_enabled b) ts = ts\<lparr>ts_enabled := b\<rparr>"

text \<open>
  \<open>{ ...prev, [day]: { ...prev[day], [field]: value } }\<close>. Spreading an absent
  \<open>prev[day]\<close> would give an object with the one field only; the picker only
  calls the handler with a day of \<open>daysOfWeek\<close>, which the invariant below keeps
  present, so that branch (modelled with the falsy/empty fields \<open>undefined\<close>
  reads as) is never taken.
\<close>

definition handle_availability_change :: "string \<Rightarrow> slot_field \<Rightarrow> availability \<Rightarrow> availability" where
  "handle_availability_change day f prev =
     prev(day \<mapsto> update_slot f (case prev day of Some ts \<Rightarrow> ts
                                   | None \<Rightarrow> \<lparr>ts_enabled = False, ts_start = [], ts_end = []\<rparr>))"

text \<open>
  The \<open>[value]\<close> effect: a new prop that differs from the state is merged over it
  (\<open>{ ...prev, ...value }\<close>); an absent prop or an equal one changes nothing.
\<close>

definition picker_sync :: "availability option \<Rightarrow> availability \<Rightarrow> availability" where
  "picker_sync value prev =
     (case value of None \<Rightarrow> prev | Some v \<Rightarrow> if v = prev then prev else prev ++ v)"

text \<open>What happens to a mounted picker: the user edits a field, or the parent passes a new prop.\<close>

datatype picker_event = Edit string slot_field | Prop_change "availability option"

fun picker_step :: "availability \<Rightarrow> picker_event \<Rightarrow> availability" where
  "picker_step a (Edit day f) = handle_availability_change day f a"
| "picker_step a (Prop_change v) = picker_sync v a"

text \<open>
  A run from mounting with an initial prop; the \<open>[availability]\<close> effect reports
  every state to \<open>onChange\<close>, so the list of reported values is the run's states.
\<close>

definition picker_run :: "availability option \<Rightarrow> picker_event list \<Rightarrow> availability" where
  "picker_run v0 evs = foldl picker_step (picker_init v0) evs"

text \<open>
  The render reads \<open>availability[day].enabled\<close>, \<open>.start\<close> and \<open>.end\<close> for each
  day of \<open>daysOfWeek\<close>; a missing day is a TypeError, \<open>None\<close> here.
\<close>

definition picker_rows :: "availability \<Rightarrow> (string \<times> time_slot) list option" where
  "picker_rows a = those (map (\<lambda>day. map_option (\<lambda>ts. (day, ts)) (a day)) days_of_week)"

definition picker_wf :: "availability \<Rightarrow> bool" where
  "picker_wf a \<longleftrightarrow> (\<forall>day \<in> set days_of_week. day \<in> dom a)"

section \<open>Properties of the picker\<close>

lemma dom_default_availability: "dom default_availability = set days_of_week"
proof -
  have "\<And>m. dom (foldl (\<lambda>acc day. acc(day \<mapsto> default_slot)) m days_of_week) = dom m \<union> set days_of_week"
    by (simp add: days_of_week_def insert_commute)
  then show ?thesis by (simp add: default_availability_def)
qed

lemma picker_wf_init: "picker_wf (picker_init v)"
  by (auto simp: picker_wf_def picker_init_def dom_default_availability split: option.splits)

lemma picker_wf_step: "picker_wf a \<Longrightarrow> picker_wf (picker_step a e)"
  by (cases e) (auto simp: picker_wf_def handle_availability_change_def picker_sync_def
                     split: option.splits)

lemma picker_wf_run: "picker_wf (picker_run v evs)"
proof -
  have "\<And>a. picker_wf a \<Longrightarrow> picker_wf (foldl picker_step a evs)"
    by (induction evs) (auto intro: picker_wf_step)
  then show ?thesis by (simp add: picker_run_def picker_wf_init)
qed

lemma picker_rows_Some_iff: "picker_rows a \<noteq> None \<longleftrightarrow> picker_wf a"
  unfolding picker_rows_def picker_wf_def those_not_None_iff by (simp add: domIff)

lemma handle_change_frame: "d \<noteq> day \<Longrightarrow> handle_availability_change day f a d = a d"
  by (simp add: handle_availability_change_def)

lemma update_slot_fields:
  "ts_enabled (update_slot f ts) = (case f of Set_enabled b \<Rightarrow> b | _ \<Rightarrow> ts_enabled ts)"
  "ts_start (update_slot f ts) = (case f of Set_start s \<Rightarrow> s | _ \<Rightarrow> ts_start ts)"
  "ts_end (update_slot f ts) = (case f of Set_end s \<Rightarrow> s | _ \<Rightarrow> ts_end ts)"
  by (cases f; simp)+


lemma those_rows_fst:
  "those (map (\<lambda>day. map_option (\<lambda>ts. (day, ts)) (a day)) ds) = Some rows \<Longrightarrow> map fst rows = ds"
  by (induction ds arbitrary: rows) (auto split: option.splits)

text \<open>(C13) Whatever prop the availability picker is mounted with and whatever the user edits or the parent passes later, every state it reaches has a slot for each of the seven weekdays, so its render never reads a missing day: it always shows exactly one row per weekday, in order.\<close>

theorem picker_rows_total:
  "\<exists>rows. picker_rows (picker_run v evs) = Some rows \<and> map fst rows = days_of_week"
proof -
  obtain rows where r: "picker_rows (picker_run v evs) = Some rows"
    using picker_rows_Some_iff picker_wf_run by blast
  then have "map fst rows = days_of_week" unfolding picker_rows_def by (rule those_rows_fst)
  with r show ?thesis by blast
qed

end
