(* ===== verification/Calendar.thy ===== *)
theory Calendar
  imports Template
begin

text \<open>
  \<open>AvailabilityCalendar.tsx\<close>: the slot status resolver (\<open>getSlotStatus\<close> over the
  four status-date sets built from \<open>bookedSlots\<close>), the month enumeration
  (\<open>getMonthDates\<close>), the per-day cell the component renders (status, label, CSS
  classes, whether a click reaches \<open>onSlotClick\<close>), and the month navigation.
  The runtime environment the component reads is explicit: the browser's time
  zone \<open>tz\<close> (minutes east of UTC), the local date \<open>today\<close>, and the browser
  locale's short weekday names \<open>day_name\<close>.
\<close>

section \<open>Data\<close>

datatype role = Tutor | Student

text \<open>\<open>type SlotStatus\<close>, in the source's order.\<close>

datatype slot_status =
  StBooked | StPending | StOnHold | StRescheduleRequested | StAvailable | StDisabled | StExpired

text \<open>An element of the \<open>bookedSlots\<close> prop: \<open>{ date: string; status: string }\<close>.\<close>

record booked_slot =
  bs_date :: string
  bs_status :: string

section \<open>The resolver\<close>

text \<open>
  \<open>bookedDatesSet\<close>, \<open>pendingDatesSet\<close>, \<open>onHoldDatesSet\<close>, \<open>rescheduleDatesSet\<close>:
  the dates, reformatted through \<open>formatDate(new Date(b.date))\<close>, of the slots
  with the given status string.
\<close>

definition status_dates :: "int \<Rightarrow> booked_slot list \<Rightarrow> string \<Rightarrow> string list" where
  "status_dates tz slots st = map (\<lambda>b. reformat_api_date tz (bs_date b)) (filter (\<lambda>b. bs_status b = st) slots)"

text \<open>\<open>isPastDate\<close>: strictly before today's local midnight.\<close>

definition is_past_date :: "cdate \<Rightarrow> cdate \<Rightarrow> bool" where
  "is_past_date today d \<longleftrightarrow> d < today"

definition get_slot_status :: "int \<Rightarrow> cdate \<Rightarrow> booked_slot list \<Rightarrow> cdate \<Rightarrow> bool \<Rightarrow> slot_status" where
  "get_slot_status tz today slots date en =
     (if \<not> en then StDisabled
      else let f = format_date date in
        if f \<in> set (status_dates tz slots ''confirmed'') then StBooked
        else if f \<in> set (status_dates tz slots ''pending'') then StPending
        else if f \<in> set (status_dates tz slots ''on_hold'') then StOnHold
        else if f \<in> set (status_dates tz slots ''reschedule_requested'') then StRescheduleRequested
        else if is_past_date today date then StExpired
        else StAvailable)"

section \<open>The month grid\<close>

text \<open>
  The loop of \<open>getMonthDates\<close>:
  \<open>for (let d = firstDay.getDate(); d <= lastDay.getDate(); d++) dates.push(new Date(year, month, d))\<close>.
  What decreases is the number of days left, \<open>last_day + 1 - d\<close>.
\<close>

function month_loop :: "int \<Rightarrow> nat \<Rightarrow> nat \<Rightarrow> nat \<Rightarrow> cdate list \<Rightarrow> cdate list" where
  "month_loop y m d last_day dates = (if d \<le> last_day then month_loop y m (Suc d) last_day (dates @ [CDate y m d]) else dates)"
  by pat_completeness auto
termination
  by (relation "measure (\<lambda>(y, m, d, last_day, dates). Suc last_day - d)") auto

text \<open>
  \<open>getMonthDates\<close>: the loop from \<open>firstDay = new Date(year, month, 1)\<close> to
  \<open>lastDay = new Date(year, month + 1, 0)\<close>, the month's last day.
\<close>

definition get_month_dates :: "cdate \<Rightarrow> cdate list" where
  "get_month_dates start = month_loop (year start) (month start) 1 (days_in_month (year start) (month start)) []"

text \<open>
  \<open>date.toLocaleDateString(undefined, { weekday: "short" })\<close> in an English
  locale; the component looks this string up in the template.
\<close>

definition en_short_weekday :: "weekday \<Rightarrow> string" where
  "en_short_weekday w = (case w of Sun \<Rightarrow> ''Sun'' | Mon \<Rightarrow> ''Mon'' | Tue \<Rightarrow> ''Tue''
     | Wed \<Rightarrow> ''Wed'' | Thu \<Rightarrow> ''Thu'' | Fri \<Rightarrow> ''Fri'' | Sat \<Rightarrow> ''Sat'')"

definition day_slot :: "(weekday \<Rightarrow> string) \<Rightarrow> availability \<Rightarrow> cdate \<Rightarrow> time_slot option" where
  "day_slot day_name avail d = avail (day_name (get_day d))"

text \<open>\<open>slot?.enabled ?? false\<close>\<close>

definition slot_enabled :: "time_slot option \<Rightarrow> bool" where
  "slot_enabled slot = (case slot of None \<Rightarrow> False | Some ts \<Rightarrow> ts_enabled ts)"

text \<open>\<open>studentClasses\<close> and \<open>tutorClasses\<close>, indexed by the status.\<close>

definition day_classes :: "role \<Rightarrow> slot_status \<Rightarrow> string" where
  "day_classes r st = (case r of
     Student \<Rightarrow> (case st of
         StBooked \<Rightarrow> ''bg-red-200 text-red-700 cursor-not-allowed''
       | StPending \<Rightarrow> ''bg-yellow-200 text-yellow-700 cursor-not-allowed''
       | StOnHold \<Rightarrow> ''bg-purple-200 text-purple-800 cursor-not-allowed''
       | StRescheduleRequested \<Rightarrow> ''bg-blue-200 text-blue-800 cursor-not-allowed''
       | StAvailable \<Rightarrow> ''bg-green-100 hover:bg-green-200 cursor-pointer''
       | StDisabled \<Rightarrow> ''bg-gray-100 cursor-not-allowed''
       | StExpired \<Rightarrow> ''bg-gray-200 text-gray-400 cursor-not-allowed opacity-50 hover:bg-transparent'')
   | Tutor \<Rightarrow> (case st of
         StBooked \<Rightarrow> ''bg-green-100 hover:bg-green-200 cursor-pointer''
       | StPending \<Rightarrow> ''bg-yellow-200 text-yellow-700 cursor-pointer''
       | StOnHold \<Rightarrow> ''bg-purple-200 text-purple-800 cursor-pointer''
       | StRescheduleRequested \<Rightarrow> ''bg-blue-200 text-blue-800 cursor-not-allowed''
       | StAvailable \<Rightarrow> ''cursor-not-allowed''
       | StDisabled \<Rightarrow> ''bg-gray-100 cursor-not-allowed''
       | StExpired \<Rightarrow> ''bg-gray-200 text-gray-400 cursor-not-allowed opacity-50 hover:bg-transparent''))"

text \<open>\<open>combinedClasses\<close>: past days get an overlay that forces \<open>cursor-not-allowed\<close>.\<close>

definition combined_classes :: "role \<Rightarrow> cdate \<Rightarrow> slot_status \<Rightarrow> cdate \<Rightarrow> string" where
  "combined_classes r today st d =
     day_classes r st @ '' '' @
     (if is_past_date today d then ''opacity-50 text-gray-400 !cursor-not-allowed hover:!bg-transparent'' else [])"

text \<open>
  The cell's \<open>onClick\<close>: nothing on a past day, nothing on a disabled one;
  otherwise a student reaches \<open>onSlotClick\<close> only on an available day, a tutor
  on every day that is not awaiting a reschedule decision.
\<close>

definition cell_click :: "role \<Rightarrow> cdate \<Rightarrow> time_slot option \<Rightarrow> slot_status \<Rightarrow> cdate \<Rightarrow> bool" where
  "cell_click r today slot st d =
     (if is_past_date today d then False
      else if \<not> slot_enabled slot then False
      else (r = Student \<and> st = StAvailable) \<or> (r = Tutor \<and> st \<noteq> StRescheduleRequested))"

text \<open>The text lines under the day number.\<close>

definition cell_label :: "time_slot option \<Rightarrow> slot_status \<Rightarrow> string list" where
  "cell_label slot st = (case st of
       StBooked \<Rightarrow> [''Booked''] | StPending \<Rightarrow> [''Pending''] | StOnHold \<Rightarrow> [''On Hold'']
     | StRescheduleRequested \<Rightarrow> [''Reschedule Requested'']
     | StAvailable \<Rightarrow> (case slot of Some ts \<Rightarrow> if ts_enabled ts then [ts_start ts @ '' - '' @ ts_end ts] else []
                                 | None \<Rightarrow> [])
     | StDisabled \<Rightarrow> [] | StExpired \<Rightarrow> [''Expired''])"

text \<open>What the calendar shows for one day.\<close>

record cell =
  cell_date :: cdate
  cell_status :: slot_status
  cell_text :: "string list"
  cell_classes :: string
  cell_clickable :: bool

text \<open>The environment the component reads besides its props.\<close>

record env =
  env_tz :: int
  env_today :: cdate
  env_day_name :: "weekday \<Rightarrow> string"

definition render_cell :: "env \<Rightarrow> role \<Rightarrow> availability \<Rightarrow> booked_slot list \<Rightarrow> cdate \<Rightarrow> cell" where
  "render_cell e r avail slots d =
     (let slot = day_slot (env_day_name e) avail d;
          st = get_slot_status (env_tz e) (env_today e) slots d (slot_enabled slot)
      in \<lparr>cell_date = d, cell_status = st, cell_text = cell_label slot st,
          cell_classes = combined_classes r (env_today e) st d,
          cell_clickable = cell_click r (env_today e) slot st d\<rparr>)"

text \<open>The grid of a month: \<open>getDay()\<close> of the first as leading blanks, then one cell per day.\<close>

definition leading_blanks :: "cdate \<Rightarrow> nat" where
  "leading_blanks start = (case get_day (CDate (year start) (month start) 1) of
     Sun \<Rightarrow> 0 | Mon \<Rightarrow> 1 | Tue \<Rightarrow> 2 | Wed \<Rightarrow> 3 | Thu \<Rightarrow> 4 | Fri \<Rightarrow> 5 | Sat \<Rightarrow> 6)"

definition project :: "env \<Rightarrow> role \<Rightarrow> availability \<Rightarrow> booked_slot list \<Rightarrow> cdate \<Rightarrow> cell list" where
  "project e r avail slots month_start = map (render_cell e r avail slots) (get_month_dates month_start)"

section \<open>Month navigation\<close>

text \<open>\<open>new Date(y, m, 1)\<close> of the initial month: the first of that month.\<close>

definition month_start_of :: "cdate \<Rightarrow> cdate" where
  "month_start_of d = CDate (year d) (month d) 1"

text \<open>\<open>new Date(prev.getFullYear(), prev.getMonth() \<plusminus> 1, 1)\<close>, with the month rolling over the year.\<close>

definition go_next_month :: "cdate \<Rightarrow> cdate" where
  "go_next_month d = (if month d = 12 then CDate (year d + 1) 1 1 else CDate (year d) (month d + 1) 1)"

definition go_prev_month :: "cdate \<Rightarrow> cdate" where
  "go_prev_month d = (if month d = 1 then CDate (year d - 1) 12 1 else CDate (year d) (month d - 1) 1)"

text \<open>
  The component's own state: the month shown and the loading flag. Changing
  month sets the flag (and reports the new month to \<open>onMonthChange\<close>); the
  \<open>[bookedSlots]\<close> effect clears it, since \<open>bookedSlots.length >= 0\<close> always holds.
\<close>

record cal_state =
  cal_month :: cdate
  cal_loading :: bool

datatype cal_event = Prev_month | Next_month | Slots_arrived

fun cal_step :: "cal_state \<Rightarrow> cal_event \<Rightarrow> cal_state" where
  "cal_step s Prev_month = \<lparr>cal_month = go_prev_month (cal_month s), cal_loading = True\<rparr>"
| "cal_step s Next_month = \<lparr>cal_month = go_next_month (cal_month s), cal_loading = True\<rparr>"
| "cal_step s Slots_arrived = s\<lparr>cal_loading := False\<rparr>"

definition cal_init :: "cdate option \<Rightarrow> cdate \<Rightarrow> cal_state" where
  "cal_init initial today =
     \<lparr>cal_month = month_start_of (case initial of Some d \<Rightarrow> d | None \<Rightarrow> today), cal_loading = True\<rparr>"

section \<open>Properties of the resolver\<close>

definition live_status_strs :: "string list" where
  "live_status_strs = [''confirmed'', ''pending'', ''on_hold'', ''reschedule_requested'']"

lemma mem_status_dates [status_simps]:
  "f \<in> set (status_dates tz slots st) \<longleftrightarrow> (\<exists>b \<in> set slots. bs_status b = st \<and> reformat_api_date tz (bs_date b) = f)"
  by (auto simp: status_dates_def)


lemma get_slot_status_expired_iff:
  "get_slot_status tz today slots d en = StExpired \<longleftrightarrow>
     en \<and> d < today \<and>
     (\<forall>b \<in> set slots. bs_status b \<in> set live_status_strs \<longrightarrow> reformat_api_date tz (bs_date b) \<noteq> format_date d)"
  by (auto simp: get_slot_status_def Let_def status_simps is_past_date_def live_status_strs_def)

lemma get_slot_status_no_slots:
  "get_slot_status tz today [] d en = (if \<not> en then StDisabled else if d < today then StExpired else StAvailable)"
  by (simp add: get_slot_status_def status_dates_def is_past_date_def)

lemma local_date_of_utc_range:
  assumes "valid_date d" "1001 \<le> year d" "year d \<le> 9999"
  shows "valid_date (local_date_of_utc tz d) \<and> 1000 \<le> year (local_date_of_utc tz d) \<and> year (local_date_of_utc tz d) \<le> 9999"
  using assms valid_date_prev_day [of d]
  by (auto simp: local_date_of_utc_def prev_day_def)

section \<open>Properties of the grid\<close>

declare month_loop.simps [simp del]

lemma month_loop_eq: "month_loop y m d last_day dates = dates @ map (CDate y m) [d..<Suc last_day]"
proof (induction y m d last_day dates rule: month_loop.induct)
  case (1 y m d last_day dates)
  show ?case
  proof (cases "d \<le> last_day")
    case True
    then have "[d..<Suc last_day] = d # [Suc d..<Suc last_day]" by (simp add: upt_conv_Cons)
    then show ?thesis using "1.IH" True by (simp add: month_loop.simps [of y m d last_day dates])
  next
    case False
    then show ?thesis by (simp add: month_loop.simps [of y m d last_day dates])
  qed
qed

text \<open>(C37) The for loop of getMonthDates ends for every month after one iteration per remaining day, and what it has pushed when it ends is the list of the days from its start to the month's last day, in order.\<close>

theorem month_loop_result:
  "month_loop y m d last_day dates = dates @ map (CDate y m) [d..<Suc last_day]
   \<and> length (month_loop y m d last_day dates) = length dates + (Suc last_day - d)"
  by (simp add: month_loop_eq Suc_diff_le)

lemma get_month_dates_eq:
  "get_month_dates start = map (CDate (year start) (month start)) [1..<Suc (days_in_month (year start) (month start))]"
  by (simp add: get_month_dates_def month_loop_eq)

lemma length_get_month_dates: "length (get_month_dates ms) = days_in_month (year ms) (month ms)"
  by (simp add: get_month_dates_eq)

lemma nth_get_month_dates:
  "i < days_in_month (year ms) (month ms) \<Longrightarrow> get_month_dates ms ! i = CDate (year ms) (month ms) (Suc i)"
  by (simp add: get_month_dates_eq del: upt_Suc)

lemma set_get_month_dates:
  "set (get_month_dates ms) = {CDate (year ms) (month ms) k | k. 1 \<le> k \<and> k \<le> days_in_month (year ms) (month ms)}"
  by (auto simp: get_month_dates_eq)

lemma valid_get_month_dates:
  "1 \<le> month ms \<Longrightarrow> month ms \<le> 12 \<Longrightarrow> d \<in> set (get_month_dates ms) \<Longrightarrow> valid_date d"
  by (auto simp: set_get_month_dates valid_date_def)

lemma render_cell_simps:
  "cell_date (render_cell e r avail slots d) = d"
  "cell_status (render_cell e r avail slots d) =
     get_slot_status (env_tz e) (env_today e) slots d (slot_enabled (day_slot (env_day_name e) avail d))"
  "cell_clickable (render_cell e r avail slots d) =
     cell_click r (env_today e) (day_slot (env_day_name e) avail d)
       (get_slot_status (env_tz e) (env_today e) slots d (slot_enabled (day_slot (env_day_name e) avail d))) d"
  by (simp_all add: render_cell_def Let_def)

lemma project_nth:
  "i < length (project e r avail slots ms) \<Longrightarrow>
     project e r avail slots ms ! i = render_cell e r avail slots (CDate (year ms) (month ms) (Suc i))"
  by (simp add: project_def length_get_month_dates nth_get_month_dates)

section \<open>Month navigation\<close>

lemma go_prev_next_month: "1 \<le> month d \<Longrightarrow> month d \<le> 12 \<Longrightarrow> go_prev_month (go_next_month d) = month_start_of d"
  by (auto simp: go_prev_month_def go_next_month_def month_start_of_def)

lemma go_next_prev_month: "1 \<le> month d \<Longrightarrow> month d \<le> 12 \<Longrightarrow> go_next_month (go_prev_month d) = month_start_of d"
  by (auto simp: go_prev_month_def go_next_month_def month_start_of_def)

section \<open>Claims about the calendar\<close>

text \<open>
  (C5) A day resolves to \<open>available\<close> exactly when its template entry is
  enabled, it is not before today, and no booking with a live status
  (\<open>confirmed\<close>, \<open>pending\<close>, \<open>on_hold\<close>, \<open>reschedule_requested\<close>) falls on it after
  the calendar's date reformatting.
\<close>

theorem resolver_available_iff:
  "get_slot_status tz today slots d en = StAvailable \<longleftrightarrow>
     en \<and> \<not> d < today \<and>
     (\<forall>b \<in> set slots. bs_status b \<in> set live_status_strs \<longrightarrow> reformat_api_date tz (bs_date b) \<noteq> format_date d)"
  by (auto simp: get_slot_status_def Let_def status_simps is_past_date_def live_status_strs_def)

text \<open>
  (C6) The projection of a month has one cell per day of that month, in order,
  and the status of the cell for day \<open>i + 1\<close> is the resolver's answer for that
  date, with the template entry of that date's weekday name.
\<close>

theorem grid_month_shape:
  "length (project e r avail slots ms) = days_in_month (year ms) (month ms) \<and>
   (\<forall>i < length (project e r avail slots ms).
      cell_date (project e r avail slots ms ! i) = CDate (year ms) (month ms) (Suc i) \<and>
      cell_status (project e r avail slots ms ! i) =
        get_slot_status (env_tz e) (env_today e) slots (CDate (year ms) (month ms) (Suc i))
          (slot_enabled (avail (env_day_name e (get_day (CDate (year ms) (month ms) (Suc i)))))))"
  by (simp add: project_nth render_cell_simps day_slot_def) (simp add: project_def length_get_month_dates)

text \<open>
  (C7) In the student's calendar a day reaches \<open>onSlotClick\<close> (and so can be
  booked or chosen as a reschedule target) exactly when it shows \<open>available\<close>.
\<close>

theorem student_click_iff_available:
  "cell_clickable (render_cell e Student avail slots d) \<longleftrightarrow>
   cell_status (render_cell e Student avail slots d) = StAvailable"
  by (auto simp: render_cell_simps cell_click_def get_slot_status_def is_past_date_def Let_def
           split: if_splits)

text \<open>
  (C8) A confirmed booking wins: on an enabled day that a \<open>confirmed\<close> booking
  falls on, the resolver answers \<open>booked\<close> whatever other bookings share the day
  and even when the day is past (history stays visible).
\<close>

theorem resolver_confirmed_wins:
  assumes "en" and "b \<in> set slots" and "bs_status b = ''confirmed''"
    and "reformat_api_date tz (bs_date b) = format_date d"
  shows "get_slot_status tz today slots d en = StBooked"
  using assms by (auto simp: get_slot_status_def Let_def status_simps)

text \<open>
  (C10) A day whose weekday has no enabled template entry shows \<open>disabled\<close>, has
  no text and cannot be clicked, whatever bookings exist for it.
\<close>

theorem grid_disabled_days:
  assumes "c \<in> set (project e r avail slots ms)"
    and "\<not> slot_enabled (avail (env_day_name e (get_day (cell_date c))))"
  shows "cell_status c = StDisabled \<and> \<not> cell_clickable c \<and> cell_text c = []"
proof -
  from assms(1) obtain d where c: "c = render_cell e r avail slots d" by (auto simp: project_def)
  with assms(2) show ?thesis
    by (simp add: render_cell_def Let_def day_slot_def get_slot_status_def cell_click_def cell_label_def)
qed

text \<open>
  With a template enabled only on Monday and no bookings, every Monday of
  the month shows \<open>available\<close> (\<open>expired\<close> when past) and every other day shows
  \<open>disabled\<close>.
\<close>

theorem grid_monday_only:
  assumes "ts_enabled ts" and "env_day_name e = en_short_weekday"
    and "c \<in> set (project e r [''Mon'' \<mapsto> ts] [] ms)"
  shows "cell_status c = (if get_day (cell_date c) = Mon
                          then (if cell_date c < env_today e then StExpired else StAvailable)
                          else StDisabled)"
proof -
  from assms(3) obtain d where c: "c = render_cell e r [''Mon'' \<mapsto> ts] [] d" by (auto simp: project_def)
  have "slot_enabled ([''Mon'' \<mapsto> ts] (en_short_weekday w)) = (w = Mon)" for w
    using assms(1) by (cases w) (simp_all add: slot_enabled_def en_short_weekday_def)
  with c assms(2) show ?thesis
    by (simp add: render_cell_simps day_slot_def get_slot_status_no_slots)
qed

text \<open>
  (C15) The calendar shows a booking on the \<^emph>\<open>local\<close> date of the UTC midnight
  its date string denotes: on that date at or east of UTC, but on the day
  before west of UTC (\<open>new Date("YYYY-MM-DD")\<close> is UTC, \<open>formatDate\<close> reads local
  fields).
\<close>

theorem booking_shown_on_local_date:
  assumes p: "parse_iso_date s = Some d" and yd: "1001 \<le> year d" "year d \<le> 9999"
    and x: "valid_date x" "1000 \<le> year x" "year x \<le> 9999"
  shows "get_slot_status tz today [\<lparr>bs_date = s, bs_status = ''confirmed''\<rparr>] x True = StBooked \<longleftrightarrow>
         x = local_date_of_utc tz d"
proof -
  have v: "valid_date d" using p by (rule parse_iso_date_valid)
  have r: "reformat_api_date tz s = format_date (local_date_of_utc tz d)"
    using p by (simp add: reformat_api_date_def format_js_date_def)
  have "get_slot_status tz today [\<lparr>bs_date = s, bs_status = ''confirmed''\<rparr>] x True = StBooked \<longleftrightarrow>
        format_date (local_date_of_utc tz d) = format_date x"
    by (simp add: get_slot_status_def Let_def status_simps r)
  also have "\<dots> \<longleftrightarrow> x = local_date_of_utc tz d"
    using format_date_inj [of "local_date_of_utc tz d" x] local_date_of_utc_range [OF v yd] x by auto
  finally show ?thesis .
qed

text \<open>
  In the tutor's calendar a click reaches \<open>onSlotClick\<close> only on a day
  that is not past and shows \<open>booked\<close>, \<open>pending\<close>, \<open>on_hold\<close> or \<open>available\<close>.
\<close>

theorem tutor_click_statuses:
  "cell_clickable (render_cell e Tutor avail slots d) \<Longrightarrow>
   \<not> d < env_today e \<and> cell_status (render_cell e Tutor avail slots d) \<in> {StBooked, StPending, StOnHold, StAvailable}"
  by (auto simp: render_cell_simps cell_click_def get_slot_status_def is_past_date_def Let_def
           split: if_splits)

text \<open>Going one month forward and back (or back and forward) returns to the first of the month shown.\<close>

theorem month_navigation_roundtrip:
  "1 \<le> month (cal_month s) \<Longrightarrow> month (cal_month s) \<le> 12 \<Longrightarrow>
   cal_month (cal_step (cal_step s Next_month) Prev_month) = month_start_of (cal_month s) \<and>
   cal_month (cal_step (cal_step s Prev_month) Next_month) = month_start_of (cal_month s)"
  by (simp add: go_prev_next_month go_next_prev_month)


end
