(* ===== verification/Cost.thy ===== *)
theory Cost
  imports Dates
begin

text \<open>
  The two cost computations of the booking flow. \<open>BookingModal.tsx\<close> shows an
  estimate: it parses the slot's times as \<open>Date\<close>s on 1970-01-01, adds a day to an
  end before the start, and shows \<open>hours * hourlyRate\<close> when the duration is
  positive. \<open>ViewTutorDetails.tsx\<close> (\<open>confirmBooking\<close>) computes the amount sent with
  the booking request: it splits the times at \<open>":"\<close>, converts the parts with
  \<open>Number\<close>, adds 24 to a negative duration, and refuses a non-positive or \<open>NaN\<close>
  amount. \<open>NaN\<close> is \<open>None\<close> throughout (\<open>js_num\<close>).
\<close>

section \<open>JavaScript primitives\<close>

text \<open>
  \<open>Number(s)\<close> on the strings a time input yields: the empty string is 0, a string
  of decimal digits its value, anything else \<open>NaN\<close>. (Signs, blanks, decimals
  and exponents never come out of \<open>split(":")\<close> on an \<open><input type="time">\<close>
  value and are not modelled.)
\<close>

definition js_number :: "string \<Rightarrow> js_num" where
  "js_number s = (if s = [] then Some 0
                  else if (\<forall>c \<in> set s. is_digit c) then Some (of_nat (digits_val s)) else None)"

text \<open>\<open>s.split(c)\<close>: the pieces between separators, always at least one.\<close>

fun split_on :: "char \<Rightarrow> string \<Rightarrow> string list" where
  "split_on c [] = [[]]"
| "split_on c (x # xs) =
     (if x = c then [] # split_on c xs
      else (case split_on c xs of [] \<Rightarrow> [[x]] | w # ws \<Rightarrow> (x # w) # ws))"

text \<open>Destructuring \<open>const [a, b] = xs\<close>: a missing element is \<open>undefined\<close>, and \<open>Number(undefined)\<close> is \<open>NaN\<close>.\<close>

definition part :: "js_num list \<Rightarrow> nat \<Rightarrow> js_num" where
  "part xs k = (if k < length xs then xs ! k else None)"

text \<open>\<open>new Date(`1970-01-01T${t}:00`)\<close>: a valid \<open>HH:mm\<close> time is its minutes after midnight.\<close>

definition valid_hhmm :: "string \<Rightarrow> bool" where
  "valid_hhmm s \<longleftrightarrow> length s = 5 \<and> s ! 2 = CHR '':'' \<and>
     is_digit (s ! 0) \<and> is_digit (s ! 1) \<and> is_digit (s ! 3) \<and> is_digit (s ! 4) \<and>
     digits_val (take 2 s) < 24 \<and> digits_val (drop 3 s) < 60"

definition clock_minutes :: "string \<Rightarrow> js_num" where
  "clock_minutes s = (if valid_hhmm s then Some (of_nat (60 * digits_val (take 2 s) + digits_val (drop 3 s))) else None)"

section \<open>BookingModal: the estimate\<close>

text \<open>
  The \<open>[hourlyRate, slot]\<close> effect. It runs only when \<open>hourlyRate\<close> is truthy (a
  number other than 0 and \<open>NaN\<close>) and both times are non-empty; then it sets
  \<open>diffHours\<close> and \<open>estimatedCost\<close>. \<open>None\<close> is "the effect does nothing" (both
  stay \<open>null\<close>). Comparisons with \<open>NaN\<close> are false, so an unparsable time falls
  through to a \<open>NaN\<close> duration and no cost.
\<close>

definition modal_estimate :: "js_num \<Rightarrow> string \<Rightarrow> string \<Rightarrow> (js_num \<times> rat option) option" where
  "modal_estimate rate st en =
     (case rate of None \<Rightarrow> None | Some r \<Rightarrow>
      if r = 0 \<or> st = [] \<or> en = [] then None
      else (case (clock_minutes st, clock_minutes en) of
              (Some s, Some e) \<Rightarrow>
                if e = s then Some (Some 0, None)
                else (let e' = (if e < s then e + 1440 else e); h = (e' - s) / 60
                      in Some (Some h, if 0 < h then Some (h * r) else None))
            | _ \<Rightarrow> Some (None, None)))"

text \<open>The estimate box is rendered when \<open>hourlyRate && estimatedCost !== null\<close>.\<close>

definition modal_shows_cost :: "js_num \<Rightarrow> string \<Rightarrow> string \<Rightarrow> rat option" where
  "modal_shows_cost rate st en =
     (case modal_estimate rate st en of Some (_, Some c) \<Rightarrow> Some c | _ \<Rightarrow> None)"

section \<open>ViewTutorDetails.confirmBooking: the amount\<close>

text \<open>\<open>const [h, m] = t.split(":").map(Number); h + m / 60\<close>\<close>

definition hm_value :: "string \<Rightarrow> js_num" where
  "hm_value t =
     (let xs = map js_number (split_on CHR '':'' t)
      in case (part xs 0, part xs 1) of (Some h, Some m) \<Rightarrow> Some (h + m / 60) | _ \<Rightarrow> None)"

text \<open>\<open>let hours = (eh + em / 60) - (sh + sm / 60); if (hours < 0) hours += 24;\<close>\<close>

definition confirm_hours :: "string \<Rightarrow> string \<Rightarrow> js_num" where
  "confirm_hours st en =
     (case (hm_value st, hm_value en) of
        (Some s, Some e) \<Rightarrow> (let h = e - s in Some (if h < 0 then h + 24 else h))
      | _ \<Rightarrow> None)"

text \<open>
  \<open>const totalCost = tutor.hourlyRate * hours; if (totalCost <= 0 || isNaN(totalCost))\<close>
  the booking is refused with a toast; otherwise the amount goes into the request.
\<close>

definition booking_amount :: "js_num \<Rightarrow> string \<Rightarrow> string \<Rightarrow> string + rat" where
  "booking_amount rate st en =
     (case (rate, confirm_hours st en) of
        (Some r, Some h) \<Rightarrow> if r * h \<le> 0 then Inl ''Invalid duration or hourly rate'' else Inr (r * h)
      | _ \<Rightarrow> Inl ''Invalid duration or hourly rate'')"

section \<open>Parsing the slot times\<close>

lemma is_digit_not_colon: "is_digit c \<Longrightarrow> c \<noteq> CHR '':''"
  by (auto simp: is_digit_def)

lemma valid_hhmm_shape:
  assumes "valid_hhmm t"
  obtains a b c d where "t = [a, b, CHR '':'', c, d]" and "is_digit a" "is_digit b" "is_digit c" "is_digit d"
proof -
  from assms have l: "length t = 5" by (simp add: valid_hhmm_def)
  then obtain a b x c d where "t = [a, b, x, c, d]"
    by (auto simp: length_Suc_conv numeral_eq_Suc)
  with assms that show ?thesis by (auto simp: valid_hhmm_def)
qed

lemma split_on_hhmm:
  "a \<noteq> CHR '':'' \<Longrightarrow> b \<noteq> CHR '':'' \<Longrightarrow> c \<noteq> CHR '':'' \<Longrightarrow> d \<noteq> CHR '':'' \<Longrightarrow>
   split_on CHR '':'' [a, b, CHR '':'', c, d] = [[a, b], [c, d]]"
  by simp

lemma hm_value_valid:
  assumes "valid_hhmm t"
  shows "hm_value t = Some (of_nat (digits_val (take 2 t)) + of_nat (digits_val (drop 3 t)) / 60)"
proof -
  obtain a b c d where t: "t = [a, b, CHR '':'', c, d]" and dg: "is_digit a" "is_digit b" "is_digit c" "is_digit d"
    using assms by (rule valid_hhmm_shape)
  have sp: "split_on CHR '':'' t = [[a, b], [c, d]]"
    using dg by (simp add: t split_on_hhmm is_digit_not_colon)
  have "js_number [a, b] = Some (of_nat (digits_val [a, b]))" "js_number [c, d] = Some (of_nat (digits_val [c, d]))"
    using dg by (simp_all add: js_number_def)
  moreover have "take 2 t = [a, b]" "drop 3 t = [c, d]" by (simp_all add: t)
  ultimately show ?thesis by (simp add: hm_value_def sp part_def)
qed

lemma clock_minutes_valid:
  "valid_hhmm t \<Longrightarrow> \<exists>m. clock_minutes t = Some m \<and> hm_value t = Some (m / 60) \<and> 0 \<le> m \<and> m < 1440"
proof -
  assume v: "valid_hhmm t"
  let ?h = "digits_val (take 2 t)" and ?m = "digits_val (drop 3 t)"
  have b: "?h < 24" "?m < 60" using v by (simp_all add: valid_hhmm_def)
  have "of_nat (60 * ?h + ?m) < (1440::rat)"
  proof -
    have "60 * ?h + ?m < 1440" using b by linarith
    then show ?thesis by (metis of_nat_less_iff of_nat_numeral)
  qed
  with v show ?thesis
    by (simp add: clock_minutes_def hm_value_valid add_divide_distrib)
qed


lemma digits_val_two: "digits_val [a, b] = 10 * (of_char a - 48) + (of_char b - 48)"
  by (simp add: digits_val_def)

lemma digit_pair_inj:
  assumes "is_digit a" "is_digit b" "is_digit c" "is_digit d" "digits_val [a, b] = digits_val [c, d]"
  shows "a = c \<and> b = d"
proof -
  have "of_char a - 48 < (10::nat)" "of_char b - 48 < (10::nat)" "of_char c - 48 < (10::nat)" "of_char d - 48 < (10::nat)"
    using assms(1-4) by (auto simp: is_digit_def)
  with assms(5) mult_add_less_inj [of "of_char a - 48" 10 "of_char b - 48" "of_char c - 48" "of_char d - 48"]
  have "of_char a - 48 = (of_char c - 48 :: nat)" "of_char b - 48 = (of_char d - 48 :: nat)"
    unfolding digits_val_two by (simp_all add: mult.commute)
  moreover have "48 \<le> (of_char a :: nat)" "48 \<le> (of_char b :: nat)" "48 \<le> (of_char c :: nat)" "48 \<le> (of_char d :: nat)"
    using assms(1-4) by (simp_all add: is_digit_def)
  ultimately have "(of_char a :: nat) = of_char c" "(of_char b :: nat) = of_char d"
    by arith+
  then show ?thesis by (simp add: of_char_eq_iff)
qed

lemma clock_minutes_inj:
  assumes "valid_hhmm s" "valid_hhmm t" "clock_minutes s = clock_minutes t"
  shows "s = t"
proof -
  obtain a b c d where s: "s = [a, b, CHR '':'', c, d]" and ds: "is_digit a" "is_digit b" "is_digit c" "is_digit d"
    using assms(1) by (rule valid_hhmm_shape)
  obtain a' b' c' d' where t: "t = [a', b', CHR '':'', c', d']" and dt: "is_digit a'" "is_digit b'" "is_digit c'" "is_digit d'"
    using assms(2) by (rule valid_hhmm_shape)
  have m: "digits_val [c, d] < 60" "digits_val [c', d'] < 60"
    using assms(1,2) by (simp_all add: valid_hhmm_def s t)
  have "60 * digits_val [a, b] + digits_val [c, d] = 60 * digits_val [a', b'] + digits_val [c', d']"
    using assms by (simp add: clock_minutes_def s t del: of_nat_add of_nat_mult)
  with m mult_add_less_inj [of "digits_val [a, b]" 60 "digits_val [c, d]" "digits_val [a', b']" "digits_val [c', d']"]
  have "digits_val [a, b] = digits_val [a', b']" "digits_val [c, d] = digits_val [c', d']"
    by (simp_all add: mult.commute)
  with ds dt digit_pair_inj show ?thesis by (simp add: s t)
qed

section \<open>Claims about the cost computations\<close>


lemma confirm_hours_range:
  assumes st: "valid_hhmm st" and en: "valid_hhmm en"
  shows "\<exists>h. confirm_hours st en = Some h \<and> 0 \<le> h \<and> h < 24 \<and> (h = 0 \<longleftrightarrow> st = en)"
proof -
  obtain S where S: "clock_minutes st = Some S" "hm_value st = Some (S / 60)" "0 \<le> S" "S < 1440"
    using clock_minutes_valid [OF st] by blast
  obtain E where E: "clock_minutes en = Some E" "hm_value en = Some (E / 60)" "0 \<le> E" "E < 1440"
    using clock_minutes_valid [OF en] by blast
  have eq: "st = en \<longleftrightarrow> S = E"
    using clock_minutes_inj [OF st en] S E by auto
  let ?h = "E / 60 - S / 60"
  have r: "-24 < ?h" "?h < 24" using S E by (simp_all add: field_simps)
  have z: "?h = 0 \<longleftrightarrow> S = E" by auto
  have ch: "confirm_hours st en = Some (if ?h < 0 then ?h + 24 else ?h)"
    by (simp add: confirm_hours_def S E)
  have neg: "?h < 0 \<longleftrightarrow> E < S" by (simp add: divide_strict_right_mono)
  show ?thesis
  proof (cases "E < S")
    case True
    with r neg eq show ?thesis by (intro exI [of _ "?h + 24"]) (simp add: ch)
  next
    case False
    with neg z eq show ?thesis by (intro exI [of _ ?h]) (auto simp: ch r(2))
  qed
qed

text \<open>
  (C17) For valid times the duration is defined, at least 0 and below 24 hours,
  and it is 0 exactly when start and end are the same time.
\<close>

theorem booking_hours_bounds:
  assumes st: "valid_hhmm st" and en: "valid_hhmm en"
  shows "\<exists>h. confirm_hours st en = Some h \<and> 0 \<le> h \<and> h < 24 \<and> (h = 0 \<longleftrightarrow> st = en)"
  using confirm_hours_range [OF st en] .

text \<open>
  (C18) For valid times \<open>confirmBooking\<close> refuses the booking exactly when the
  rate is \<open>NaN\<close>, the slot has zero length, or the rate is not positive; an
  empty time string (a cleared time input) is always refused.
\<close>

theorem booking_amount_errors:
  assumes st: "valid_hhmm st" and en: "valid_hhmm en"
  shows "(isl (booking_amount rate st en) \<longleftrightarrow> rate = None \<or> st = en \<or> (\<exists>r. rate = Some r \<and> r \<le> 0))
         \<and> booking_amount rate [] en = Inl ''Invalid duration or hourly rate''"
proof -
  obtain h where h: "confirm_hours st en = Some h" "0 \<le> h" "h < 24" "h = 0 \<longleftrightarrow> st = en"
    using confirm_hours_range [OF st en] by blast
  have "isl (booking_amount rate st en) \<longleftrightarrow> rate = None \<or> st = en \<or> (\<exists>r. rate = Some r \<and> r \<le> 0)"
  proof (cases rate)
    case None
    then show ?thesis by (simp add: booking_amount_def h)
  next
    case (Some r)
    have "r * h \<le> 0 \<longleftrightarrow> h = 0 \<or> r \<le> 0"
      using h(2) by (auto simp: mult_le_0_iff)
    with Some h show ?thesis by (auto simp: booking_amount_def)
  qed
  moreover have "booking_amount rate [] en = Inl ''Invalid duration or hourly rate''"
    by (simp add: booking_amount_def confirm_hours_def hm_value_def part_def js_number_def split: option.splits)
  ultimately show ?thesis ..
qed

end
