(* ===== verification/Booking.thy ===== *)
theory Booking
  imports Calendar Cost
begin

text \<open>
  The booking lifecycle engine. The backend that owns booking records is not
  part of the repository's sources; its transitions are modelled from the
  specification (section 4.3): \<open>create\<close>, \<open>accept\<close>, \<open>cancel\<close>,
  \<open>requestReschedule\<close>, \<open>approveReschedule\<close>, \<open>rejectReschedule\<close>, each failing
  with an error and no change, or succeeding with the new store. The records
  follow the frontend's wire types (\<open>BookingRequest\<close>, \<open>BookingResponse\<close> in
  \<open>types/BookingType.ts\<close>). The availability guard is the frontend's own resolver
  (\<open>get_slot_status\<close>) applied to the tutor's bookings, in UTC with English
  weekday keys, and the amount is the frontend's \<open>booking_amount\<close>.
  All transitions of one tutor are serialised (section 5), so the engine is a
  sequential step function; interleavings are sequences of steps.
\<close>

section \<open>Data\<close>

datatype booking_status = Pending | Confirmed | Cancelled | On_hold | Reschedule_requested

text \<open>The status strings on the wire.\<close>

definition status_str :: "booking_status \<Rightarrow> string" where
  "status_str st = (case st of Pending \<Rightarrow> ''pending'' | Confirmed \<Rightarrow> ''confirmed''
     | Cancelled \<Rightarrow> ''cancelled'' | On_hold \<Rightarrow> ''on_hold''
     | Reschedule_requested \<Rightarrow> ''reschedule_requested'')"

text \<open>\<open>interface BookingRequest\<close>\<close>

record booking_request =
  rq_tutor :: user_id
  rq_student :: user_id
  rq_tutor_name :: string
  rq_student_name :: string
  rq_date :: string
  rq_start :: string
  rq_end :: string
  rq_lesson_type :: string

text \<open>A stored booking: the fields of \<open>BookingResponse\<close> but the id (the store's key), and the spec's extra fields.\<close>

record booking =
  b_tutor :: user_id
  b_student :: user_id
  b_tutor_name :: string
  b_student_name :: string
  b_date :: string
  b_start :: string
  b_end :: string
  b_lesson_type :: string
  b_status :: booking_status
  b_related :: "nat option"
  b_amount :: rat

text \<open>What the profile collaborator supplies for a tutor.\<close>

record tutor_profile =
  tp_availability :: availability
  tp_rate :: js_num

type_synonym profiles = "user_id \<rightharpoonup> tutor_profile"

record engine =
  bookings :: "nat \<rightharpoonup> booking"
  next_id :: nat

definition init_engine :: engine where
  "init_engine = \<lparr>bookings = Map.empty, next_id = 0\<rparr>"

datatype booking_error = InvalidTransition | SlotUnavailable | ValidationError | NotFound

section \<open>Reading the store\<close>

definition booking_list :: "engine \<Rightarrow> booking list" where
  "booking_list s = List.map_filter (bookings s) [0..<next_id s]"

text \<open>The tutor's bookings as the resolver reads them (\<open>{date, status}\<close>).\<close>

definition tutor_slots :: "engine \<Rightarrow> user_id \<Rightarrow> booked_slot list" where
  "tutor_slots s t =
     map (\<lambda>b. \<lparr>bs_date = b_date b, bs_status = status_str (b_status b)\<rparr>)
         (filter (\<lambda>b. b_tutor b = t) (booking_list s))"

definition slot_available :: "tutor_profile \<Rightarrow> cdate \<Rightarrow> engine \<Rightarrow> user_id \<Rightarrow> cdate \<Rightarrow> bool" where
  "slot_available prof today s t d \<longleftrightarrow>
     get_slot_status 0 today (tutor_slots s t) d
       (slot_enabled (day_slot en_short_weekday (tp_availability prof) d)) = StAvailable"

definition set_status :: "nat \<Rightarrow> booking_status \<Rightarrow> engine \<Rightarrow> engine" where
  "set_status i st s =
     (case bookings s i of None \<Rightarrow> s
      | Some b \<Rightarrow> s\<lparr>bookings := (bookings s)(i \<mapsto> b\<lparr>b_status := st\<rparr>)\<rparr>)"

definition new_booking :: "booking_request \<Rightarrow> user_id \<Rightarrow> user_id \<Rightarrow> booking_status \<Rightarrow> nat option \<Rightarrow> rat \<Rightarrow> booking" where
  "new_booking rq t st status rel amt =
     \<lparr>b_tutor = t, b_student = st, b_tutor_name = rq_tutor_name rq, b_student_name = rq_student_name rq,
      b_date = rq_date rq, b_start = rq_start rq, b_end = rq_end rq, b_lesson_type = rq_lesson_type rq,
      b_status = status, b_related = rel, b_amount = amt\<rparr>"

definition insert_booking :: "booking \<Rightarrow> engine \<Rightarrow> engine" where
  "insert_booking b s = \<lparr>bookings = (bookings s)(next_id s \<mapsto> b), next_id = Suc (next_id s)\<rparr>"

section \<open>Transitions\<close>

definition create :: "profiles \<Rightarrow> cdate \<Rightarrow> booking_request \<Rightarrow> engine \<Rightarrow> booking_error + engine" where
  "create profs today rq s =
     (case profs (rq_tutor rq) of None \<Rightarrow> Inl NotFound
      | Some prof \<Rightarrow>
        (case parse_iso_date (rq_date rq) of None \<Rightarrow> Inl ValidationError
         | Some d \<Rightarrow>
           (case booking_amount (tp_rate prof) (rq_start rq) (rq_end rq) of
              Inl _ \<Rightarrow> Inl ValidationError
            | Inr amt \<Rightarrow>
                if \<not> slot_available prof today s (rq_tutor rq) d then Inl SlotUnavailable
                else Inr (insert_booking (new_booking rq (rq_tutor rq) (rq_student rq) Pending None amt) s))))"

definition accept :: "nat \<Rightarrow> engine \<Rightarrow> booking_error + engine" where
  "accept i s =
     (case bookings s i of None \<Rightarrow> Inl NotFound
      | Some b \<Rightarrow> if b_status b \<noteq> Pending then Inl InvalidTransition else Inr (set_status i Confirmed s))"

definition cancel :: "nat \<Rightarrow> user_id \<Rightarrow> engine \<Rightarrow> booking_error + engine" where
  "cancel i actor s =
     (case bookings s i of None \<Rightarrow> Inl NotFound
      | Some b \<Rightarrow>
          if b_status b \<notin> {Pending, Confirmed} \<or> actor \<notin> {b_tutor b, b_student b} then Inl InvalidTransition
          else Inr (set_status i Cancelled s))"

definition request_reschedule ::
  "profiles \<Rightarrow> cdate \<Rightarrow> nat \<Rightarrow> booking_request \<Rightarrow> engine \<Rightarrow> booking_error + engine" where
  "request_reschedule profs today i rq s =
     (case bookings s i of None \<Rightarrow> Inl NotFound
      | Some b \<Rightarrow>
        if b_status b \<noteq> Confirmed then Inl InvalidTransition
        else (case profs (b_tutor b) of None \<Rightarrow> Inl NotFound
          | Some prof \<Rightarrow>
            (case parse_iso_date (rq_date rq) of None \<Rightarrow> Inl ValidationError
             | Some d \<Rightarrow>
                if \<not> slot_available prof today s (b_tutor b) d then Inl SlotUnavailable
                else Inr (insert_booking
                            (new_booking rq (b_tutor b) (b_student b) On_hold (Some i) (b_amount b))
                            (set_status i Reschedule_requested s)))))"

definition approve_reschedule :: "nat \<Rightarrow> engine \<Rightarrow> booking_error + engine" where
  "approve_reschedule i s =
     (case bookings s i of None \<Rightarrow> Inl NotFound
      | Some b \<Rightarrow>
        if b_status b \<noteq> On_hold then Inl InvalidTransition
        else (case b_related b of None \<Rightarrow> Inl InvalidTransition
              | Some j \<Rightarrow> Inr (set_status j Cancelled (set_status i Confirmed s))))"

definition reject_reschedule :: "nat \<Rightarrow> engine \<Rightarrow> booking_error + engine" where
  "reject_reschedule i s =
     (case bookings s i of None \<Rightarrow> Inl NotFound
      | Some b \<Rightarrow>
        if b_status b \<noteq> On_hold then Inl InvalidTransition
        else (case b_related b of None \<Rightarrow> Inl InvalidTransition
              | Some j \<Rightarrow> Inr (set_status j Confirmed (set_status i Cancelled s))))"

datatype cmd =
    Create booking_request
  | Accept nat
  | Cancel nat user_id
  | Request_reschedule nat booking_request
  | Approve_reschedule nat
  | Reject_reschedule nat

fun step :: "profiles \<Rightarrow> cdate \<Rightarrow> engine \<Rightarrow> cmd \<Rightarrow> booking_error + engine" where
  "step profs today s (Create rq) = create profs today rq s"
| "step profs today s (Accept i) = accept i s"
| "step profs today s (Cancel i a) = cancel i a s"
| "step profs today s (Request_reschedule i rq) = request_reschedule profs today i rq s"
| "step profs today s (Approve_reschedule i) = approve_reschedule i s"
| "step profs today s (Reject_reschedule i) = reject_reschedule i s"

text \<open>
  The states the engine can reach: from the empty store, any successful
  command with any profiles and any date as today.
\<close>

inductive reach :: "engine \<Rightarrow> bool" where
  reach_init: "reach init_engine"
| reach_step: "reach s \<Longrightarrow> step profs today s c = Inr s' \<Longrightarrow> reach s'"

text \<open>The tutor a command acts for (the one whose lock serialises it).\<close>

definition cmd_tutor :: "engine \<Rightarrow> cmd \<Rightarrow> user_id option" where
  "cmd_tutor s c = (case c of Create rq \<Rightarrow> Some (rq_tutor rq)
     | Accept i \<Rightarrow> map_option b_tutor (bookings s i) | Cancel i _ \<Rightarrow> map_option b_tutor (bookings s i)
     | Request_reschedule i _ \<Rightarrow> map_option b_tutor (bookings s i)
     | Approve_reschedule i \<Rightarrow> map_option b_tutor (bookings s i)
     | Reject_reschedule i \<Rightarrow> map_option b_tutor (bookings s i))"

text \<open>One tutor's part of the store.\<close>

definition tutor_view :: "engine \<Rightarrow> user_id \<Rightarrow> nat \<rightharpoonup> booking" where
  "tutor_view s t k = (case bookings s k of Some b \<Rightarrow> if b_tutor b = t then Some b else None | None \<Rightarrow> None)"

section \<open>The invariant\<close>

definition live :: "booking \<Rightarrow> bool" where
  "live b \<longleftrightarrow> b_status b \<noteq> Cancelled"

definition one_live_per_day :: "engine \<Rightarrow> bool" where
  "one_live_per_day s \<longleftrightarrow>
     (\<forall>i j bi bj. bookings s i = Some bi \<longrightarrow> bookings s j = Some bj \<longrightarrow> live bi \<longrightarrow> live bj \<longrightarrow>
        b_tutor bi = b_tutor bj \<longrightarrow> parse_iso_date (b_date bi) = parse_iso_date (b_date bj) \<longrightarrow> i = j)"

definition dates_parse :: "engine \<Rightarrow> bool" where
  "dates_parse s \<longleftrightarrow> (\<forall>i b. bookings s i = Some b \<longrightarrow> parse_iso_date (b_date b) \<noteq> None)"

definition holds_paired :: "engine \<Rightarrow> bool" where
  "holds_paired s \<longleftrightarrow>
     (\<forall>i b. bookings s i = Some b \<longrightarrow> b_status b = On_hold \<longrightarrow>
        (\<exists>j ob. b_related b = Some j \<and> bookings s j = Some ob \<and> b_status ob = Reschedule_requested
               \<and> b_tutor ob = b_tutor b))"

definition holds_unique :: "engine \<Rightarrow> bool" where
  "holds_unique s \<longleftrightarrow>
     (\<forall>i i' b b'. bookings s i = Some b \<longrightarrow> bookings s i' = Some b' \<longrightarrow>
        b_status b = On_hold \<longrightarrow> b_status b' = On_hold \<longrightarrow> b_related b = b_related b' \<longrightarrow> i = i')"

definition ids_fresh :: "engine \<Rightarrow> bool" where
  "ids_fresh s \<longleftrightarrow> (\<forall>i \<in> dom (bookings s). i < next_id s)"

definition engine_inv :: "engine \<Rightarrow> bool" where
  "engine_inv s \<longleftrightarrow> one_live_per_day s \<and> dates_parse s \<and> holds_paired s \<and> holds_unique s \<and> ids_fresh s"

section \<open>The store operations\<close>

lemma bookings_set_status:
  "bookings (set_status i st s) k = (if k = i then map_option (\<lambda>b. b\<lparr>b_status := st\<rparr>) (bookings s i) else bookings s k)"
  by (simp add: set_status_def split: option.splits)

lemma next_id_set_status [simp]: "next_id (set_status i st s) = next_id s"
  by (simp add: set_status_def split: option.splits)

lemma bookings_insert_booking:
  "bookings (insert_booking b s) k = (if k = next_id s then Some b else bookings s k)"
  by (simp add: insert_booking_def)

lemma next_id_insert_booking [simp]: "next_id (insert_booking b s) = Suc (next_id s)"
  by (simp add: insert_booking_def)

lemmas store_simps = bookings_set_status bookings_insert_booking

text \<open>A store whose bookings each come from one of the old store, same tutor and
  date and no more live, keeps the one-live-booking property.\<close>

lemma one_live_mono:
  assumes inv: "one_live_per_day s"
    and sub: "\<And>k b'. bookings s' k = Some b' \<Longrightarrow>
                \<exists>b. bookings s k = Some b \<and> b_tutor b = b_tutor b' \<and> b_date b = b_date b' \<and> (live b' \<longrightarrow> live b)"
  shows "one_live_per_day s'"
  unfolding one_live_per_day_def
proof (intro allI impI)
  fix i j bi bj
  assume "bookings s' i = Some bi" "bookings s' j = Some bj" "live bi" "live bj"
    "b_tutor bi = b_tutor bj" "parse_iso_date (b_date bi) = parse_iso_date (b_date bj)"
  with sub [of i bi] sub [of j bj] obtain ai aj where
    "bookings s i = Some ai" "bookings s j = Some aj" "live ai" "live aj"
    "b_tutor ai = b_tutor aj" "parse_iso_date (b_date ai) = parse_iso_date (b_date aj)"
    by metis
  with inv show "i = j" unfolding one_live_per_day_def by blast
qed

lemma one_live_set_status:
  assumes "one_live_per_day s" and "\<And>b. bookings s i = Some b \<Longrightarrow> live (b\<lparr>b_status := st\<rparr>) \<Longrightarrow> live b"
  shows "one_live_per_day (set_status i st s)"
  using assms(1)
proof (rule one_live_mono)
  fix k b'
  assume "bookings (set_status i st s) k = Some b'"
  with assms(2) show "\<exists>b. bookings s k = Some b \<and> b_tutor b = b_tutor b' \<and> b_date b = b_date b' \<and> (live b' \<longrightarrow> live b)"
    by (auto simp: bookings_set_status split: if_splits)
qed

lemma dates_parse_set_status: "dates_parse s \<Longrightarrow> dates_parse (set_status i st s)"
  by (auto simp: dates_parse_def bookings_set_status split: if_splits)

lemma ids_fresh_set_status: "ids_fresh s \<Longrightarrow> ids_fresh (set_status i st s)"
  by (auto simp: ids_fresh_def bookings_set_status domIff split: if_splits)

text \<open>Changing the status of a booking no hold points to, to anything but a hold, keeps the pairing.\<close>

lemma holds_paired_set_status:
  assumes "holds_paired s" and "st \<noteq> On_hold"
    and "\<And>k b. bookings s k = Some b \<Longrightarrow> b_status b = On_hold \<Longrightarrow> k \<noteq> i \<Longrightarrow> b_related b \<noteq> Some i"
  shows "holds_paired (set_status i st s)"
  unfolding holds_paired_def
proof (intro allI impI)
  fix k b
  assume k: "bookings (set_status i st s) k = Some b" "b_status b = On_hold"
  with assms(2) have ki: "k \<noteq> i" and b: "bookings s k = Some b"
    by (auto simp: bookings_set_status split: if_splits)
  with k(2) assms(1) obtain j ob where "b_related b = Some j" "bookings s j = Some ob"
      "b_status ob = Reschedule_requested" "b_tutor ob = b_tutor b"
    unfolding holds_paired_def by blast
  moreover have "j \<noteq> i" using assms(3) [OF b k(2) ki] \<open>b_related b = Some j\<close> by blast
  ultimately show "\<exists>j ob. b_related b = Some j \<and> bookings (set_status i st s) j = Some ob \<and>
                     b_status ob = Reschedule_requested \<and> b_tutor ob = b_tutor b"
    by (auto simp: bookings_set_status)
qed

lemma holds_unique_set_status:
  assumes "holds_unique s" and "st \<noteq> On_hold"
  shows "holds_unique (set_status i st s)"
  using assms unfolding holds_unique_def
  by (auto simp: bookings_set_status split: if_splits)

lemma fresh_not_in_dom: "ids_fresh s \<Longrightarrow> bookings s (next_id s) = None"
  by (auto simp: ids_fresh_def)

lemma one_live_insert:
  assumes "one_live_per_day s" "ids_fresh s"
    and "\<And>k b. bookings s k = Some b \<Longrightarrow> live b \<Longrightarrow> b_tutor b = b_tutor nb \<Longrightarrow>
               parse_iso_date (b_date b) \<noteq> parse_iso_date (b_date nb)"
  shows "one_live_per_day (insert_booking nb s)"
  using assms unfolding one_live_per_day_def
  by (auto simp: bookings_insert_booking fresh_not_in_dom split: if_splits) metis+

lemma dates_parse_insert:
  "dates_parse s \<Longrightarrow> parse_iso_date (b_date nb) \<noteq> None \<Longrightarrow> dates_parse (insert_booking nb s)"
  by (auto simp: dates_parse_def bookings_insert_booking)

lemma ids_fresh_insert: "ids_fresh s \<Longrightarrow> ids_fresh (insert_booking nb s)"
  unfolding ids_fresh_def by (auto simp: bookings_insert_booking split: if_splits) (metis domI less_SucI)

lemma holds_paired_insert:
  assumes "holds_paired s" "ids_fresh s"
    and "b_status nb = On_hold \<Longrightarrow> \<exists>j ob. b_related nb = Some j \<and> bookings s j = Some ob \<and>
                                      b_status ob = Reschedule_requested \<and> b_tutor ob = b_tutor nb"
  shows "holds_paired (insert_booking nb s)"
  unfolding holds_paired_def
proof (intro allI impI)
  fix k b
  assume k: "bookings (insert_booking nb s) k = Some b" "b_status b = On_hold"
  have dom: "\<And>j ob. bookings s j = Some ob \<Longrightarrow> j \<noteq> next_id s"
    using fresh_not_in_dom [OF assms(2)] by auto
  show "\<exists>j ob. b_related b = Some j \<and> bookings (insert_booking nb s) j = Some ob \<and>
          b_status ob = Reschedule_requested \<and> b_tutor ob = b_tutor b"
  proof (cases "k = next_id s")
    case True
    with k assms(3) dom show ?thesis by (fastforce simp: bookings_insert_booking)
  next
    case False
    with k have "bookings s k = Some b" by (simp add: bookings_insert_booking)
    with k(2) assms(1) dom show ?thesis
      unfolding holds_paired_def by (fastforce simp: bookings_insert_booking)
  qed
qed

lemma holds_unique_insert:
  assumes "holds_unique s" "ids_fresh s"
    and "b_status nb = On_hold \<Longrightarrow> \<forall>k b. bookings s k = Some b \<longrightarrow> b_status b = On_hold \<longrightarrow> b_related b \<noteq> b_related nb"
  shows "holds_unique (insert_booking nb s)"
  using assms unfolding holds_unique_def
  by (auto simp: bookings_insert_booking fresh_not_in_dom split: if_splits) metis+

lemma booking_list_mem: "bookings s k = Some b \<Longrightarrow> k < next_id s \<Longrightarrow> b \<in> set (booking_list s)"
  by (auto simp: booking_list_def set_map_filter_iff)

lemma slot_available_no_live:
  assumes av: "slot_available prof today s t d" and fr: "ids_fresh s"
    and b: "bookings s k = Some b" "b_tutor b = t" "live b" "parse_iso_date (b_date b) = Some d'"
  shows "d' \<noteq> d"
proof
  assume dd: "d' = d"
  have "k < next_id s" using fr b(1) by (auto simp: ids_fresh_def)
  with b(1) have "b \<in> set (booking_list s)" by (rule booking_list_mem)
  with b(2) have mem: "\<lparr>bs_date = b_date b, bs_status = status_str (b_status b)\<rparr> \<in> set (tutor_slots s t)"
    by (auto simp: tutor_slots_def)
  have r: "reformat_api_date 0 (b_date b) = format_date d"
    using reformat_api_date_east [OF _ b(4)] dd by simp
  from av mem r b(3) show False
    by (cases "b_status b")
       (fastforce simp: slot_available_def get_slot_status_def Let_def status_simps status_str_def live_def
                  split: if_splits)+
qed

lemma no_hold_points_to:
  "holds_paired s \<Longrightarrow> bookings s i = Some b \<Longrightarrow> b_status b \<noteq> Reschedule_requested \<Longrightarrow>
   bookings s k = Some c \<Longrightarrow> b_status c = On_hold \<Longrightarrow> b_related c \<noteq> Some i"
  unfolding holds_paired_def by force

lemma engine_inv_set_status:
  assumes inv: "engine_inv s" and b: "bookings s i = Some b"
    and st: "st \<noteq> On_hold" and lv: "live (b\<lparr>b_status := st\<rparr>) \<Longrightarrow> live b"
    and nopt: "\<And>k c. bookings s k = Some c \<Longrightarrow> b_status c = On_hold \<Longrightarrow> k \<noteq> i \<Longrightarrow> b_related c \<noteq> Some i"
  shows "engine_inv (set_status i st s)"
  using inv b lv unfolding engine_inv_def
  by (auto intro!: one_live_set_status dates_parse_set_status ids_fresh_set_status
                   holds_paired_set_status [OF _ st nopt] holds_unique_set_status [OF _ st])

lemma create_Inr:
  "create profs today rq s = Inr s' \<Longrightarrow>
   \<exists>prof d amt. profs (rq_tutor rq) = Some prof \<and> parse_iso_date (rq_date rq) = Some d \<and>
     booking_amount (tp_rate prof) (rq_start rq) (rq_end rq) = Inr amt \<and>
     slot_available prof today s (rq_tutor rq) d \<and>
     s' = insert_booking (new_booking rq (rq_tutor rq) (rq_student rq) Pending None amt) s"
  by (auto simp: create_def split: option.splits sum.splits if_splits)

lemma new_booking_simps [simp]:
  "b_tutor (new_booking rq t st status rel amt) = t"
  "b_student (new_booking rq t st status rel amt) = st"
  "b_date (new_booking rq t st status rel amt) = rq_date rq"
  "b_status (new_booking rq t st status rel amt) = status"
  "b_related (new_booking rq t st status rel amt) = rel"
  "b_amount (new_booking rq t st status rel amt) = amt"
  by (simp_all add: new_booking_def)

lemma create_inv:
  assumes inv: "engine_inv s" and c: "create profs today rq s = Inr s'"
  shows "engine_inv s'"
proof -
  obtain prof d amt where p: "profs (rq_tutor rq) = Some prof" and d: "parse_iso_date (rq_date rq) = Some d"
    and av: "slot_available prof today s (rq_tutor rq) d"
    and s': "s' = insert_booking (new_booking rq (rq_tutor rq) (rq_student rq) Pending None amt) s"
    using create_Inr [OF c] by blast
  have parts: "one_live_per_day s" "dates_parse s" "holds_paired s" "holds_unique s" "ids_fresh s"
    using inv by (simp_all add: engine_inv_def)
  have other: "parse_iso_date (b_date b) \<noteq> Some d"
    if "bookings s k = Some b" "live b" "b_tutor b = rq_tutor rq" for k b
  proof
    assume "parse_iso_date (b_date b) = Some d"
    from slot_available_no_live [OF av parts(5) that(1) that(3) that(2) this] show False by simp
  qed
  show ?thesis unfolding s' engine_inv_def
    using parts d other
    by (auto intro!: one_live_insert dates_parse_insert holds_paired_insert holds_unique_insert ids_fresh_insert)
qed

lemma engine_inv_set_status_free:
  assumes inv: "engine_inv s" and b: "bookings s i = Some b" and nrr: "b_status b \<noteq> Reschedule_requested"
    and st: "st \<noteq> On_hold" and lv: "live (b\<lparr>b_status := st\<rparr>) \<Longrightarrow> live b"
  shows "engine_inv (set_status i st s)"
proof -
  have hp: "holds_paired s" using inv by (simp add: engine_inv_def)
  have np: "b_related c \<noteq> Some i" if "bookings s k = Some c" "b_status c = On_hold" for k c
    using no_hold_points_to [OF hp b nrr that] .
  show ?thesis by (rule engine_inv_set_status [OF inv b st lv np])
qed

lemma accept_inv:
  assumes inv: "engine_inv s" and a: "accept i s = Inr s'"
  shows "engine_inv s'"
proof -
  obtain b where b: "bookings s i = Some b" "b_status b = Pending" and s': "s' = set_status i Confirmed s"
    using a by (auto simp: accept_def split: option.splits if_splits)
  show ?thesis unfolding s'
    by (rule engine_inv_set_status_free [OF inv b(1)]) (simp_all add: live_def b(2))
qed

lemma cancel_inv:
  assumes inv: "engine_inv s" and a: "cancel i actor s = Inr s'"
  shows "engine_inv s'"
proof -
  obtain b where b: "bookings s i = Some b" "b_status b \<in> {Pending, Confirmed}" and s': "s' = set_status i Cancelled s"
    using a by (auto simp: cancel_def split: option.splits if_splits)
  show ?thesis unfolding s'
    by (rule engine_inv_set_status_free [OF inv b(1)]) (use b(2) in \<open>auto simp: live_def\<close>)
qed

lemma engine_inv_resolve_hold:
  assumes inv: "engine_inv s" and b: "bookings s i = Some b" "b_status b = On_hold" "b_related b = Some j"
    and st1: "st1 \<in> {Confirmed, Cancelled}" and st2: "st2 \<in> {Confirmed, Cancelled}"
  shows "engine_inv (set_status j st2 (set_status i st1 s))"
proof -
  let ?s1 = "set_status i st1 s"
  have parts: "holds_paired s" "holds_unique s" using inv by (simp_all add: engine_inv_def)
  obtain ob where ob: "bookings s j = Some ob" "b_status ob = Reschedule_requested"
    using parts(1) b unfolding holds_paired_def by force
  have ji: "j \<noteq> i" using ob b by auto
  have inv1: "engine_inv ?s1"
    by (rule engine_inv_set_status_free [OF inv b(1)]) (use b(2) st1 in \<open>auto simp: live_def\<close>)
  have ob1: "bookings ?s1 j = Some ob" using ob ji by (simp add: bookings_set_status)
  have np: "b_related c \<noteq> Some j" if "bookings ?s1 k = Some c" "b_status c = On_hold" "k \<noteq> j" for k c
  proof
    assume rel: "b_related c = Some j"
    from that st1 have ki: "k \<noteq> i" and c: "bookings s k = Some c"
      by (auto simp: bookings_set_status split: if_splits)
    from parts(2) c b(1) that(2) b(2) rel b(3) have "k = i" unfolding holds_unique_def by metis
    with ki show False by simp
  qed
  show ?thesis
    by (rule engine_inv_set_status [OF inv1 ob1 _ _ np]) (use st2 ob(2) in \<open>auto simp: live_def\<close>)
qed

lemma approve_inv: "engine_inv s \<Longrightarrow> approve_reschedule i s = Inr s' \<Longrightarrow> engine_inv s'"
  by (auto simp: approve_reschedule_def split: option.splits if_splits intro: engine_inv_resolve_hold)

lemma reject_inv: "engine_inv s \<Longrightarrow> reject_reschedule i s = Inr s' \<Longrightarrow> engine_inv s'"
  by (auto simp: reject_reschedule_def split: option.splits if_splits intro: engine_inv_resolve_hold)

lemma request_reschedule_Inr:
  "request_reschedule profs today i rq s = Inr s' \<Longrightarrow>
   \<exists>b prof d. bookings s i = Some b \<and> b_status b = Confirmed \<and> profs (b_tutor b) = Some prof \<and>
     parse_iso_date (rq_date rq) = Some d \<and> slot_available prof today s (b_tutor b) d \<and>
     s' = insert_booking (new_booking rq (b_tutor b) (b_student b) On_hold (Some i) (b_amount b))
                         (set_status i Reschedule_requested s)"
  by (auto simp: request_reschedule_def split: option.splits if_splits)

lemma request_inv:
  assumes inv: "engine_inv s" and r: "request_reschedule profs today i rq s = Inr s'"
  shows "engine_inv s'"
proof -
  obtain b prof d where b: "bookings s i = Some b" "b_status b = Confirmed"
    and d: "parse_iso_date (rq_date rq) = Some d" and av: "slot_available prof today s (b_tutor b) d"
    and s': "s' = insert_booking (new_booking rq (b_tutor b) (b_student b) On_hold (Some i) (b_amount b))
                                 (set_status i Reschedule_requested s)"
    using request_reschedule_Inr [OF r] by blast
  let ?s1 = "set_status i Reschedule_requested s"
  have inv1: "engine_inv ?s1"
    by (rule engine_inv_set_status_free [OF inv b(1)]) (simp_all add: b(2) live_def)
  have p1: "one_live_per_day ?s1" "dates_parse ?s1" "holds_paired ?s1" "holds_unique ?s1" "ids_fresh ?s1"
    using inv1 by (simp_all add: engine_inv_def)
  have fr: "ids_fresh s" "holds_paired s" using inv by (simp_all add: engine_inv_def)
  have other: "parse_iso_date (b_date c) \<noteq> Some d"
    if hk: "bookings ?s1 k = Some c" "live c" "b_tutor c = b_tutor b" for k c
  proof
    assume pc: "parse_iso_date (b_date c) = Some d"
    obtain c0 where "bookings s k = Some c0" "b_tutor c0 = b_tutor b" "live c0" "b_date c0 = b_date c"
      using hk b by (auto simp: bookings_set_status live_def split: if_splits)
    from slot_available_no_live [OF av fr(1) this(1,2,3)] pc this(4) show False by simp
  qed
  have hold_rel: "b_related c \<noteq> Some i" if "bookings ?s1 k = Some c" "b_status c = On_hold" for k c
  proof -
    from that have "bookings s k = Some c" by (auto simp: bookings_set_status split: if_splits)
    from no_hold_points_to [OF fr(2) b(1) _ this that(2)] b(2) show ?thesis by simp
  qed
  have i1: "bookings ?s1 i = Some (b\<lparr>b_status := Reschedule_requested\<rparr>)"
    using b by (simp add: bookings_set_status)
  show ?thesis unfolding s' engine_inv_def
    using p1 d other hold_rel i1
    by (auto intro!: one_live_insert dates_parse_insert holds_paired_insert holds_unique_insert ids_fresh_insert)
qed

lemma step_inv: "engine_inv s \<Longrightarrow> step profs today s c = Inr s' \<Longrightarrow> engine_inv s'"
  by (cases c) (auto intro: create_inv accept_inv cancel_inv request_inv approve_inv reject_inv)

lemma engine_inv_init: "engine_inv init_engine"
  by (simp add: engine_inv_def init_engine_def one_live_per_day_def dates_parse_def holds_paired_def
                holds_unique_def ids_fresh_def)

lemma reach_engine_inv: "reach s \<Longrightarrow> engine_inv s"
  by (induction rule: reach.induct) (auto intro: engine_inv_init step_inv)

section \<open>Properties of the engine\<close>

lemma tutor_view_set_status:
  "(\<And>b. bookings s i = Some b \<Longrightarrow> b_tutor b \<noteq> t) \<Longrightarrow> tutor_view (set_status i st s) t = tutor_view s t"
  by (auto simp: tutor_view_def bookings_set_status fun_eq_iff split: option.splits)

lemma tutor_view_insert:
  "bookings s (next_id s) = None \<Longrightarrow> b_tutor nb \<noteq> t \<Longrightarrow> tutor_view (insert_booking nb s) t = tutor_view s t"
  by (auto simp: tutor_view_def bookings_insert_booking fun_eq_iff split: option.splits)

lemma tutor_view_resolve:
  assumes hp: "holds_paired s" and b: "bookings s i = Some b" "b_status b = On_hold" "b_related b = Some j"
    and t: "b_tutor b \<noteq> t"
  shows "tutor_view (set_status j st2 (set_status i st1 s)) t = tutor_view s t"
proof -
  obtain ob where ob: "bookings s j = Some ob" "b_tutor ob = b_tutor b"
    using hp b unfolding holds_paired_def by force
  have "tutor_view (set_status j st2 (set_status i st1 s)) t = tutor_view (set_status i st1 s) t"
    by (rule tutor_view_set_status) (use ob b t in \<open>auto simp: bookings_set_status split: if_splits\<close>)
  also have "\<dots> = tutor_view s t"
    by (rule tutor_view_set_status) (use b t in auto)
  finally show ?thesis .
qed

text \<open>(C1) Double-booking safety: in every state the engine reaches, two bookings that are both live (not cancelled), of the same tutor and on the same calendar date, are the same booking.\<close>

theorem one_live_booking_per_day:
  assumes "reach s" and "bookings s i = Some bi" "bookings s j = Some bj"
    and "b_status bi \<noteq> Cancelled" "b_status bj \<noteq> Cancelled"
    and "b_tutor bi = b_tutor bj" "parse_iso_date (b_date bi) = parse_iso_date (b_date bj)"
  shows "i = j"
  using reach_engine_inv [OF assms(1)] assms(2-)
  unfolding engine_inv_def one_live_per_day_def live_def by blast

text \<open>(C2) Two students racing for one slot: once a create for a tutor and date has succeeded, a second create for the same tutor and date is refused, with SlotUnavailable whenever its times and the rate would have been accepted.\<close>

theorem concurrent_create_one_wins:
  assumes c1: "create profs today rq1 s = Inr s1" and p: "profs (rq_tutor rq1) = Some prof"
    and t: "rq_tutor rq2 = rq_tutor rq1" and d: "parse_iso_date (rq_date rq2) = parse_iso_date (rq_date rq1)"
  shows "create profs today' rq2 s1 =
           (case booking_amount (tp_rate prof) (rq_start rq2) (rq_end rq2) of
              Inl _ \<Rightarrow> Inl ValidationError | Inr _ \<Rightarrow> Inl SlotUnavailable)"
proof -
  obtain d1 amt where d1: "parse_iso_date (rq_date rq1) = Some d1"
    and s1: "s1 = insert_booking (new_booking rq1 (rq_tutor rq1) (rq_student rq1) Pending None amt) s"
    using create_Inr [OF c1] p by auto
  let ?nb = "new_booking rq1 (rq_tutor rq1) (rq_student rq1) Pending None amt"
  have "?nb \<in> set (booking_list s1)"
    using booking_list_mem [of s1 "next_id s" ?nb] by (simp add: s1 bookings_insert_booking)
  then have mem: "\<lparr>bs_date = rq_date rq1, bs_status = ''pending''\<rparr> \<in> set (tutor_slots s1 (rq_tutor rq1))"
    by (force simp: tutor_slots_def status_str_def)
  have r: "reformat_api_date 0 (rq_date rq1) = format_date d1"
    using reformat_api_date_east [OF _ d1] by simp
  have na: "\<not> slot_available prof today' s1 (rq_tutor rq1) d1"
    using mem r by (fastforce simp: slot_available_def get_slot_status_def Let_def status_simps split: if_splits)
  show ?thesis
    using p t d d1 na by (simp add: create_def split: sum.splits)
qed

text \<open>(C19) Approving a reschedule request: after a confirmed booking is put up for rescheduling, approving the on-hold booking cancels the original, confirms the new one at the requested date and times, and touches no other booking.\<close>

theorem reschedule_approve_roundtrip:
  assumes "reach s" and r: "request_reschedule profs today i rq s = Inr s1"
  shows "\<exists>b s2. bookings s i = Some b \<and> approve_reschedule (next_id s) s1 = Inr s2 \<and>
           bookings s2 i = Some (b\<lparr>b_status := Cancelled\<rparr>) \<and>
           bookings s2 (next_id s) = Some (new_booking rq (b_tutor b) (b_student b) Confirmed (Some i) (b_amount b)) \<and>
           (\<forall>k. k \<noteq> i \<longrightarrow> k \<noteq> next_id s \<longrightarrow> bookings s2 k = bookings s k)"
proof -
  obtain b prof d where b: "bookings s i = Some b" "b_status b = Confirmed"
    and s1: "s1 = insert_booking (new_booking rq (b_tutor b) (b_student b) On_hold (Some i) (b_amount b))
                                 (set_status i Reschedule_requested s)"
    using request_reschedule_Inr [OF r] by blast
  have "ids_fresh s" using reach_engine_inv [OF assms(1)] by (simp add: engine_inv_def)
  then have ni: "i \<noteq> next_id s" using b(1) by (auto simp: ids_fresh_def)
  have nb: "new_booking rq t st On_hold rel a\<lparr>b_status := Confirmed\<rparr> = new_booking rq t st Confirmed rel a"
    for t st rel a by (simp add: new_booking_def)
  show ?thesis
    using b ni
    by (auto simp: s1 approve_reschedule_def bookings_insert_booking bookings_set_status set_status_def nb)
qed

text \<open>(C20) Rejecting a reschedule request restores the store: the original booking is confirmed again exactly as it was, and the only trace is the new booking, now cancelled.\<close>

theorem reschedule_reject_roundtrip:
  assumes "reach s" and r: "request_reschedule profs today i rq s = Inr s1"
  shows "\<exists>b s2. bookings s i = Some b \<and> reject_reschedule (next_id s) s1 = Inr s2 \<and>
           bookings s2 = (bookings s)(next_id s \<mapsto> new_booking rq (b_tutor b) (b_student b) Cancelled (Some i) (b_amount b))"
proof -
  obtain b prof d where b: "bookings s i = Some b" "b_status b = Confirmed"
    and s1: "s1 = insert_booking (new_booking rq (b_tutor b) (b_student b) On_hold (Some i) (b_amount b))
                                 (set_status i Reschedule_requested s)"
    using request_reschedule_Inr [OF r] by blast
  have "ids_fresh s" using reach_engine_inv [OF assms(1)] by (simp add: engine_inv_def)
  then have ni: "i \<noteq> next_id s" using b(1) by (auto simp: ids_fresh_def)
  have nb: "new_booking rq t st On_hold rel a\<lparr>b_status := Cancelled\<rparr> = new_booking rq t st Cancelled rel a"
    for t st rel a by (simp add: new_booking_def)
  have bb: "b\<lparr>b_status := Confirmed\<rparr> = b" using b(2) by simp
  show ?thesis
    using b ni bb
    by (auto simp: s1 reject_reschedule_def bookings_insert_booking bookings_set_status set_status_def nb fun_eq_iff)
qed

text \<open>(C21) The pending-booking transitions: a tutor accepts a pending booking once (a second accept is an InvalidTransition), a confirmed booking can still be cancelled by either party, and a pending one can be cancelled directly.\<close>

theorem accept_cancel_transitions:
  assumes b: "bookings s i = Some b" "b_status b = Pending" and a: "actor \<in> {b_tutor b, b_student b}"
  shows "(\<exists>s1 s2. accept i s = Inr s1 \<and> accept i s1 = Inl InvalidTransition \<and> cancel i actor s1 = Inr s2 \<and>
                  map_option b_status (bookings s2 i) = Some Cancelled)
       \<and> (\<exists>s3. cancel i actor s = Inr s3 \<and> map_option b_status (bookings s3 i) = Some Cancelled)"
  using b a by (auto simp: accept_def cancel_def bookings_set_status set_status_def)

text \<open>Tutor isolation: a successful command changes only the bookings of the tutor it concerns; every other tutor's part of the store is unchanged.\<close>

theorem other_tutors_untouched:
  assumes "reach s" and st: "step profs today s c = Inr s'" and t: "cmd_tutor s c \<noteq> Some t"
  shows "tutor_view s' t = tutor_view s t"
proof -
  have inv: "engine_inv s" by (rule reach_engine_inv [OF assms(1)])
  then have fr: "bookings s (next_id s) = None" and hp: "holds_paired s"
    by (simp_all add: engine_inv_def fresh_not_in_dom)
  show ?thesis
  proof (cases c)
    case (Create rq)
    with st t[unfolded cmd_tutor_def] fr show ?thesis by (auto dest!: create_Inr intro!: tutor_view_insert)
  next
    case (Accept i)
    with st t[unfolded cmd_tutor_def] show ?thesis by (auto simp: accept_def split: option.splits if_splits intro!: tutor_view_set_status)
  next
    case (Cancel i a)
    with st t[unfolded cmd_tutor_def] show ?thesis by (auto simp: cancel_def split: option.splits if_splits intro!: tutor_view_set_status)
  next
    case (Request_reschedule i rq)
    with st t[unfolded cmd_tutor_def] fr show ?thesis
    proof (clarsimp dest!: request_reschedule_Inr)
      fix b assume "b_tutor b \<noteq> t" "bookings s i = Some b"
      then have ni: "i \<noteq> next_id s" using fr by auto
      let ?s = "set_status i Reschedule_requested s"
      have "bookings ?s (next_id ?s) = None" using fr ni by (simp add: bookings_set_status)
      then have "tutor_view (insert_booking (new_booking rq (b_tutor b) (b_student b) On_hold (Some i) (b_amount b)) ?s) t
                 = tutor_view ?s t"
        by (rule tutor_view_insert) (simp add: \<open>b_tutor b \<noteq> t\<close>)
      also have "\<dots> = tutor_view s t"
        by (rule tutor_view_set_status) (use \<open>b_tutor b \<noteq> t\<close> \<open>bookings s i = Some b\<close> in auto)
      finally show "tutor_view (insert_booking (new_booking rq (b_tutor b) (b_student b) On_hold (Some i) (b_amount b))
                      (set_status i Reschedule_requested s)) t = tutor_view s t" .
    qed
  next
    case (Approve_reschedule i)
    with st t[unfolded cmd_tutor_def] hp show ?thesis
      by (auto simp: approve_reschedule_def split: option.splits if_splits intro: tutor_view_resolve)
  next
    case (Reject_reschedule i)
    with st t[unfolded cmd_tutor_def] hp show ?thesis
      by (auto simp: reject_reschedule_def split: option.splits if_splits intro: tutor_view_resolve)
  qed
qed

end
