(* ===== verification/Wire.thy ===== *)
theory Wire
  imports Booking Cost
begin

text \<open>
  The boundary between the browser and the booking service. \<open>BookingType.ts\<close>
  gives the record the service returns (\<open>BookingResponse\<close>); \<open>bookingAPI.ts\<close> gives
  one request builder per endpoint (method, path under \<open>VITE_APP_API/bookings\<close>,
  query parameters, body, bearer token). The service side is spec-modelled: a
  router that reads a request back into the call it encodes, and the dispatch
  of each mutating call to the engine transition of \<open>Booking\<close>, with booking
  ids as decimal strings. The lemmas show that every request the client builds
  is routed to the call it means, and that an id the service sent back reaches
  the same booking.
\<close>

section \<open>The wire record\<close>

text \<open>\<open>interface BookingResponse\<close>; the status is the string the service sends.\<close>

record booking_resp =
  br_id :: string
  br_tutor :: user_id
  br_student :: user_id
  br_tutor_name :: string
  br_student_name :: string
  br_date :: string
  br_start :: string
  br_end :: string
  br_status :: string
  br_lesson_type :: string

text \<open>How the service serialises a stored booking: its key in decimal.\<close>

definition resp_of :: "nat \<Rightarrow> booking \<Rightarrow> booking_resp" where
  "resp_of k b =
     \<lparr>br_id = nat_str k, br_tutor = b_tutor b, br_student = b_student b, br_tutor_name = b_tutor_name b,
      br_student_name = b_student_name b, br_date = b_date b, br_start = b_start b, br_end = b_end b,
      br_status = status_str (b_status b), br_lesson_type = b_lesson_type b\<rparr>"

definition parse_booking_id :: "string \<Rightarrow> nat option" where
  "parse_booking_id s = (if s \<noteq> [] \<and> (\<forall>c \<in> set s. is_digit c) then Some (digits_val s) else None)"

section \<open>bookingAPI.ts: the request builders\<close>

datatype http_method = GET | POST | PUT

record http_request =
  hr_method :: http_method
  hr_path :: string
  hr_params :: "(string \<times> string) list"
  hr_body :: "booking_request option"
  hr_auth :: string

text \<open>One constructor per exported function, with its string arguments.\<close>

datatype api_call =
    Create_booking booking_request
  | Accept_booking string
  | Get_bookings_for_tutor string string
  | Get_recent_bookings_for_tutor string
  | Get_past_bookings_for_tutor string
  | Get_bookings_for_tutor_range string string string
  | Get_bookings_for_student string
  | Cancel_booking string string
  | Get_booking_by_id string
  | Request_reschedule_call string booking_request
  | Approve_reschedule_call string
  | Reject_reschedule_call string
  | Get_past_sessions_for_student string

text \<open>\<open>BASE_URL = `${import.meta.env.VITE_APP_API}/bookings`\<close>\<close>

definition bookings_base :: "string \<Rightarrow> string" where
  "bookings_base host = host @ ''/bookings''"

definition bearer :: "string \<Rightarrow> string" where
  "bearer tok = ''Bearer '' @ tok"

text \<open>
  The request each function sends. \<open>{}\<close> bodies of the \<open>PUT\<close>s carry no data and
  are \<open>None\<close>; \<open>axios\<close> \<open>params\<close> are the query pairs in order.
\<close>

fun api_request :: "string \<Rightarrow> string \<Rightarrow> api_call \<Rightarrow> http_request" where
  "api_request host tok (Create_booking rq) =
     \<lparr>hr_method = POST, hr_path = bookings_base host, hr_params = [], hr_body = Some rq, hr_auth = bearer tok\<rparr>"
| "api_request host tok (Accept_booking i) =
     \<lparr>hr_method = PUT, hr_path = bookings_base host @ ''/'' @ i @ ''/accept'', hr_params = [], hr_body = None,
      hr_auth = bearer tok\<rparr>"
| "api_request host tok (Get_bookings_for_tutor t d) =
     \<lparr>hr_method = GET, hr_path = bookings_base host @ ''/tutor/'' @ t, hr_params = [(''date'', d)], hr_body = None,
      hr_auth = bearer tok\<rparr>"
| "api_request host tok (Get_recent_bookings_for_tutor t) =
     \<lparr>hr_method = GET, hr_path = bookings_base host @ ''/tutor/range/'' @ t @ ''/upcoming'', hr_params = [],
      hr_body = None, hr_auth = bearer tok\<rparr>"
| "api_request host tok (Get_past_bookings_for_tutor t) =
     \<lparr>hr_method = GET, hr_path = bookings_base host @ ''/tutor/range/'' @ t @ ''/past'', hr_params = [],
      hr_body = None, hr_auth = bearer tok\<rparr>"
| "api_request host tok (Get_bookings_for_tutor_range t a b) =
     \<lparr>hr_method = GET, hr_path = bookings_base host @ ''/tutor/range/'' @ t,
      hr_params = [(''startDate'', a), (''endDate'', b)], hr_body = None, hr_auth = bearer tok\<rparr>"
| "api_request host tok (Get_bookings_for_student u) =
     \<lparr>hr_method = GET, hr_path = bookings_base host @ ''/student/'' @ u, hr_params = [], hr_body = None,
      hr_auth = bearer tok\<rparr>"
| "api_request host tok (Cancel_booking i u) =
     \<lparr>hr_method = PUT, hr_path = bookings_base host @ ''/'' @ i @ ''/cancel/'' @ u, hr_params = [], hr_body = None,
      hr_auth = bearer tok\<rparr>"
| "api_request host tok (Get_booking_by_id i) =
     \<lparr>hr_method = GET, hr_path = bookings_base host @ ''/'' @ i, hr_params = [], hr_body = None,
      hr_auth = bearer tok\<rparr>"
| "api_request host tok (Request_reschedule_call i rq) =
     \<lparr>hr_method = POST, hr_path = bookings_base host @ ''/'' @ i @ ''/reschedule'', hr_params = [], hr_body = Some rq,
      hr_auth = bearer tok\<rparr>"
| "api_request host tok (Approve_reschedule_call i) =
     \<lparr>hr_method = PUT, hr_path = bookings_base host @ ''/reschedule/'' @ i @ ''/approve'', hr_params = [],
      hr_body = None, hr_auth = bearer tok\<rparr>"
| "api_request host tok (Reject_reschedule_call i) =
     \<lparr>hr_method = PUT, hr_path = bookings_base host @ ''/reschedule/'' @ i @ ''/reject'', hr_params = [],
      hr_body = None, hr_auth = bearer tok\<rparr>"
| "api_request host tok (Get_past_sessions_for_student u) =
     \<lparr>hr_method = GET, hr_path = bookings_base host @ ''/student/'' @ u @ ''/past'', hr_params = [], hr_body = None,
      hr_auth = bearer tok\<rparr>"

section \<open>The service side: routing and dispatch\<close>

text \<open>The route table: the path segments after \<open>/bookings\<close>, with method, query and body.\<close>

definition route_segments ::
  "http_method \<Rightarrow> string list \<Rightarrow> (string \<times> string) list \<Rightarrow> booking_request option \<Rightarrow> api_call option" where
  "route_segments m segs ps body =
     (case (m, segs, body) of
        (POST, [], Some rq) \<Rightarrow> if ps = [] then Some (Create_booking rq) else None
      | (POST, [i, r], Some rq) \<Rightarrow>
          if r = ''reschedule'' \<and> ps = [] then Some (Request_reschedule_call i rq) else None
      | (PUT, [i, a], None) \<Rightarrow> if a = ''accept'' \<and> ps = [] then Some (Accept_booking i) else None
      | (PUT, [a, b, c], None) \<Rightarrow>
          if ps \<noteq> [] then None
          else if a = ''reschedule'' \<and> c = ''approve'' then Some (Approve_reschedule_call b)
          else if a = ''reschedule'' \<and> c = ''reject'' then Some (Reject_reschedule_call b)
          else if b = ''cancel'' then Some (Cancel_booking a c) else None
      | (GET, [i], None) \<Rightarrow> if ps = [] then Some (Get_booking_by_id i) else None
      | (GET, [a, b], None) \<Rightarrow>
          if a = ''tutor'' then (case ps of [(k, d)] \<Rightarrow> if k = ''date'' then Some (Get_bookings_for_tutor b d) else None
                                          | _ \<Rightarrow> None)
          else if a = ''student'' \<and> ps = [] then Some (Get_bookings_for_student b) else None
      | (GET, [a, b, c], None) \<Rightarrow>
          if a = ''tutor'' \<and> b = ''range'' then
            (case ps of [(k1, x), (k2, y)] \<Rightarrow>
               if k1 = ''startDate'' \<and> k2 = ''endDate'' then Some (Get_bookings_for_tutor_range c x y) else None
             | _ \<Rightarrow> None)
          else if a = ''student'' \<and> c = ''past'' \<and> ps = [] then Some (Get_past_sessions_for_student b) else None
      | (GET, [a, b, c, d], None) \<Rightarrow>
          if a = ''tutor'' \<and> b = ''range'' \<and> ps = [] then
            (if d = ''upcoming'' then Some (Get_recent_bookings_for_tutor c)
             else if d = ''past'' then Some (Get_past_bookings_for_tutor c) else None)
          else None
      | _ \<Rightarrow> None)"

definition parse_request :: "string \<Rightarrow> http_request \<Rightarrow> api_call option" where
  "parse_request host r =
     (let base = bookings_base host; p = hr_path r in
      if take (length base) p \<noteq> base then None
      else (case drop (length base) p of
              [] \<Rightarrow> route_segments (hr_method r) [] (hr_params r) (hr_body r)
            | rest \<Rightarrow> (case split_on CHR ''/'' rest of
                         [] # segs \<Rightarrow> route_segments (hr_method r) segs (hr_params r) (hr_body r)
                       | _ \<Rightarrow> None)))"

text \<open>
  What the service does with a call: a mutating call runs the engine
  transition on the booking its id names (an id that is not a stored key is
  \<open>NotFound\<close>); a read leaves the store as it is.
\<close>

definition with_id :: "string \<Rightarrow> (nat \<Rightarrow> booking_error + engine) \<Rightarrow> booking_error + engine" where
  "with_id i f = (case parse_booking_id i of None \<Rightarrow> Inl NotFound | Some k \<Rightarrow> f k)"

fun exec_call :: "profiles \<Rightarrow> cdate \<Rightarrow> api_call \<Rightarrow> engine \<Rightarrow> booking_error + engine" where
  "exec_call profs today (Create_booking rq) s = step profs today s (Create rq)"
| "exec_call profs today (Accept_booking i) s = with_id i (\<lambda>k. step profs today s (Accept k))"
| "exec_call profs today (Cancel_booking i u) s = with_id i (\<lambda>k. step profs today s (Cancel k u))"
| "exec_call profs today (Request_reschedule_call i rq) s =
     with_id i (\<lambda>k. step profs today s (Request_reschedule k rq))"
| "exec_call profs today (Approve_reschedule_call i) s = with_id i (\<lambda>k. step profs today s (Approve_reschedule k))"
| "exec_call profs today (Reject_reschedule_call i) s = with_id i (\<lambda>k. step profs today s (Reject_reschedule k))"
| "exec_call profs today _ s = Inr s"

definition serve :: "profiles \<Rightarrow> cdate \<Rightarrow> string \<Rightarrow> http_request \<Rightarrow> engine \<Rightarrow> booking_error + engine" where
  "serve profs today host r s =
     (case parse_request host r of None \<Rightarrow> Inl NotFound | Some c \<Rightarrow> exec_call profs today c s)"

text \<open>
  The arguments the route table can read back: no path argument contains a
  \<open>/\<close>, and a booking id being cancelled is not the word \<open>reschedule\<close> (the one
  place where two endpoints share a shape).
\<close>

definition seg_ok :: "string \<Rightarrow> bool" where
  "seg_ok s \<longleftrightarrow> CHR ''/'' \<notin> set s"

fun call_args_ok :: "api_call \<Rightarrow> bool" where
  "call_args_ok (Create_booking rq) = True"
| "call_args_ok (Accept_booking i) = seg_ok i"
| "call_args_ok (Get_bookings_for_tutor t d) = seg_ok t"
| "call_args_ok (Get_recent_bookings_for_tutor t) = seg_ok t"
| "call_args_ok (Get_past_bookings_for_tutor t) = seg_ok t"
| "call_args_ok (Get_bookings_for_tutor_range t a b) = seg_ok t"
| "call_args_ok (Get_bookings_for_student u) = seg_ok u"
| "call_args_ok (Cancel_booking i u) = (seg_ok i \<and> seg_ok u \<and> i \<noteq> ''reschedule'')"
| "call_args_ok (Get_booking_by_id i) = seg_ok i"
| "call_args_ok (Request_reschedule_call i rq) = seg_ok i"
| "call_args_ok (Approve_reschedule_call i) = seg_ok i"
| "call_args_ok (Reject_reschedule_call i) = seg_ok i"
| "call_args_ok (Get_past_sessions_for_student u) = seg_ok u"

section \<open>Routing lemmas\<close>

lemma split_on_no_sep: "c \<notin> set xs \<Longrightarrow> split_on c xs = [xs]"
  by (induction xs) auto

lemma split_on_sep: "c \<notin> set xs \<Longrightarrow> split_on c (xs @ c # ys) = xs # split_on c ys"
proof (induction xs)
  case Nil
  then show ?case by simp
next
  case (Cons x xs)
  then show ?case by (cases "split_on c ys") (auto simp: split_on_no_sep)
qed

lemma split_on_sep_Cons: "split_on c (c # ys) = [] # split_on c ys"
  by simp

lemma parse_request_base:
  "parse_request host r =
     (case drop (length (bookings_base host)) (hr_path r) of
        [] \<Rightarrow> route_segments (hr_method r) [] (hr_params r) (hr_body r)
      | rest \<Rightarrow> (case split_on CHR ''/'' rest of
                   [] # segs \<Rightarrow> route_segments (hr_method r) segs (hr_params r) (hr_body r)
                 | _ \<Rightarrow> None))"
  if "take (length (bookings_base host)) (hr_path r) = bookings_base host"
  using that by (simp add: parse_request_def Let_def)

lemma parse_request_suffix:
  assumes "hr_path r = bookings_base host @ CHR ''/'' # rest"
  shows "parse_request host r =
           (case split_on CHR ''/'' (CHR ''/'' # rest) of
              [] # segs \<Rightarrow> route_segments (hr_method r) segs (hr_params r) (hr_body r) | _ \<Rightarrow> None)"
  using assms by (simp add: parse_request_def Let_def)

lemma parse_api_request:
  assumes "call_args_ok c"
  shows "parse_request host (api_request host tok c) = Some c"
proof (cases c)
  case (Accept_booking i)
  with assms show ?thesis
    by (simp add: parse_request_suffix seg_ok_def split_on_sep route_segments_def split_on_no_sep)
qed (use assms in \<open>auto simp: parse_request_suffix parse_request_def seg_ok_def split_on_sep
                              route_segments_def split_on_no_sep\<close>)

lemma nat_str_ne: "nat_str k \<noteq> []"
  by (subst nat_str.simps) simp

lemma parse_booking_id_nat_str [simp]: "parse_booking_id (nat_str k) = Some k"
  using nat_str_digits [of k] by (simp add: parse_booking_id_def nat_str_ne digits_val_nat_str)

lemma nat_str_inj: "nat_str k = nat_str k' \<longleftrightarrow> k = k'"
  by (metis digits_val_nat_str)

lemma seg_ok_nat_str [simp]: "seg_ok (nat_str k)"
  using nat_str_digits [of k] by (auto simp: seg_ok_def is_digit_def)

lemma nat_str_not_word: "nat_str k \<noteq> ''reschedule''"
  using nat_str_digits [of k] by (auto simp: is_digit_def)

lemma with_id_nat_str [simp]: "with_id (nat_str k) f = f k"
  by (simp add: with_id_def)

lemma resp_of_simps [simp]:
  "br_id (resp_of k b) = nat_str k" "br_tutor (resp_of k b) = b_tutor b" "br_student (resp_of k b) = b_student b"
  "br_date (resp_of k b) = b_date b" "br_start (resp_of k b) = b_start b" "br_end (resp_of k b) = b_end b"
  "br_status (resp_of k b) = status_str (b_status b)" "br_lesson_type (resp_of k b) = b_lesson_type b"
  "br_tutor_name (resp_of k b) = b_tutor_name b" "br_student_name (resp_of k b) = b_student_name b"
  by (simp_all add: resp_of_def)

lemma status_str_eq_iff [simp]:
  "status_str st = ''pending'' \<longleftrightarrow> st = Pending" "status_str st = ''confirmed'' \<longleftrightarrow> st = Confirmed"
  "status_str st = ''cancelled'' \<longleftrightarrow> st = Cancelled" "status_str st = ''on_hold'' \<longleftrightarrow> st = On_hold"
  "status_str st = ''reschedule_requested'' \<longleftrightarrow> st = Reschedule_requested"
  by (cases st; simp add: status_str_def)+

text \<open>
  Two calls share one request: cancelling a booking whose id is the word
  \<open>reschedule\<close> on behalf of user \<open>approve\<close> is the request that approves the
  reschedule of booking \<open>cancel\<close>. Ids the service generates are decimal, so
  the clash needs ids it never issues.
\<close>

lemma api_route_clash:
  "api_request host tok (Cancel_booking ''reschedule'' ''approve'') = api_request host tok (Approve_reschedule_call ''cancel'')"
  by simp

text \<open>(C22) Every request the client builds with routable arguments reaches the service as the call it encodes: routing the request and dispatching it is the same as running the call.\<close>

theorem client_request_served:
  assumes "call_args_ok c"
  shows "serve profs today host (api_request host tok c) s = exec_call profs today c s"
  using parse_api_request [OF assms] by (simp add: serve_def)

end
