(* ===== verification/TutorDash.thy ===== *)
theory TutorDash
  imports Wire
begin

text \<open>
  The tutor's dashboard, \<open>pages/tutor/TutorDashboard.tsx\<close>: its three booking
  lists (the month shown in the calendar, the upcoming sessions, the past
  sessions), the month range it asks for, the booking modal it opens on a
  calendar day, and the three handlers behind the modal's buttons
  (\<open>confirmBooking\<close>, \<open>approveRescheduleBooking\<close>, \<open>cancelBooking\<close>), each
  an API call on the service followed by a local patch or a re-fetch. The page
  state is a record; a handler maps the service's store and the page state to
  new ones. The service's list endpoints are an interface (\<open>tutor_queries\<close>):
  the lemmas hold for any implementation that returns the tutor's own bookings
  as the service serialises them. \<open>alert\<close> messages are the \<open>dash_notice\<close>s the
  page has shown, in order.
\<close>

section \<open>The page state\<close>

text \<open>The logged-in user of the Redux store: \<open>user.id\<close> and \<open>user.token\<close>.\<close>

record dash_user =
  du_id :: user_id
  du_token :: string

datatype dash_notice =
    N_login_required
  | N_booking_not_found
  | N_reschedule_rejected
  | N_booking_rejected string string string
  | N_reject_failed
  | N_booking_accepted string string string
  | N_accept_failed
  | N_reschedule_approved string string string
  | N_approve_failed

record tutor_dash =
  td_booked :: "booking_resp list"
  td_recent :: "booking_resp list"
  td_past :: "booking_resp list"
  td_recent_count :: nat
  td_past_count :: nat
  td_month :: cdate
  td_selected :: "(cdate \<times> time_slot) option"
  td_show_modal :: bool
  td_notices :: "dash_notice list"

text \<open>
  The service's three list endpoints as the page reads them: the bookings of a
  tutor between two dates, and the upcoming and past sessions with their total
  count.
\<close>

record tutor_queries =
  tq_month :: "engine \<Rightarrow> user_id \<Rightarrow> string \<Rightarrow> string \<Rightarrow> booking_resp list"
  tq_upcoming :: "engine \<Rightarrow> user_id \<Rightarrow> booking_resp list \<times> nat"
  tq_past :: "engine \<Rightarrow> user_id \<Rightarrow> booking_resp list \<times> nat"

text \<open>\<open>a.find(p) || b.find(p) || c.find(p)\<close>: the first list with a match wins.\<close>

primrec first_found :: "('a \<Rightarrow> bool) \<Rightarrow> 'a list list \<Rightarrow> 'a option" where
  "first_found P [] = None"
| "first_found P (xs # xss) = (case List.find P xs of Some x \<Rightarrow> Some x | None \<Rightarrow> first_found P xss)"

section \<open>Fetching\<close>

text \<open>
  \<open>fetchBookingsForMonth\<close>: \<open>firstDay\<close> and \<open>lastDay\<close> of \<open>monthStart\<close>'s month, the
  last day being \<open>new Date(year, month + 1, 0).getDate()\<close>.
\<close>

definition month_first :: "cdate \<Rightarrow> string" where
  "month_first ms = int_str (year ms) @ ''-'' @ pad_start 2 CHR ''0'' (nat_str (month ms)) @ ''-01''"

definition month_last :: "cdate \<Rightarrow> string" where
  "month_last ms = int_str (year ms) @ ''-'' @ pad_start 2 CHR ''0'' (nat_str (month ms)) @ ''-''
                   @ pad_start 2 CHR ''0'' (nat_str (days_in_month (year ms) (month ms)))"

text \<open>
  The three fetches. Each returns early without a user token or an id, and
  copies the ten fields of each row (\<open>res.data.map(b => ({...}))\<close>), which is the
  row itself. A failed request is caught and logged; it is not modelled.
\<close>

definition fetch_month :: "tutor_queries \<Rightarrow> engine \<Rightarrow> dash_user \<Rightarrow> user_id \<Rightarrow> tutor_dash \<Rightarrow> tutor_dash" where
  "fetch_month q s u i c =
     (if i = [] \<or> du_token u = [] then c
      else c\<lparr>td_booked := tq_month q s (du_id u) (month_first (td_month c)) (month_last (td_month c))\<rparr>)"

definition fetch_recent :: "tutor_queries \<Rightarrow> engine \<Rightarrow> dash_user \<Rightarrow> user_id \<Rightarrow> tutor_dash \<Rightarrow> tutor_dash" where
  "fetch_recent q s u i c =
     (if i = [] \<or> du_token u = [] then c
      else (case tq_upcoming q s (du_id u) of (rows, n) \<Rightarrow> c\<lparr>td_recent := rows, td_recent_count := n\<rparr>))"

definition fetch_past :: "tutor_queries \<Rightarrow> engine \<Rightarrow> dash_user \<Rightarrow> user_id \<Rightarrow> tutor_dash \<Rightarrow> tutor_dash" where
  "fetch_past q s u i c =
     (if i = [] \<or> du_token u = [] then c
      else (case tq_past q s (du_id u) of (rows, n) \<Rightarrow> c\<lparr>td_past := rows, td_past_count := n\<rparr>))"

section \<open>The booking modal\<close>

text \<open>\<open>handleSlotClick\<close>: remember the day and open the modal.\<close>

definition dash_click :: "cdate \<Rightarrow> time_slot \<Rightarrow> tutor_dash \<Rightarrow> tutor_dash" where
  "dash_click d slot c = c\<lparr>td_selected := Some (d, slot), td_show_modal := True\<rparr>"

datatype dash_action = Act_confirm string | Act_approve string | Act_cancel string | Act_close

text \<open>What \<open>modal(selectedSlot)\<close> renders: the accept/reject modal with its two callbacks, the read-only view, or nothing.\<close>

datatype dash_modal = No_modal | Accept_modal dash_action dash_action | View_modal

text \<open>
  \<open>modal\<close>: the first non-cancelled row dated \<open>date.toLocaleDateString("en-CA")\<close>
  (the local calendar date as \<open>YYYY-MM-DD\<close>) in the month, upcoming and past
  lists; a pending one gets accept/reject, an on-hold one approve/reject.
\<close>

definition modal_for :: "tutor_dash \<Rightarrow> cdate \<Rightarrow> dash_modal" where
  "modal_for c d =
     (case first_found (\<lambda>b. br_date b = format_date d \<and> br_status b \<noteq> ''cancelled'')
                       [td_booked c, td_recent c, td_past c] of
        None \<Rightarrow> No_modal
      | Some b \<Rightarrow>
          if br_status b = ''pending'' then Accept_modal (Act_confirm (br_id b)) (Act_cancel (br_id b))
          else if br_status b = ''on_hold'' then Accept_modal (Act_approve (br_id b)) (Act_cancel (br_id b))
          else View_modal)"

text \<open>\<open>{showModal && selectedSlot && modal(selectedSlot)}\<close>\<close>

definition dash_modal :: "tutor_dash \<Rightarrow> dash_modal" where
  "dash_modal c = (case td_selected c of Some (d, _) \<Rightarrow> if td_show_modal c then modal_for c d else No_modal
                                      | None \<Rightarrow> No_modal)"

section \<open>The handlers\<close>

definition notify :: "dash_notice \<Rightarrow> tutor_dash \<Rightarrow> tutor_dash" where
  "notify n c = c\<lparr>td_notices := td_notices c @ [n]\<rparr>"

text \<open>The \<open>finally\<close> block: \<open>setShowModal(false); setSelectedSlot(null)\<close>.\<close>

definition close_modal :: "tutor_dash \<Rightarrow> tutor_dash" where
  "close_modal c = c\<lparr>td_show_modal := False, td_selected := None\<rparr>"

text \<open>The guard \<open>!user?.token || !user?.id || !selectedSlot\<close>.\<close>

definition dash_ready :: "dash_user option \<Rightarrow> tutor_dash \<Rightarrow> bool" where
  "dash_ready user c \<longleftrightarrow>
     (case user of None \<Rightarrow> False | Some u \<Rightarrow> du_token u \<noteq> [] \<and> du_id u \<noteq> [] \<and> td_selected c \<noteq> None)"

text \<open>\<open>confirmBooking\<close>: accept, then mark the row confirmed in the month and upcoming lists.\<close>

definition mark_confirmed :: "string \<Rightarrow> booking_resp list \<Rightarrow> booking_resp list" where
  "mark_confirmed i = map (\<lambda>b. if br_id b = i then b\<lparr>br_status := ''confirmed''\<rparr> else b)"

definition dash_confirm ::
  "profiles \<Rightarrow> cdate \<Rightarrow> dash_user option \<Rightarrow> string \<Rightarrow> engine \<times> tutor_dash \<Rightarrow> engine \<times> tutor_dash" where
  "dash_confirm profs today user i sc =
     (case sc of (s, c) \<Rightarrow>
      if \<not> dash_ready user c then (s, notify N_login_required c)
      else (case td_selected c of None \<Rightarrow> (s, c) | Some (d, slot) \<Rightarrow>
        (case exec_call profs today (Accept_booking i) s of
           Inl _ \<Rightarrow> (s, close_modal (notify N_accept_failed c))
         | Inr s' \<Rightarrow>
             (s', close_modal (notify (N_booking_accepted (format_date d) (ts_start slot) (ts_end slot))
                    (c\<lparr>td_booked := mark_confirmed i (td_booked c), td_recent := mark_confirmed i (td_recent c)\<rparr>))))))"

text \<open>
  \<open>approveRescheduleBooking\<close>: its guard is \<open>!user?.token || !selectedSlot\<close> and it
  returns silently; on success it re-fetches the month and the upcoming list
  and closes the modal, on failure it only alerts (there is no \<open>finally\<close>).
\<close>

definition dash_approve ::
  "profiles \<Rightarrow> cdate \<Rightarrow> tutor_queries \<Rightarrow> dash_user option \<Rightarrow> string \<Rightarrow> engine \<times> tutor_dash \<Rightarrow> engine \<times> tutor_dash" where
  "dash_approve profs today q user i sc =
     (case sc of (s, c) \<Rightarrow>
      (case (user, td_selected c) of
         (Some u, Some (d, slot)) \<Rightarrow>
           if du_token u = [] then (s, c)
           else (case exec_call profs today (Approve_reschedule_call i) s of
                   Inl _ \<Rightarrow> (s, notify N_approve_failed c)
                 | Inr s' \<Rightarrow>
                     (s', close_modal (fetch_recent q s' u (du_id u) (fetch_month q s' u (du_id u)
                            (notify (N_reschedule_approved (format_date d) (ts_start slot) (ts_end slot)) c)))))
       | _ \<Rightarrow> (s, c)))"

text \<open>
  \<open>cancelBooking\<close>: look the row up by id; an on-hold row is a reschedule
  request and is rejected, any other is cancelled on behalf of the tutor; then
  all three lists are re-fetched.
\<close>

definition dash_cancel ::
  "profiles \<Rightarrow> cdate \<Rightarrow> tutor_queries \<Rightarrow> dash_user option \<Rightarrow> string \<Rightarrow> engine \<times> tutor_dash \<Rightarrow> engine \<times> tutor_dash" where
  "dash_cancel profs today q user i sc =
     (case sc of (s, c) \<Rightarrow>
      if \<not> dash_ready user c then (s, notify N_login_required c)
      else (case (user, td_selected c) of
        (Some u, Some (d, slot)) \<Rightarrow>
          (case first_found (\<lambda>b. br_id b = i) [td_booked c, td_recent c, td_past c] of
             None \<Rightarrow> (s, close_modal (notify N_booking_not_found c))
           | Some b \<Rightarrow>
               (let hold = (br_status b = ''on_hold'');
                    call = (if hold then Reject_reschedule_call i else Cancel_booking i (du_id u))
                in case exec_call profs today call s of
                     Inl _ \<Rightarrow> (s, close_modal (notify N_reject_failed c))
                   | Inr s' \<Rightarrow>
                       (s', close_modal
                              (fetch_past q s' u (du_id u) (fetch_recent q s' u (du_id u) (fetch_month q s' u (du_id u)
                                (notify (if hold then N_reschedule_rejected
                                         else N_booking_rejected (format_date d) (ts_start slot) (ts_end slot)) c)))))))
      | _ \<Rightarrow> (s, c)))"

text \<open>The modal's buttons: \<open>onAccept\<close>, \<open>onReject\<close> and \<open>onClose\<close>.\<close>

fun dash_do ::
  "profiles \<Rightarrow> cdate \<Rightarrow> tutor_queries \<Rightarrow> dash_user option \<Rightarrow> dash_action \<Rightarrow> engine \<times> tutor_dash \<Rightarrow> engine \<times> tutor_dash" where
  "dash_do profs today q user (Act_confirm i) sc = dash_confirm profs today user i sc"
| "dash_do profs today q user (Act_approve i) sc = dash_approve profs today q user i sc"
| "dash_do profs today q user (Act_cancel i) sc = dash_cancel profs today q user i sc"
| "dash_do profs today q user Act_close (s, c) = (s, c\<lparr>td_show_modal := False\<rparr>)"

definition dash_failure :: "dash_notice \<Rightarrow> bool" where
  "dash_failure n \<longleftrightarrow> n \<in> {N_login_required, N_booking_not_found, N_reject_failed, N_accept_failed, N_approve_failed}"

section \<open>The session lists\<close>

text \<open>
  The sort key \<open>new Date(b.date).getTime()\<close>, in days. The service's dates
  always parse (\<open>dates_parse\<close> of the engine); the comparator an unparsable
  date would give (\<open>NaN\<close>) is not modelled.
\<close>

definition date_key :: "string \<Rightarrow> int" where
  "date_key s = (case parse_iso_date s of Some d \<Rightarrow> days_from_civil d | None \<Rightarrow> 0)"

text \<open>
  Upcoming Sessions: the message when no row is non-cancelled, otherwise the
  confirmed, pending and on-hold rows by date (\<open>Array.prototype.sort\<close> is
  stable, as is \<open>sort_key\<close>).
\<close>

definition upcoming_rows :: "tutor_dash \<Rightarrow> booking_resp list option" where
  "upcoming_rows c =
     (if filter (\<lambda>b. br_status b \<noteq> ''cancelled'') (td_recent c) = [] then None
      else Some (sort_key (\<lambda>b. date_key (br_date b))
                  (filter (\<lambda>b. br_status b \<in> {''confirmed'', ''pending'', ''on_hold''}) (td_recent c))))"

text \<open>
  Past Sessions: \<open>new Date(b.date) < new Date()\<close> compares the UTC midnight of
  the date with the current instant, here the local day and minute in a zone
  \<open>tz\<close> minutes east of UTC.
\<close>

definition before_now :: "int \<Rightarrow> cdate \<Rightarrow> nat \<Rightarrow> string \<Rightarrow> bool" where
  "before_now tz today mins s =
     (case parse_iso_date s of None \<Rightarrow> False
      | Some d \<Rightarrow> days_from_civil d * 1440 < days_from_civil today * 1440 + int mins - tz)"

definition past_rows :: "int \<Rightarrow> cdate \<Rightarrow> nat \<Rightarrow> tutor_dash \<Rightarrow> booking_resp list option" where
  "past_rows tz today mins c =
     (if filter (\<lambda>b. before_now tz today mins (br_date b)) (td_past c) = [] then None
      else Some (sort_key (\<lambda>b. - date_key (br_date b))
                  (filter (\<lambda>b. br_status b = ''confirmed'' \<and> before_now tz today mins (br_date b)) (td_past c))))"

section \<open>The list endpoints\<close>

text \<open>A row the service may return to tutor \<open>t\<close>: one of \<open>t\<close>'s bookings, serialised.\<close>

definition row_of :: "engine \<Rightarrow> user_id \<Rightarrow> booking_resp \<Rightarrow> bool" where
  "row_of s t r \<longleftrightarrow> (\<exists>k b. bookings s k = Some b \<and> b_tutor b = t \<and> r = resp_of k b)"

definition queries_sound :: "tutor_queries \<Rightarrow> bool" where
  "queries_sound q \<longleftrightarrow>
     (\<forall>s t a b. \<forall>r \<in> set (tq_month q s t a b). row_of s t r) \<and>
     (\<forall>s t. \<forall>r \<in> set (fst (tq_upcoming q s t)). row_of s t r) \<and>
     (\<forall>s t. \<forall>r \<in> set (fst (tq_past q s t)). row_of s t r)"

text \<open>
  One implementation, from the spec: the month endpoint returns the tutor's
  bookings dated within the range, the upcoming and past endpoints those dated
  from today on and before today, with their number.
\<close>

definition tutor_rows :: "engine \<Rightarrow> user_id \<Rightarrow> (cdate \<Rightarrow> bool) \<Rightarrow> booking_resp list" where
  "tutor_rows s t P =
     List.map_filter (\<lambda>k. case bookings s k of None \<Rightarrow> None
                          | Some b \<Rightarrow> if b_tutor b = t \<and> (case parse_iso_date (b_date b) of Some d \<Rightarrow> P d | None \<Rightarrow> False)
                                     then Some (resp_of k b) else None)
       [0..<next_id s]"

definition spec_queries :: "cdate \<Rightarrow> tutor_queries" where
  "spec_queries today =
     \<lparr>tq_month = (\<lambda>s t a b. tutor_rows s t (\<lambda>d. (case (parse_iso_date a, parse_iso_date b) of
                                                  (Some x, Some y) \<Rightarrow> x \<le> d \<and> d \<le> y | _ \<Rightarrow> False))),
      tq_upcoming = (\<lambda>s t. let rows = tutor_rows s t (\<lambda>d. today \<le> d) in (rows, length rows)),
      tq_past = (\<lambda>s t. let rows = tutor_rows s t (\<lambda>d. d < today) in (rows, length rows))\<rparr>"

section \<open>Lookup and handler lemmas\<close>

lemma find_append_opt: "List.find P (xs @ ys) = (case List.find P xs of None \<Rightarrow> List.find P ys | Some x \<Rightarrow> Some x)"
  by (induction xs) auto

lemma first_found_find: "first_found P xss = List.find P (concat xss)"
  by (induction xss) (simp_all add: find_append_opt split: option.split)

lemma row_of_same_id:
  "row_of s t r \<Longrightarrow> row_of s t' r' \<Longrightarrow> br_id r = br_id r' \<Longrightarrow> r = r'"
  unfolding row_of_def by (metis nat_str_inj resp_of_simps(1) option.inject)
lemma find_row_by_id:
  assumes rows: "\<forall>x \<in> set xs. row_of s t x" and r: "r \<in> set xs" "br_id r = i"
  shows "List.find (\<lambda>b. br_id b = i) xs = Some r"
proof -
  have "List.find (\<lambda>b. br_id b = i) xs \<noteq> None"
    using r by (simp add: find_None_iff') blast
  then obtain r' where r': "List.find (\<lambda>b. br_id b = i) xs = Some r'" by blast
  have m: "r' \<in> set xs" by (rule find_Some_in_set [OF r'])
  have "br_id r' = i" using find_Some_prop [OF r'] by simp
  then have "r' = r" using row_of_same_id [OF bspec [OF rows m] bspec [OF rows r(1)]] r(2) by simp
  with r' show ?thesis by simp
qed

lemma modal_for_Accept:
  assumes "modal_for c d = Accept_modal a1 a2"
  obtains r where "r \<in> set (td_booked c @ td_recent c @ td_past c)"
    "(br_status r = ''pending'' \<and> a1 = Act_confirm (br_id r) \<and> a2 = Act_cancel (br_id r))
     \<or> (br_status r = ''on_hold'' \<and> a1 = Act_approve (br_id r) \<and> a2 = Act_cancel (br_id r))"
proof -
  obtain r where f: "first_found (\<lambda>b. br_date b = format_date d \<and> br_status b \<noteq> ''cancelled'')
                       [td_booked c, td_recent c, td_past c] = Some r"
    using assms by (auto simp: modal_for_def split: option.splits)
  have m: "r \<in> set (td_booked c @ td_recent c @ td_past c)"
    using find_Some_in_set [of _ "td_booked c @ td_recent c @ td_past c" r] f by (simp add: first_found_find)
  have "(br_status r = ''pending'' \<and> a1 = Act_confirm (br_id r) \<and> a2 = Act_cancel (br_id r))
     \<or> (br_status r = ''on_hold'' \<and> a1 = Act_approve (br_id r) \<and> a2 = Act_cancel (br_id r))"
    using assms f by (simp add: modal_for_def split: if_splits)
  with m that show ?thesis by blast
qed

lemma dash_modal_Accept:
  assumes "dash_modal c = Accept_modal a1 a2"
  obtains d slot where "td_selected c = Some (d, slot)" "modal_for c d = Accept_modal a1 a2"
  using assms by (auto simp: dash_modal_def split: option.splits if_splits)

lemma holds_related:
  "reach s \<Longrightarrow> bookings s k = Some b \<Longrightarrow> b_status b = On_hold \<Longrightarrow> \<exists>j. b_related b = Some j"
  using reach_engine_inv unfolding engine_inv_def holds_paired_def by blast

lemma dash_confirm_pending:
  assumes "dash_ready (Some u) c" "td_selected c = Some (d, slot)" "bookings s k = Some b" "b_status b = Pending"
  shows "dash_confirm profs today (Some u) (nat_str k) (s, c) =
           (set_status k Confirmed s, close_modal (notify (N_booking_accepted (format_date d) (ts_start slot) (ts_end slot))
              (c\<lparr>td_booked := mark_confirmed (nat_str k) (td_booked c), td_recent := mark_confirmed (nat_str k) (td_recent c)\<rparr>)))"
  using assms by (simp add: dash_confirm_def accept_def)

lemma dash_approve_hold:
  assumes "du_token u \<noteq> []" "td_selected c = Some (d, slot)" "bookings s k = Some b" "b_status b = On_hold"
    "b_related b = Some j"
  shows "dash_approve profs today q (Some u) (nat_str k) (s, c) =
           (let s' = set_status j Cancelled (set_status k Confirmed s) in
            (s', close_modal (fetch_recent q s' u (du_id u) (fetch_month q s' u (du_id u)
                    (notify (N_reschedule_approved (format_date d) (ts_start slot) (ts_end slot)) c)))))"
  using assms by (simp add: dash_approve_def approve_reschedule_def Let_def)



lemma dash_cancel_found:
  assumes "dash_ready (Some u) c" "td_selected c = Some (d, slot)"
    and "first_found (\<lambda>x. br_id x = i) [td_booked c, td_recent c, td_past c] = Some r"
    and "exec_call profs today (if br_status r = ''on_hold'' then Reject_reschedule_call i else Cancel_booking i (du_id u)) s
         = Inr s'"
  shows "dash_cancel profs today q (Some u) i (s, c) =
           (s', close_modal (fetch_past q s' u (du_id u) (fetch_recent q s' u (du_id u) (fetch_month q s' u (du_id u)
              (notify (if br_status r = ''on_hold'' then N_reschedule_rejected
                       else N_booking_rejected (format_date d) (ts_start slot) (ts_end slot)) c)))))"
  using assms by (simp add: dash_cancel_def Let_def)

lemma dash_notices_frame [simp]:
  "td_notices (close_modal c) = td_notices c" "td_notices (notify n c) = td_notices c @ [n]"
  "td_notices (fetch_month q s u i c) = td_notices c" "td_notices (fetch_recent q s u i c) = td_notices c"
  "td_notices (fetch_past q s u i c) = td_notices c"
  by (simp_all add: close_modal_def notify_def fetch_month_def fetch_recent_def fetch_past_def split: prod.split)

lemma dash_succeeds_intro:
  "dash_do profs today q user a (s, c) = (s', c'') \<Longrightarrow> c'' = c' \<Longrightarrow> td_notices c' = td_notices c @ [n] \<Longrightarrow>
   \<not> dash_failure n \<Longrightarrow> step profs today s cmd = Inr s' \<Longrightarrow>
   \<exists>s' c' n cmd. dash_do profs today q user a (s, c) = (s', c') \<and> td_notices c' = td_notices c @ [n]
     \<and> \<not> dash_failure n \<and> step profs today s cmd = Inr s'"
  by blast

lemma dash_success_notices:
  "\<not> dash_failure (N_booking_accepted x y z)" "\<not> dash_failure (N_reschedule_approved x y z)"
  "\<not> dash_failure N_reschedule_rejected" "\<not> dash_failure (N_booking_rejected x y z)"
  by (simp_all add: dash_failure_def)

text \<open>The two actions of the modal of a pending booking, Accept and Reject, each succeed at the service.\<close>

lemma pending_actions_succeed:
  assumes ready: "dash_ready (Some u) c" and sel: "td_selected c = Some (d, slot)"
    and look: "first_found (\<lambda>x. br_id x = nat_str k) [td_booked c, td_recent c, td_past c] = Some r"
    and kb: "bookings s k = Some b" "b_tutor b = du_id u" "r = resp_of k b" and p: "b_status b = Pending"
    and a: "a = Act_confirm (nat_str k) \<or> a = Act_cancel (nat_str k)"
  shows "\<exists>s' c' n cmd. dash_do profs today q (Some u) a (s, c) = (s', c') \<and> td_notices c' = td_notices c @ [n]
           \<and> \<not> dash_failure n \<and> step profs today s cmd = Inr s'"
proof -
  have acc: "step profs today s (Accept k) = Inr (set_status k Confirmed s)"
    using kb(1) p by (simp add: accept_def)
  have can: "exec_call profs today (Cancel_booking (nat_str k) (du_id u)) s = Inr (set_status k Cancelled s)"
    using kb p by (simp add: cancel_def)
  from a show ?thesis
  proof
    assume A: "a = Act_confirm (nat_str k)"
    show ?thesis unfolding A
      by (rule dash_succeeds_intro [OF _ refl _ dash_success_notices(1) [of "format_date d" "ts_start slot" "ts_end slot"] acc])
         (simp add: dash_confirm_pending [OF ready sel kb(1) p])+
  next
    assume A: "a = Act_cancel (nat_str k)"
    moreover have "br_status r \<noteq> ''on_hold''" using kb(3) p by simp
    ultimately show ?thesis unfolding A
      by (intro dash_succeeds_intro [where cmd = "Cancel k (du_id u)", OF _ refl _ dash_success_notices(4) [of "format_date d" "ts_start slot" "ts_end slot"]])
         (simp add: dash_cancel_found [OF ready sel look, of profs today s] can cancel_def kb p)+
  qed
qed

text \<open>The two actions of the modal of an on-hold booking, Approve and Reject, each succeed at the service.\<close>

lemma hold_actions_succeed:
  assumes "reach s" and tok: "du_token u \<noteq> []" and ready: "dash_ready (Some u) c" and sel: "td_selected c = Some (d, slot)"
    and look: "first_found (\<lambda>x. br_id x = nat_str k) [td_booked c, td_recent c, td_past c] = Some r"
    and kb: "bookings s k = Some b" "b_tutor b = du_id u" "r = resp_of k b" and h: "b_status b = On_hold"
    and a: "a = Act_approve (nat_str k) \<or> a = Act_cancel (nat_str k)"
  shows "\<exists>s' c' n cmd. dash_do profs today q (Some u) a (s, c) = (s', c') \<and> td_notices c' = td_notices c @ [n]
           \<and> \<not> dash_failure n \<and> step profs today s cmd = Inr s'"
proof -
  obtain j where j: "b_related b = Some j" using holds_related [OF assms(1) kb(1) h] by blast
  have apr: "step profs today s (Approve_reschedule k) = Inr (set_status j Cancelled (set_status k Confirmed s))"
    using kb(1) h j by (simp add: approve_reschedule_def)
  have rej: "exec_call profs today (Reject_reschedule_call (nat_str k)) s
             = Inr (set_status j Confirmed (set_status k Cancelled s))"
    using kb(1) h j by (simp add: reject_reschedule_def)
  from a show ?thesis
  proof
    assume A: "a = Act_approve (nat_str k)"
    show ?thesis unfolding A
      by (rule dash_succeeds_intro [OF _ refl _ dash_success_notices(2) [of "format_date d" "ts_start slot" "ts_end slot"] apr])
         (simp add: dash_approve_hold [OF tok sel kb(1) h j] Let_def)+
  next
    assume A: "a = Act_cancel (nat_str k)"
    moreover have "br_status r = ''on_hold''" using kb(3) h by simp
    ultimately show ?thesis unfolding A
      by (intro dash_succeeds_intro [where cmd = "Reject_reschedule k", OF _ refl _ dash_success_notices(3)])
         (simp add: dash_cancel_found [OF ready sel look, of profs today s] rej reject_reschedule_def kb h j)+
  qed
qed

text \<open>(C3) Every button of the tutor's booking modal is a legal transition: in a reachable store, when the page's lists hold the tutor's own bookings as the service sent them, accepting, approving or rejecting from the modal makes the service run an engine step that succeeds, and the page shows a success message, never a failure.\<close>

theorem modal_actions_succeed:
  assumes "reach s" and u: "du_token u \<noteq> []" "du_id u \<noteq> []"
    and rows: "\<forall>r \<in> set (td_booked c @ td_recent c @ td_past c). row_of s (du_id u) r"
    and m: "dash_modal c = Accept_modal a1 a2" and a: "a \<in> {a1, a2}"
  shows "\<exists>s' c' n cmd. dash_do profs today q (Some u) a (s, c) = (s', c') \<and> td_notices c' = td_notices c @ [n]
           \<and> \<not> dash_failure n \<and> step profs today s cmd = Inr s'"
proof -
  obtain d slot where sel: "td_selected c = Some (d, slot)" and mf: "modal_for c d = Accept_modal a1 a2"
    using m by (rule dash_modal_Accept)
  obtain r where r: "r \<in> set (td_booked c @ td_recent c @ td_past c)"
    and st: "(br_status r = ''pending'' \<and> a1 = Act_confirm (br_id r) \<and> a2 = Act_cancel (br_id r))
             \<or> (br_status r = ''on_hold'' \<and> a1 = Act_approve (br_id r) \<and> a2 = Act_cancel (br_id r))"
    using mf by (rule modal_for_Accept)
  obtain k b where kb: "bookings s k = Some b" "b_tutor b = du_id u" "r = resp_of k b"
    using rows r unfolding row_of_def by blast
  have ready: "dash_ready (Some u) c" using u sel by (simp add: dash_ready_def)
  have look: "first_found (\<lambda>x. br_id x = nat_str k) [td_booked c, td_recent c, td_past c] = Some r"
    using find_row_by_id [OF rows r] kb(3) by (simp add: first_found_find)
  consider (p) "b_status b = Pending" "a1 = Act_confirm (nat_str k)" "a2 = Act_cancel (nat_str k)"
    | (h) "b_status b = On_hold" "a1 = Act_approve (nat_str k)" "a2 = Act_cancel (nat_str k)"
    using st kb(3) by auto
  then show ?thesis
  proof cases
    case p
    then show ?thesis using pending_actions_succeed [OF ready sel look kb p(1)] a by simp
  next
    case h
    then show ?thesis using hold_actions_succeed [OF assms(1) u(1) ready sel look kb h(1)] a by simp
  qed
qed

lemma bookings_set_status_other: "k' \<noteq> k \<Longrightarrow> bookings (set_status k st s) k' = bookings s k'"
  by (simp add: bookings_set_status)

lemma mark_confirmed_row:
  assumes r: "row_of s t r" and b: "bookings s k = Some b"
  shows "row_of (set_status k Confirmed s) t (if br_id r = nat_str k then r\<lparr>br_status := ''confirmed''\<rparr> else r)"
proof -
  obtain k' b' where r': "bookings s k' = Some b'" "b_tutor b' = t" "r = resp_of k' b'"
    using r unfolding row_of_def by blast
  show ?thesis
  proof (cases "k' = k")
    case True
    then have "bookings (set_status k Confirmed s) k = Some (b'\<lparr>b_status := Confirmed\<rparr>)"
      using r'(1) by (simp add: bookings_set_status)
    moreover have "r\<lparr>br_status := ''confirmed''\<rparr> = resp_of k (b'\<lparr>b_status := Confirmed\<rparr>)"
      using r'(3) True by (simp add: resp_of_def status_str_def)
    moreover have "br_id r = nat_str k" using r'(3) True by simp
    ultimately show ?thesis using r'(2) unfolding row_of_def
      by (simp only: if_True) (intro exI [of _ k] exI [of _ "b'\<lparr>b_status := Confirmed\<rparr>"], simp)
  next
    case False
    then have "br_id r \<noteq> nat_str k" using r'(3) by (simp add: nat_str_inj)
    with False r' show ?thesis unfolding row_of_def
      by (simp only: if_False) (intro exI [of _ k'] exI [of _ b'], simp add: bookings_set_status_other)
  qed
qed

lemma mark_confirmed_rows:
  "\<forall>r \<in> set rs. row_of s t r \<Longrightarrow> bookings s k = Some b \<Longrightarrow>
   \<forall>r \<in> set (mark_confirmed (nat_str k) rs). row_of (set_status k Confirmed s) t r"
  using mark_confirmed_row by (fastforce simp: mark_confirmed_def)

lemma dash_confirm_cases:
  assumes "dash_confirm profs today user i (s, c) = (s', c')"
  shows "(s' = s \<and> td_booked c' = td_booked c \<and> td_recent c' = td_recent c) \<or>
         (\<exists>k b. parse_booking_id i = Some k \<and> bookings s k = Some b \<and> s' = set_status k Confirmed s \<and>
                td_booked c' = mark_confirmed i (td_booked c) \<and> td_recent c' = mark_confirmed i (td_recent c))"
  using assms
  by (auto simp: dash_confirm_def notify_def close_modal_def with_id_def accept_def
           split: if_splits option.splits sum.splits)

text \<open>(C4) The optimistic update after accepting agrees with the service: if every row of the month and upcoming lists was the service's current serialisation of one of the tutor's bookings, it still is after confirmBooking, whether the call succeeded or failed.\<close>

theorem accept_patch_matches_service:
  assumes fresh: "\<forall>r \<in> set (td_booked c @ td_recent c). row_of s t r"
    and res: "dash_confirm profs today user (nat_str k) (s, c) = (s', c')"
  shows "\<forall>r \<in> set (td_booked c' @ td_recent c'). row_of s' t r"
  using dash_confirm_cases [OF res]
proof
  assume "s' = s \<and> td_booked c' = td_booked c \<and> td_recent c' = td_recent c"
  with fresh show ?thesis by simp
next
  assume "\<exists>k' b. parse_booking_id (nat_str k) = Some k' \<and> bookings s k' = Some b \<and> s' = set_status k' Confirmed s \<and>
            td_booked c' = mark_confirmed (nat_str k) (td_booked c) \<and> td_recent c' = mark_confirmed (nat_str k) (td_recent c)"
  then obtain b where b: "bookings s k = Some b" "s' = set_status k Confirmed s"
    "td_booked c' = mark_confirmed (nat_str k) (td_booked c)" "td_recent c' = mark_confirmed (nat_str k) (td_recent c)"
    by auto
  have "\<forall>r \<in> set (td_booked c). row_of s t r" "\<forall>r \<in> set (td_recent c). row_of s t r" using fresh by auto
  from mark_confirmed_rows [OF this(1) b(1)] mark_confirmed_rows [OF this(2) b(1)] b(2-4)
  show ?thesis by auto
qed

lemma pad2_one: "pad2 (Suc 0) = ''01''"
  by code_simp

lemma month_first_format: "month_first ms = format_date (CDate (year ms) (month ms) 1)"
  unfolding month_first_def format_date_def pad2_def [symmetric] by (simp add: pad2_one)

lemma month_last_format:
  "month_last ms = format_date (CDate (year ms) (month ms) (days_in_month (year ms) (month ms)))"
  by (simp add: month_last_def format_date_def pad2_def)

text \<open>The month range the dashboard asks for is exactly the month it shows: firstDay and lastDay parse back to the first and last day of the month, and every day of the calendar grid lies between them.\<close>

theorem month_range_roundtrip:
  assumes m: "1 \<le> month ms" "month ms \<le> 12" and y: "1000 \<le> year ms" "year ms \<le> 9999"
  shows "parse_iso_date (month_first ms) = Some (CDate (year ms) (month ms) 1)
       \<and> parse_iso_date (month_last ms) = Some (CDate (year ms) (month ms) (days_in_month (year ms) (month ms)))
       \<and> (\<forall>d \<in> set (get_month_dates ms).
             CDate (year ms) (month ms) 1 \<le> d \<and> d \<le> CDate (year ms) (month ms) (days_in_month (year ms) (month ms)))"
proof -
  have dim: "1 \<le> days_in_month (year ms) (month ms)" using days_in_month_ge [of "year ms" "month ms"] by linarith
  have v1: "valid_date (CDate (year ms) (month ms) 1)" using m dim by (simp add: valid_date_def)
  have v2: "valid_date (CDate (year ms) (month ms) (days_in_month (year ms) (month ms)))"
    using m dim by (simp add: valid_date_def)
  have grid: "\<forall>d \<in> set (get_month_dates ms).
             CDate (year ms) (month ms) 1 \<le> d \<and> d \<le> CDate (year ms) (month ms) (days_in_month (year ms) (month ms))"
    by (auto simp: set_get_month_dates less_eq_cdate_def cdate_key_def)
  show ?thesis
    using parse_iso_date_format_date [OF v1] parse_iso_date_format_date [OF v2] y grid
    by (simp add: month_first_format month_last_format)
qed

lemma upcoming_rows_Some:
  "upcoming_rows c = Some rs \<longleftrightarrow> (\<exists>r \<in> set (td_recent c). br_status r \<noteq> ''cancelled'') \<and>
     rs = sort_key (\<lambda>b. date_key (br_date b)) (filter (\<lambda>b. br_status b \<in> {''confirmed'', ''pending'', ''on_hold''}) (td_recent c))"
  by (auto simp: upcoming_rows_def filter_empty_iff_all_not)

lemma sort_key_Nil_iff: "sort_key f xs = [] \<longleftrightarrow> xs = []" "[] = sort_key f xs \<longleftrightarrow> xs = []"
  by (metis set_empty set_sort)+

text \<open>(C23) The Upcoming Sessions card draws an empty list, instead of its 'No upcoming sessions yet.' message, exactly when some upcoming row is not cancelled but none is confirmed, pending or on hold (for instance a lone reschedule_requested row).\<close>

theorem upcoming_list_empty_iff:
  "upcoming_rows c = Some [] \<longleftrightarrow>
     (\<exists>r \<in> set (td_recent c). br_status r \<noteq> ''cancelled'') \<and>
     (\<forall>r \<in> set (td_recent c). br_status r \<notin> {''confirmed'', ''pending'', ''on_hold''})"
  by (simp add: upcoming_rows_Some sort_key_Nil_iff filter_empty_iff_all_not del: insert_iff)

lemma tutor_rows_sound: "r \<in> set (tutor_rows s t P) \<Longrightarrow> row_of s t r"
  by (auto simp: tutor_rows_def set_map_filter_iff row_of_def split: option.splits if_splits)

lemma spec_queries_sound: "queries_sound (spec_queries today)"
  by (auto simp: queries_sound_def spec_queries_def Let_def intro: tutor_rows_sound)

end
