(* ===== verification/Student.thy ===== *)
theory Student
  imports TutorDash
begin

text \<open>
  The student's side of the booking flow: the booking page of a tutor
  (\<open>pages/student/ViewTutorDetails.tsx\<close>, with \<open>components/BookingModal.tsx\<close>),
  the dashboard (\<open>pages/student/StudentDashboard.tsx\<close>) with its booking cards
  (\<open>components/BookingCard.tsx\<close>), and the reschedule dialog
  (\<open>components/RescheduleModal.tsx\<close>). Each page is a record of its state and
  each handler a function on the service's store and that state; toasts are
  \<open>st_notice\<close>s. The lemmas relate what a page offers to what the engine accepts,
  and what a page shows after an action to the calendar's resolver.
\<close>

section \<open>BookingModal: the lesson type and the confirm button\<close>

text \<open>\<open>useState(lessonTypes[0] || "")\<close>\<close>

definition modal_initial_lesson :: "string list \<Rightarrow> string" where
  "modal_initial_lesson lts = (case lts of [] \<Rightarrow> [] | lt # _ \<Rightarrow> lt)"

text \<open>
  The modal's events: picking an option of the \<open>select\<close> (only the listed lesson
  types are options) and pressing Confirm. \<open>handleConfirm\<close> calls \<open>onConfirm\<close>
  only with a non-empty selection.
\<close>

datatype modal_event = Pick_lesson string | Press_confirm

fun modal_run :: "string list \<Rightarrow> string \<Rightarrow> modal_event list \<Rightarrow> string list" where
  "modal_run lts sel [] = []"
| "modal_run lts sel (Pick_lesson v # evs) = modal_run lts (if v \<in> set lts then v else sel) evs"
| "modal_run lts sel (Press_confirm # evs) = (if sel = [] then [] else [sel]) @ modal_run lts sel evs"

text \<open>The lesson types each \<open>onConfirm\<close> call received, from a freshly opened modal.\<close>

definition modal_confirms :: "string list \<Rightarrow> modal_event list \<Rightarrow> string list" where
  "modal_confirms lts evs = modal_run lts (modal_initial_lesson lts) evs"

section \<open>ViewTutorDetails\<close>

text \<open>The fields of the tutor record \<open>GetTutorById\<close> returns that the page reads.\<close>

record tutor_info =
  ti_user_id :: user_id
  ti_first_name :: string
  ti_last_name :: string
  ti_rate :: js_num
  ti_lesson_types :: "string list option"
  ti_availability :: availability
  ti_description :: string

text \<open>
  \<open>tutorWithDefaults\<close>: an empty description becomes a placeholder, a missing
  lesson-type list \<open>["Beginner Lesson"]\<close> (\<open>??\<close> keeps an empty list).
\<close>

definition tutor_with_defaults :: "tutor_info \<Rightarrow> tutor_info" where
  "tutor_with_defaults t =
     t\<lparr>ti_description := (if ti_description t = [] then ''No description provided'' else ti_description t),
       ti_lesson_types := Some (case ti_lesson_types t of None \<Rightarrow> [''Beginner Lesson''] | Some l \<Rightarrow> l)\<rparr>"

text \<open>\<open>tutor.lessonType || ["Beginner Lesson", "Advanced Lesson"]\<close>: an array, even empty, is truthy.\<close>

definition page_lesson_types :: "tutor_info \<Rightarrow> string list" where
  "page_lesson_types t = (case ti_lesson_types t of None \<Rightarrow> [''Beginner Lesson'', ''Advanced Lesson''] | Some l \<Rightarrow> l)"

datatype st_notice =
    S_login_required
  | S_invalid_amount
  | S_booking_created rat
  | S_booking_failed
  | S_cancelled
  | S_cancel_failed
  | S_reschedule_submitted
  | S_reschedule_failed

record view_page =
  vp_tutor :: "tutor_info option"
  vp_selected :: "(cdate \<times> time_slot) option"
  vp_show_modal :: bool
  vp_booked :: "booked_slot list"
  vp_month :: cdate
  vp_notices :: "st_notice list"

text \<open>The student as the page sees it: \<open>user.id\<close>, \<open>user.name\<close>, \<open>user.token\<close>.\<close>

record student_user =
  su_id :: user_id
  su_name :: string
  su_token :: string

text \<open>\<open>bookingReq\<close> of \<open>confirmBooking\<close> (its \<open>amount\<close> field is not part of \<open>BookingRequest\<close>).\<close>

definition view_request :: "tutor_info \<Rightarrow> student_user \<Rightarrow> cdate \<Rightarrow> time_slot \<Rightarrow> string \<Rightarrow> booking_request" where
  "view_request t u d slot lt =
     \<lparr>rq_tutor = ti_user_id t, rq_student = su_id u, rq_tutor_name = ti_first_name t @ '' '' @ ti_last_name t,
      rq_student_name = su_name u, rq_date = format_date d, rq_start = ts_start slot, rq_end = ts_end slot,
      rq_lesson_type = lt\<rparr>"

text \<open>
  \<open>confirmBooking(lessonType)\<close>: the guard, the amount check (which returns before
  the \<open>try\<close>, leaving the modal open), the create call, the optimistic
  \<open>{date, status: "pending"}\<close> row, and the \<open>finally\<close> that closes the modal.
\<close>

definition view_confirm ::
  "profiles \<Rightarrow> cdate \<Rightarrow> student_user option \<Rightarrow> string \<Rightarrow> string \<Rightarrow> engine \<times> view_page \<Rightarrow> engine \<times> view_page" where
  "view_confirm profs today user route_id lt sc =
     (case sc of (s, p) \<Rightarrow>
      (case (user, vp_tutor p, vp_selected p) of
         (Some u, Some t, Some (d, slot)) \<Rightarrow>
           if su_token u = [] \<or> su_id u = [] \<or> route_id = [] then (s, p\<lparr>vp_notices := vp_notices p @ [S_login_required]\<rparr>)
           else (case booking_amount (ti_rate t) (ts_start slot) (ts_end slot) of
                   Inl _ \<Rightarrow> (s, p\<lparr>vp_notices := vp_notices p @ [S_invalid_amount]\<rparr>)
                 | Inr amt \<Rightarrow>
                     (case exec_call profs today (Create_booking (view_request t u d slot lt)) s of
                        Inl _ \<Rightarrow> (s, p\<lparr>vp_notices := vp_notices p @ [S_booking_failed],
                                        vp_show_modal := False, vp_selected := None\<rparr>)
                      | Inr s' \<Rightarrow> (s', p\<lparr>vp_booked := vp_booked p @ [\<lparr>bs_date = format_date d, bs_status = ''pending''\<rparr>],
                                          vp_notices := vp_notices p @ [S_booking_created amt],
                                          vp_show_modal := False, vp_selected := None\<rparr>)))
       | _ \<Rightarrow> (s, p\<lparr>vp_notices := vp_notices p @ [S_login_required]\<rparr>)))"

section \<open>BookingCard\<close>

datatype card_overlay = No_overlay | Cancel_overlay | Reschedule_overlay

text \<open>\<open>showCancelOverlay\<close> and \<open>showRescheduleOverlay\<close>.\<close>

definition card_overlay :: "bool \<Rightarrow> string \<Rightarrow> bool \<Rightarrow> card_overlay" where
  "card_overlay past status hovered =
     (if \<not> past \<and> status = ''pending'' \<and> hovered then Cancel_overlay
      else if \<not> past \<and> status = ''confirmed'' \<and> hovered then Reschedule_overlay
      else No_overlay)"

section \<open>StudentDashboard\<close>

text \<open>\<open>{bookingId, tutorId, tutorName, studentName}\<close> of the booking being rescheduled.\<close>

record resched_target =
  rt_booking :: string
  rt_tutor :: user_id
  rt_tutor_name :: string
  rt_student_name :: string

record student_dash =
  sd_bookings :: "booking_resp list"
  sd_balance :: rat
  sd_loading_wallet :: bool
  sd_only_confirmed :: bool
  sd_resched :: "resched_target option"
  sd_notices :: "st_notice list"

text \<open>
  \<open>new Date(`${b.date}T${b.start}`)\<close>: a date-time without offset is local time;
  an unparsable one is an Invalid Date, whose comparisons are false.
\<close>

definition local_start :: "string \<Rightarrow> string \<Rightarrow> (cdate \<times> nat) option" where
  "local_start date start =
     (case (parse_iso_date date, clock_minutes start) of
        (Some d, Some m) \<Rightarrow> Some (d, nat \<lfloor>m\<rfloor>) | _ \<Rightarrow> None)"

text \<open>\<open>upcomingBookings\<close> at local time \<open>now\<close> (day, minute of the day).\<close>

definition student_upcoming :: "cdate \<times> nat \<Rightarrow> student_dash \<Rightarrow> booking_resp list" where
  "student_upcoming now c =
     (let up = filter (\<lambda>b. case local_start (br_date b) (br_start b) of None \<Rightarrow> False | Some t \<Rightarrow> now \<le> t)
                      (sd_bookings c)
      in if sd_only_confirmed c then filter (\<lambda>b. br_status b = ''confirmed'') up else up)"

text \<open>The toggle button: \<open>setShowOnlyConfirmed(prev => !prev)\<close>.\<close>

definition toggle_confirmed :: "student_dash \<Rightarrow> student_dash" where
  "toggle_confirmed c = c\<lparr>sd_only_confirmed := \<not> sd_only_confirmed c\<rparr>"

text \<open>\<open>handleReschedule\<close>: the card's reschedule overlay opens the dialog for its booking.\<close>

definition student_reschedule_click :: "booking_resp \<Rightarrow> student_dash \<Rightarrow> student_dash" where
  "student_reschedule_click b c =
     (if br_tutor b = [] then c
      else c\<lparr>sd_resched := Some \<lparr>rt_booking = br_id b, rt_tutor = br_tutor b, rt_tutor_name = br_tutor_name b,
                                 rt_student_name = br_student_name b\<rparr>\<rparr>)"

text \<open>
  \<open>handleCancelBooking\<close>: without a token nothing happens; the student confirms
  in a dialog; on success the bookings and the wallet balance are re-fetched
  (the wallet is an outside collaborator: its answer is an input, \<open>None\<close> for a
  failed request, which leaves the balance).
\<close>

definition student_cancel ::
  "profiles \<Rightarrow> cdate \<Rightarrow> (engine \<Rightarrow> user_id \<Rightarrow> booking_resp list) \<Rightarrow> rat option \<Rightarrow> student_user option \<Rightarrow> bool \<Rightarrow>
   string \<Rightarrow> engine \<times> student_dash \<Rightarrow> engine \<times> student_dash" where
  "student_cancel profs today fetch wallet user confirmed i sc =
     (case sc of (s, c) \<Rightarrow>
      (case user of None \<Rightarrow> (s, c) | Some u \<Rightarrow>
        if su_token u = [] \<or> \<not> confirmed then (s, c)
        else (case exec_call profs today (Cancel_booking i (su_id u)) s of
                Inl _ \<Rightarrow> (s, c\<lparr>sd_notices := sd_notices c @ [S_cancel_failed]\<rparr>)
              | Inr s' \<Rightarrow> (s', c\<lparr>sd_notices := sd_notices c @ [S_cancelled], sd_bookings := fetch s' (su_id u),
                                  sd_balance := (case wallet of None \<Rightarrow> sd_balance c | Some v \<Rightarrow> v),
                                  sd_loading_wallet := False\<rparr>))))"

section \<open>RescheduleModal\<close>

text \<open>
  \<open>d.setMonth(d.getMonth() + n)\<close>: the month rolls over into the year, and a day
  past the end of the target month rolls over into the next month.
\<close>

definition js_add_months :: "cdate \<Rightarrow> nat \<Rightarrow> cdate" where
  "js_add_months d n =
     (let t = (month d - 1) + n; y = year d + int (t div 12); m = t mod 12 + 1; dim = days_in_month y m
      in if mday d \<le> dim then CDate y m (mday d)
         else if m = 12 then CDate (y + 1) 1 (mday d - dim) else CDate y (m + 1) (mday d - dim))"

text \<open>The window of booked slots the dialog fetches: today to three months on.\<close>

definition resched_window :: "cdate \<Rightarrow> string \<times> string" where
  "resched_window today = (format_date today, format_date (js_add_months today 3))"

record resched_modal =
  rm_avail :: availability
  rm_booked :: "booked_slot list"
  rm_selected :: "(cdate \<times> time_slot) option"
  rm_show_booking :: bool
  rm_loading :: bool
  rm_lesson_types :: "string list"

text \<open>
  \<open>confirmReschedule(lessonType)\<close>: the request for the clicked day (as
  \<open>formatLocalDate\<close>) and slot; on success the dashboard closes the dialog and
  re-fetches the bookings.
\<close>

definition resched_request :: "resched_target \<Rightarrow> student_user \<Rightarrow> cdate \<Rightarrow> time_slot \<Rightarrow> string \<Rightarrow> booking_request" where
  "resched_request bk u d slot lt =
     \<lparr>rq_tutor = rt_tutor bk, rq_student = su_id u, rq_tutor_name = rt_tutor_name bk,
      rq_student_name = rt_student_name bk, rq_date = format_date d, rq_start = ts_start slot,
      rq_end = ts_end slot, rq_lesson_type = lt\<rparr>"

definition resched_confirm ::
  "profiles \<Rightarrow> cdate \<Rightarrow> (engine \<Rightarrow> user_id \<Rightarrow> booking_resp list) \<Rightarrow> student_user option \<Rightarrow> string \<Rightarrow>
   engine \<times> resched_modal \<times> student_dash \<Rightarrow> engine \<times> resched_modal \<times> student_dash" where
  "resched_confirm profs today fetch user lt st =
     (case st of (s, m, c) \<Rightarrow>
      (case (sd_resched c, rm_selected m, user) of
         (Some bk, Some (d, slot), Some u) \<Rightarrow>
           if su_token u = [] then (s, m, c)
           else (let m' = m\<lparr>rm_show_booking := False, rm_selected := None\<rparr> in
                 case exec_call profs today (Request_reschedule_call (rt_booking bk) (resched_request bk u d slot lt)) s of
                   Inl _ \<Rightarrow> (s, m', c\<lparr>sd_notices := sd_notices c @ [S_reschedule_failed]\<rparr>)
                 | Inr s' \<Rightarrow> (s', m', c\<lparr>sd_notices := sd_notices c @ [S_reschedule_submitted], sd_resched := None,
                                       sd_bookings := fetch s' (su_id u)\<rparr>))
       | _ \<Rightarrow> (s, m, c)))"

section \<open>Properties of the student pages\<close>

lemma modal_run_silent: "\<forall>v \<in> set lts. v = [] \<Longrightarrow> sel = [] \<Longrightarrow> modal_run lts sel evs = []"
  by (induction lts sel evs rule: modal_run.induct) auto

lemma modal_run_pick: "lt \<in> set lts \<Longrightarrow> lt \<noteq> [] \<Longrightarrow> modal_run lts sel [Pick_lesson lt, Press_confirm] = [lt]"
  by simp

lemma modal_initial_lesson_mem: "lts \<noteq> [] \<Longrightarrow> modal_initial_lesson lts \<in> set lts"
  by (cases lts) (simp_all add: modal_initial_lesson_def)

text \<open>(C24) A tutor can be booked from the booking modal only if one of the lesson types the page offers is a non-empty string: no sequence of picks and Confirm presses ever reaches confirmBooking exactly when the tutor's lesson-type list is present and has only empty entries (in particular when it is empty).\<close>

theorem lesson_types_gate_booking:
  "(\<forall>evs. modal_confirms (page_lesson_types (tutor_with_defaults t)) evs = []) \<longleftrightarrow>
   (\<exists>l. ti_lesson_types t = Some l \<and> (\<forall>lt \<in> set l. lt = []))"
proof
  assume silent: "\<forall>evs. modal_confirms (page_lesson_types (tutor_with_defaults t)) evs = []"
  let ?l = "page_lesson_types (tutor_with_defaults t)"
  have "\<forall>lt \<in> set ?l. lt = []"
  proof
    fix lt assume "lt \<in> set ?l"
    with silent show "lt = []"
      using modal_run_pick [of lt ?l] unfolding modal_confirms_def by (metis list.distinct(1))
  qed
  then show "\<exists>l. ti_lesson_types t = Some l \<and> (\<forall>lt \<in> set l. lt = [])"
    by (cases "ti_lesson_types t") (auto simp: page_lesson_types_def tutor_with_defaults_def)
next
  assume "\<exists>l. ti_lesson_types t = Some l \<and> (\<forall>lt \<in> set l. lt = [])"
  then obtain l where l: "ti_lesson_types t = Some l" "\<forall>lt \<in> set l. lt = []" by blast
  have "modal_initial_lesson l = []"
    using l(2) by (cases l) (simp_all add: modal_initial_lesson_def)
  then show "\<forall>evs. modal_confirms (page_lesson_types (tutor_with_defaults t)) evs = []"
    using modal_run_silent [OF l(2)] l(1)
    by (simp add: modal_confirms_def page_lesson_types_def tutor_with_defaults_def)
qed

text \<open>(C25) The Cancel overlay of a booking card is a legal cancellation: for a booking of the logged-in student, confirming the dialog makes the service cancel exactly that booking and the dashboard report success.\<close>

theorem card_cancel_accepted:
  assumes b: "bookings s k = Some b" "b_student b = su_id u" and tok: "su_token u \<noteq> []"
    and ov: "card_overlay False (br_status (resp_of k b)) True = Cancel_overlay"
  shows "fst (student_cancel profs today fetch w (Some u) True (br_id (resp_of k b)) (s, c)) = set_status k Cancelled s
       \<and> sd_notices (snd (student_cancel profs today fetch w (Some u) True (br_id (resp_of k b)) (s, c)))
           = sd_notices c @ [S_cancelled]"
proof -
  have "b_status b = Pending" using ov by (simp add: card_overlay_def split: if_splits)
  then have "exec_call profs today (Cancel_booking (nat_str k) (su_id u)) s = Inr (set_status k Cancelled s)"
    using b by (simp add: cancel_def)
  then show ?thesis using tok by (simp add: student_cancel_def)
qed

text \<open>(C26) The student dashboard never offers to cancel a confirmed booking, and in its default confirmed-only view it offers no cancellation at all, although the engine lets either party cancel a confirmed booking.\<close>

theorem student_cancel_only_pending:
  "card_overlay past ''confirmed'' h \<noteq> Cancel_overlay \<and>
   (sd_only_confirmed c \<longrightarrow> (\<forall>r \<in> set (student_upcoming now c). card_overlay past (br_status r) h \<noteq> Cancel_overlay))"
  by (auto simp: card_overlay_def student_upcoming_def Let_def)




lemma view_confirm_created:
  assumes "view_confirm profs today user rid lt (s, p) = (s', p')"
    and "vp_notices p' = vp_notices p @ [S_booking_created amt]" and "vp_selected p = Some (d, slot)"
  shows "vp_booked p' = vp_booked p @ [\<lparr>bs_date = format_date d, bs_status = ''pending''\<rparr>]"
  using assms by (auto simp: view_confirm_def split: option.splits if_splits sum.splits)

lemma pending_row_not_available:
  assumes "0 \<le> tz" "parse_iso_date (bs_date b) = Some d" "b \<in> set slots" "bs_status b = ''pending''"
  shows "get_slot_status tz today slots d en \<noteq> StAvailable"
proof -
  have "reformat_api_date tz (bs_date b) = format_date d" using assms(1,2) by (rule reformat_api_date_east)
  then have "format_date d \<in> set (status_dates tz slots ''pending'')"
    using assms(3,4) by (force simp: status_dates_def)
  then show ?thesis by (simp add: get_slot_status_def Let_def)
qed

text \<open>(C28) After confirmBooking succeeds, the booked day can no longer be clicked by the student in a time zone at or east of UTC: the optimistic pending row makes the resolver report it as taken.\<close>

theorem booked_day_locked:
  assumes tz: "0 \<le> env_tz e" and v: "valid_date d" "1000 \<le> year d" "year d \<le> 9999"
    and sel: "vp_selected p = Some (d, slot)"
    and res: "view_confirm profs today user rid lt (s, p) = (s', p')"
    and ok: "vp_notices p' = vp_notices p @ [S_booking_created amt]"
  shows "\<not> cell_clickable (render_cell e Student avail (vp_booked p') d)"
proof -
  let ?row = "\<lparr>bs_date = format_date d, bs_status = ''pending''\<rparr>"
  have row: "?row \<in> set (vp_booked p')" using view_confirm_created [OF res ok sel] by simp
  have "get_slot_status (env_tz e) (env_today e) (vp_booked p') d en \<noteq> StAvailable" for en
    using pending_row_not_available [OF tz _ row] parse_iso_date_format_date [OF v] by simp
  then show ?thesis by (simp add: render_cell_simps cell_click_def)
qed

end
