(* ===== verification/Wallet.thy ===== *)
theory Wallet
  imports Cost
begin

text \<open>
  The wallet screens: the request builders of \<open>api/walletAPI.ts\<close>, the student's
  wallet page \<open>pages/student/Wallet.tsx\<close> (balance, top-up through a Stripe
  checkout, PIN set-up and withdrawal), the tutor's \<open>pages/tutor/TutorWalletPage.tsx\<close>
  (the same without top-up), and the Stripe return page
  \<open>pages/student/WalletSuccessPage.tsx\<close>. The wallet service is an outside
  collaborator: each handler takes the answer of its request as an argument
  (\<open>Ok\<close> or \<open>Err\<close> with the server's message), and the page records the calls it
  made, so that properties about what is sent are properties of the page.
  A page is a state machine over user events; a run folds the events over the
  state after mounting.
\<close>

section \<open>walletAPI.ts\<close>

datatype wallet_call =
    W_get_wallet string
  | W_get_txns string
  | W_topup string js_num
  | W_deduct string rat string
  | W_checkout string rat
  | W_set_pin string string
  | W_withdraw string string

datatype json_val = JStr string | JNum js_num

record wallet_request =
  wr_post :: bool
  wr_path :: string
  wr_body :: "(string \<times> json_val) list"
  wr_auth :: string

text \<open>\<open>BASE_URL = `${VITE_APP_API}/wallet`\<close>; every request carries the bearer token.\<close>

fun wallet_request_of :: "string \<Rightarrow> string \<Rightarrow> wallet_call \<Rightarrow> wallet_request" where
  "wallet_request_of host tok (W_get_wallet u) =
     \<lparr>wr_post = False, wr_path = host @ ''/wallet/'' @ u, wr_body = [], wr_auth = ''Bearer '' @ tok\<rparr>"
| "wallet_request_of host tok (W_get_txns u) =
     \<lparr>wr_post = False, wr_path = host @ ''/wallet/transactions/'' @ u, wr_body = [], wr_auth = ''Bearer '' @ tok\<rparr>"
| "wallet_request_of host tok (W_topup u a) =
     \<lparr>wr_post = True, wr_path = host @ ''/wallet/topup'', wr_body = [(''studentId'', JStr u), (''amount'', JNum a)],
      wr_auth = ''Bearer '' @ tok\<rparr>"
| "wallet_request_of host tok (W_deduct u a b) =
     \<lparr>wr_post = True, wr_path = host @ ''/wallet/deduct'',
      wr_body = [(''studentId'', JStr u), (''amount'', JNum (Some a)), (''bookingId'', JStr b)], wr_auth = ''Bearer '' @ tok\<rparr>"
| "wallet_request_of host tok (W_checkout u a) =
     \<lparr>wr_post = True, wr_path = host @ ''/wallet/create-checkout-session'',
      wr_body = [(''studentId'', JStr u), (''amount'', JNum (Some a))], wr_auth = ''Bearer '' @ tok\<rparr>"
| "wallet_request_of host tok (W_set_pin u p) =
     \<lparr>wr_post = True, wr_path = host @ ''/wallet/set-pin'', wr_body = [(''studentId'', JStr u), (''pin'', JStr p)],
      wr_auth = ''Bearer '' @ tok\<rparr>"
| "wallet_request_of host tok (W_withdraw u p) =
     \<lparr>wr_post = True, wr_path = host @ ''/wallet/withdraw'', wr_body = [(''studentId'', JStr u), (''pin'', JStr p)],
      wr_auth = ''Bearer '' @ tok\<rparr>"

text \<open>The answer of a request: its data, or an error with the server's message if it sent one.\<close>

datatype 'a api_res = Ok 'a | Err "string option"

section \<open>The wallet page\<close>

record txn =
  tx_id :: string
  tx_type :: string
  tx_description :: string
  tx_amount :: rat
  tx_date :: string

text \<open>\<open>walletRes.data\<close>: \<open>balance\<close> and \<open>pinSet\<close> may be missing (\<open>?? 0\<close>, \<open>?? false\<close>), as may the transactions (\<open>?? []\<close>).\<close>

record wallet_info =
  wi_balance :: "rat option"
  wi_pin_set :: "bool option"
  wi_txns :: "txn list option"

datatype wallet_notice =
    WN_not_logged_in
  | WN_fetch_failed string
  | WN_invalid_amount
  | WN_stripe_failed
  | WN_topup_failed string
  | WN_pin_too_short
  | WN_pin_set
  | WN_withdrawn string
  | WN_request_failed string
  | WN_credits_added
  | WN_payment_cancelled

record wallet_page =
  wp_balance :: rat
  wp_txns :: "txn list"
  wp_loading :: bool
  wp_show_confirm :: bool
  wp_pending :: "rat option"
  wp_show_pin :: bool
  wp_pin_set :: bool
  wp_pin_input :: string
  wp_processing :: bool
  wp_notices :: "wallet_notice list"
  wp_calls :: "wallet_call list"
  wp_location :: "string option"

definition wallet_init :: wallet_page where
  "wallet_init = \<lparr>wp_balance = 0, wp_txns = [], wp_loading = True, wp_show_confirm = False, wp_pending = None,
                  wp_show_pin = False, wp_pin_set = False, wp_pin_input = [], wp_processing = False,
                  wp_notices = [], wp_calls = [], wp_location = None\<rparr>"

text \<open>The logged-in user, \<open>(user.id, user.token)\<close>; the guard \<open>!user?.id || !user?.token\<close>.\<close>

definition logged_in :: "(string \<times> string) option \<Rightarrow> bool" where
  "logged_in wu \<longleftrightarrow> (case wu of None \<Rightarrow> False | Some (i, t) \<Rightarrow> i \<noteq> [] \<and> t \<noteq> [])"

definition wnotify :: "wallet_notice \<Rightarrow> wallet_page \<Rightarrow> wallet_page" where
  "wnotify n p = p\<lparr>wp_notices := wp_notices p @ [n]\<rparr>"

text \<open>\<open>toast.error("User not logged in"); navigate("/")\<close>\<close>

definition bounce :: "wallet_page \<Rightarrow> wallet_page" where
  "bounce p = (wnotify WN_not_logged_in p)\<lparr>wp_location := Some ''/''\<rparr>"

definition msg_or :: "string option \<Rightarrow> string \<Rightarrow> string" where
  "msg_or m d = (case m of Some x \<Rightarrow> if x = [] then d else x | None \<Rightarrow> d)"

text \<open>\<open>fetchWallet\<close>: both requests, then the defaults; \<open>finally\<close> clears the loading flag.\<close>

definition fetch_wallet :: "(string \<times> string) option \<Rightarrow> wallet_info api_res \<Rightarrow> wallet_page \<Rightarrow> wallet_page" where
  "fetch_wallet wu res p =
     (case wu of None \<Rightarrow> bounce p | Some (i, t) \<Rightarrow>
       if \<not> logged_in wu then bounce p
       else (let p1 = p\<lparr>wp_calls := wp_calls p @ [W_get_wallet i, W_get_txns i]\<rparr> in
             case res of
               Ok w \<Rightarrow> p1\<lparr>wp_balance := (case wi_balance w of None \<Rightarrow> 0 | Some b \<Rightarrow> b),
                          wp_txns := (case wi_txns w of None \<Rightarrow> [] | Some l \<Rightarrow> l),
                          wp_pin_set := (case wi_pin_set w of None \<Rightarrow> False | Some b \<Rightarrow> b), wp_loading := False\<rparr>
             | Err m \<Rightarrow> (wnotify (WN_fetch_failed (msg_or m ''Failed to fetch wallet details'')) p1)\<lparr>wp_loading := False\<rparr>))"

text \<open>\<open>openTopUpModal(amount)\<close>: \<open>NaN\<close> or a non-positive amount is refused.\<close>

definition open_topup :: "js_num \<Rightarrow> wallet_page \<Rightarrow> wallet_page" where
  "open_topup a p =
     (case a of None \<Rightarrow> wnotify WN_invalid_amount p
      | Some x \<Rightarrow> if x \<le> 0 then wnotify WN_invalid_amount p else p\<lparr>wp_pending := Some x, wp_show_confirm := True\<rparr>)"

text \<open>
  \<open>confirmTopUp\<close>: nothing without a (truthy) pending amount; a checkout session
  whose answer has a \<open>url\<close> sends the browser there; \<open>finally\<close> closes the modal.
\<close>

definition confirm_topup :: "(string \<times> string) option \<Rightarrow> string option api_res \<Rightarrow> wallet_page \<Rightarrow> wallet_page" where
  "confirm_topup wu res p =
     (case wp_pending p of None \<Rightarrow> p | Some a \<Rightarrow>
       if a = 0 then p
       else (case wu of None \<Rightarrow> bounce p | Some (i, t) \<Rightarrow>
         if \<not> logged_in wu then bounce p
         else (let p1 = p\<lparr>wp_calls := wp_calls p @ [W_checkout i a]\<rparr>;
                   p2 = (case res of
                           Ok (Some url) \<Rightarrow> if url = [] then wnotify WN_stripe_failed p1 else p1\<lparr>wp_location := Some url\<rparr>
                         | Ok None \<Rightarrow> wnotify WN_stripe_failed p1
                         | Err m \<Rightarrow> wnotify (WN_topup_failed (msg_or m ''Stripe top-up failed'')) p1)
               in p2\<lparr>wp_show_confirm := False, wp_pending := None\<rparr>)))"

definition withdraw_click :: "(string \<times> string) option \<Rightarrow> wallet_page \<Rightarrow> wallet_page" where
  "withdraw_click wu p = (if \<not> logged_in wu then bounce p else p\<lparr>wp_show_pin := True\<rparr>)"

text \<open>The PIN field has \<open>maxLength={6}\<close>: typing keeps at most six characters.\<close>

definition type_pin :: "string \<Rightarrow> wallet_page \<Rightarrow> wallet_page" where
  "type_pin s p = p\<lparr>wp_pin_input := take 6 s\<rparr>"

text \<open>
  \<open>handlePinSubmit\<close>: a PIN shorter than four characters is refused; without a
  PIN on file it is set, otherwise all funds are withdrawn and the wallet
  re-fetched. \<open>fail\<close> is the page's fallback error message.
\<close>

definition pin_submit ::
  "string \<Rightarrow> (string \<times> string) option \<Rightarrow> string option api_res \<Rightarrow> wallet_info api_res \<Rightarrow> wallet_page \<Rightarrow> wallet_page" where
  "pin_submit fail wu res fres p =
     (let pin = wp_pin_input p in
      if pin = [] \<or> length pin < 4 then wnotify WN_pin_too_short p
      else (case wu of None \<Rightarrow> bounce p | Some (i, t) \<Rightarrow>
        if \<not> logged_in wu then bounce p
        else (let p1 = p\<lparr>wp_processing := True\<rparr>;
                  p2 = (if \<not> wp_pin_set p then
                          (let q = p1\<lparr>wp_calls := wp_calls p1 @ [W_set_pin i pin]\<rparr> in
                           case res of
                             Ok _ \<Rightarrow> (wnotify WN_pin_set q)\<lparr>wp_pin_set := True, wp_show_pin := False, wp_pin_input := []\<rparr>
                           | Err m \<Rightarrow> wnotify (WN_request_failed (msg_or m fail)) q)
                        else
                          (let q = p1\<lparr>wp_calls := wp_calls p1 @ [W_withdraw i pin]\<rparr> in
                           case res of
                             Ok msg \<Rightarrow> (fetch_wallet wu fres (wnotify (WN_withdrawn (msg_or msg ''Withdrawal successful'')) q))
                                        \<lparr>wp_show_pin := False, wp_pin_input := []\<rparr>
                           | Err m \<Rightarrow> wnotify (WN_request_failed (msg_or m fail)) q))
              in p2\<lparr>wp_processing := False\<rparr>)))"

text \<open>The \<open>?status=\<close> effect after returning from Stripe.\<close>

definition status_effect :: "string option \<Rightarrow> wallet_page \<Rightarrow> wallet_page" where
  "status_effect st p =
     (if st = Some ''success'' then wnotify WN_credits_added p
      else if st = Some ''cancelled'' then wnotify WN_payment_cancelled p else p)"

text \<open>The events of a mounted wallet page.\<close>

datatype wallet_event =
    Wallet_loaded "wallet_info api_res"
  | Top_up_preset rat
  | Top_up_custom js_num
  | Confirm_top_up "string option api_res"
  | Cancel_top_up
  | Withdraw_click
  | Type_pin string
  | Submit_pin "string option api_res" "wallet_info api_res"
  | Cancel_pin

text \<open>
  The two pages share their handlers; the tutor's page has no top-up controls
  (\<open>topups = False\<close>: those events do nothing) and its own fallback message.
\<close>

fun wallet_step_gen :: "string \<Rightarrow> bool \<Rightarrow> (string \<times> string) option \<Rightarrow> wallet_page \<Rightarrow> wallet_event \<Rightarrow> wallet_page" where
  "wallet_step_gen fail topups wu p (Wallet_loaded r) = fetch_wallet wu r p"
| "wallet_step_gen fail topups wu p (Top_up_preset a) = (if topups then open_topup (Some a) p else p)"
| "wallet_step_gen fail topups wu p (Top_up_custom a) = (if topups then open_topup a p else p)"
| "wallet_step_gen fail topups wu p (Confirm_top_up r) = (if topups then confirm_topup wu r p else p)"
| "wallet_step_gen fail topups wu p Cancel_top_up = (if topups then p\<lparr>wp_show_confirm := False, wp_pending := None\<rparr> else p)"
| "wallet_step_gen fail topups wu p Withdraw_click = withdraw_click wu p"
| "wallet_step_gen fail topups wu p (Type_pin s) = type_pin s p"
| "wallet_step_gen fail topups wu p (Submit_pin r f) = pin_submit fail wu r f p"
| "wallet_step_gen fail topups wu p Cancel_pin = p\<lparr>wp_show_pin := False, wp_pin_input := []\<rparr>"

definition wallet_step :: "(string \<times> string) option \<Rightarrow> wallet_page \<Rightarrow> wallet_event \<Rightarrow> wallet_page" where
  "wallet_step = wallet_step_gen ''Failed to process request'' True"

definition tutor_wallet_step :: "(string \<times> string) option \<Rightarrow> wallet_page \<Rightarrow> wallet_event \<Rightarrow> wallet_page" where
  "tutor_wallet_step = wallet_step_gen ''Failed to process withdrawal'' False"

definition wallet_run :: "(string \<times> string) option \<Rightarrow> wallet_event list \<Rightarrow> wallet_page" where
  "wallet_run wu evs = foldl (wallet_step wu) wallet_init evs"

definition tutor_wallet_run :: "(string \<times> string) option \<Rightarrow> wallet_event list \<Rightarrow> wallet_page" where
  "tutor_wallet_run wu evs = foldl (tutor_wallet_step wu) wallet_init evs"

text \<open>The confirmation modal's projected balance, \<open>balance + (pendingAmount ?? 0)\<close>.\<close>

definition projected_balance :: "wallet_page \<Rightarrow> rat" where
  "projected_balance p = wp_balance p + (case wp_pending p of None \<Rightarrow> 0 | Some a \<Rightarrow> a)"

text \<open>What a page may send: PINs of four to six characters and positive checkout amounts.\<close>

fun call_ok :: "wallet_call \<Rightarrow> bool" where
  "call_ok (W_set_pin u pin) = (4 \<le> length pin \<and> length pin \<le> 6)"
| "call_ok (W_withdraw u pin) = (4 \<le> length pin \<and> length pin \<le> 6)"
| "call_ok (W_checkout u a) = (0 < a)"
| "call_ok _ = True"

definition wallet_ok :: "wallet_page \<Rightarrow> bool" where
  "wallet_ok p \<longleftrightarrow> list_all call_ok (wp_calls p) \<and> length (wp_pin_input p) \<le> 6 \<and>
     (case wp_pending p of None \<Rightarrow> True | Some a \<Rightarrow> 0 < a)"

section \<open>WalletSuccessPage\<close>

text \<open>
  \<open>parseFloat\<close> on the decimal amounts of the return URL: the longest prefix of
  digits with an optional fraction; a string not starting with a digit is
  \<open>NaN\<close> (signs, blanks and exponents do not occur in the URL and are not
  modelled).
\<close>

definition parse_float :: "string \<Rightarrow> js_num" where
  "parse_float s =
     (let ip = takeWhile is_digit s; rest = drop (length ip) s in
      if ip = [] then None
      else (case rest of
              c # r \<Rightarrow> if c = CHR ''.'' then
                          (let fp = takeWhile is_digit r in
                           Some (of_nat (digits_val ip) + of_nat (digits_val fp) / 10 ^ length fp))
                        else Some (of_nat (digits_val ip))
            | [] \<Rightarrow> Some (of_nat (digits_val ip))))"

datatype topup_status = Processing | Succeeded | Failed

datatype success_notice = SN_invalid | SN_added string | SN_failed

text \<open>One mount of the page: the ref \<open>hasProcessedRef\<close> and the page status; the browser's \<open>localStorage\<close> outlives it.\<close>

record success_page =
  sp_processed :: bool
  sp_status :: topup_status
  sp_notices :: "success_notice list"
  sp_calls :: "wallet_call list"
  sp_storage :: "string list"
  sp_redirect :: bool

definition success_mount :: "string list \<Rightarrow> wallet_call list \<Rightarrow> success_page" where
  "success_mount storage calls = \<lparr>sp_processed = False, sp_status = Processing, sp_notices = [],
                                  sp_calls = calls, sp_storage = storage, sp_redirect = False\<rparr>"

text \<open>
  \<open>processTopUp\<close> as one run of the effect: \<open>sid\<close> and \<open>amt\<close> are the query
  parameters, \<open>res\<close> the answer of \<open>TopUpWallet\<close> (its \<open>refId\<close>, if any), \<open>now\<close>
  the \<open>Date.now()\<close> fallback.
\<close>

definition success_effect ::
  "string option \<Rightarrow> string option \<Rightarrow> string option \<Rightarrow> string option api_res \<Rightarrow> string \<Rightarrow> success_page \<Rightarrow> success_page" where
  "success_effect sid amt tok res now p =
     (if sp_processed p then p
      else (let p = p\<lparr>sp_processed := True\<rparr> in
        case (sid, amt, tok) of
          (Some s, Some a, Some t) \<Rightarrow>
            if s = [] \<or> a = [] \<or> t = [] then p\<lparr>sp_notices := sp_notices p @ [SN_invalid], sp_status := Failed\<rparr>
            else (let p = p\<lparr>sp_calls := sp_calls p @ [W_topup s (parse_float a)]\<rparr> in
                  case res of
                    Err _ \<Rightarrow> p\<lparr>sp_notices := sp_notices p @ [SN_failed], sp_status := Failed\<rparr>
                  | Ok ref \<Rightarrow>
                      (let key = ''wallet-topup-'' @ s @ ''-'' @ a @ ''-'' @ msg_or ref now in
                       if key \<in> set (sp_storage p) then p\<lparr>sp_status := Succeeded\<rparr>
                       else p\<lparr>sp_storage := sp_storage p @ [key], sp_notices := sp_notices p @ [SN_added a],
                              sp_status := Succeeded, sp_redirect := True\<rparr>))
        | _ \<Rightarrow> p\<lparr>sp_notices := sp_notices p @ [SN_invalid], sp_status := Failed\<rparr>))"

text \<open>
  A visit: the effect runs once per dependency change or re-render that
  re-triggers it, each time with the service's answer to a possible call.
\<close>

definition success_visit ::
  "string option \<Rightarrow> string option \<Rightarrow> string option \<Rightarrow> (string option api_res \<times> string) list \<Rightarrow> success_page \<Rightarrow> success_page" where
  "success_visit sid amt tok runs p = foldl (\<lambda>q (r, now). success_effect sid amt tok r now q) p runs"

text \<open>Reloading the page: a new mount (fresh ref) with the stored keys and calls so far.\<close>

fun success_reloads ::
  "string option \<Rightarrow> string option \<Rightarrow> string option \<Rightarrow> (string option api_res \<times> string) list list \<Rightarrow> success_page \<Rightarrow> success_page" where
  "success_reloads sid amt tok [] p = p"
| "success_reloads sid amt tok (runs # rest) p =
     success_reloads sid amt tok rest (success_visit sid amt tok runs (success_mount (sp_storage p) (sp_calls p)))"

definition is_topup :: "wallet_call \<Rightarrow> bool" where
  "is_topup c = (case c of W_topup _ _ \<Rightarrow> True | _ \<Rightarrow> False)"

section \<open>Properties of the wallet pages\<close>

lemma wallet_ok_calls_append:
  "wallet_ok p \<Longrightarrow> list_all call_ok cs \<Longrightarrow> wallet_ok (p\<lparr>wp_calls := wp_calls p @ cs\<rparr>)"
  by (simp add: wallet_ok_def)

lemma wallet_ok_simps [simp]:
  "wallet_ok (wnotify n p) = wallet_ok p" "wallet_ok (bounce p) = wallet_ok p"
  "wallet_ok (p\<lparr>wp_loading := b\<rparr>) = wallet_ok p" "wallet_ok (p\<lparr>wp_processing := b\<rparr>) = wallet_ok p"
  "wallet_ok (p\<lparr>wp_show_pin := b\<rparr>) = wallet_ok p" "wallet_ok (p\<lparr>wp_show_confirm := b\<rparr>) = wallet_ok p"
  "wallet_ok (p\<lparr>wp_location := l\<rparr>) = wallet_ok p" "wallet_ok (p\<lparr>wp_pin_set := b\<rparr>) = wallet_ok p"
  "wallet_ok (p\<lparr>wp_balance := x, wp_txns := ts, wp_pin_set := b, wp_loading := b'\<rparr>) = wallet_ok p"
  by (simp_all add: wallet_ok_def wnotify_def bounce_def)

lemma fetch_wallet_ok: "wallet_ok p \<Longrightarrow> wallet_ok (fetch_wallet wu r p)"
  by (auto simp: fetch_wallet_def Let_def wallet_ok_def wnotify_def bounce_def split: api_res.splits prod.splits option.splits)

lemma open_topup_ok: "wallet_ok p \<Longrightarrow> wallet_ok (open_topup a p)"
  by (auto simp: open_topup_def wallet_ok_def wnotify_def split: option.splits)

lemma confirm_topup_ok: "wallet_ok p \<Longrightarrow> wallet_ok (confirm_topup wu r p)"
  by (auto simp: confirm_topup_def Let_def wallet_ok_def wnotify_def bounce_def
           split: api_res.splits prod.splits option.splits)

lemma pin_submit_ok: "wallet_ok p \<Longrightarrow> wallet_ok (pin_submit fail wu r f p)"
proof -
  assume ok: "wallet_ok p"
  then have len: "length (wp_pin_input p) \<le> 6" by (simp add: wallet_ok_def)
  show ?thesis
  proof (cases "wp_pin_input p = [] \<or> length (wp_pin_input p) < 4")
    case True
    with ok show ?thesis by (simp add: pin_submit_def)
  next
    case False
    then have pin: "call_ok (W_set_pin i (wp_pin_input p))" "call_ok (W_withdraw i (wp_pin_input p))" for i
      using len by simp_all
    have q: "wallet_ok (p\<lparr>wp_processing := True, wp_calls := wp_calls p @ [c]\<rparr>)" if "call_ok c" for c
      using ok that by (simp add: wallet_ok_def)
    have clr: "wallet_ok x \<Longrightarrow> wallet_ok (x\<lparr>wp_show_pin := False, wp_pin_input := []\<rparr>)" for x :: wallet_page
      by (simp add: wallet_ok_def)
    have set: "wallet_ok x \<Longrightarrow> wallet_ok (x\<lparr>wp_pin_set := True, wp_show_pin := False, wp_pin_input := []\<rparr>)"
      for x :: wallet_page by (simp add: wallet_ok_def)
    show ?thesis using False q [OF pin(1)] q [OF pin(2)] ok
      by (auto simp: pin_submit_def Let_def split: api_res.splits prod.splits option.splits
               intro!: clr set fetch_wallet_ok)
  qed
qed

lemma wallet_step_gen_ok: "wallet_ok p \<Longrightarrow> wallet_ok (wallet_step_gen fail t wu p e)"
  by (cases e) (auto simp: type_pin_def withdraw_click_def wallet_ok_def [of "p\<lparr>wp_pin_input := _\<rparr>"]
                     intro: fetch_wallet_ok open_topup_ok confirm_topup_ok pin_submit_ok,
                simp_all add: wallet_ok_def)

lemma wallet_ok_init: "wallet_ok wallet_init"
  by (simp add: wallet_ok_def wallet_init_def)

lemma foldl_wallet_ok: "wallet_ok p \<Longrightarrow> wallet_ok (foldl (wallet_step_gen fail t wu) p evs)"
  by (induction evs arbitrary: p) (simp_all add: wallet_step_gen_ok)

text \<open>(C29) Whatever the user does and whatever the wallet service answers, the student and tutor wallet pages only ever send PINs of four to six characters and positive checkout amounts, and a pending top-up amount is always positive.\<close>

theorem wallet_pages_send_valid: "wallet_ok (wallet_run wu evs) \<and> wallet_ok (tutor_wallet_run wu evs)"
  by (simp add: wallet_run_def tutor_wallet_run_def wallet_step_def tutor_wallet_step_def foldl_wallet_ok wallet_ok_init)

lemma success_effect_done: "sp_processed p \<Longrightarrow> success_effect sid amt tok r now p = p"
  by (simp add: success_effect_def)

lemma success_effect_processed: "sp_processed (success_effect sid amt tok r now p)"
  by (auto simp: success_effect_def Let_def split: option.splits api_res.splits)

lemma success_visit_done: "sp_processed p \<Longrightarrow> success_visit sid amt tok runs p = p"
  by (induction runs) (auto simp: success_visit_def success_effect_done)

lemma success_effect_topup:
  assumes "\<not> sp_processed p" "s \<noteq> []" "a \<noteq> []" "t \<noteq> []"
  shows "filter is_topup (sp_calls (success_effect (Some s) (Some a) (Some t) r now p))
           = filter is_topup (sp_calls p) @ [W_topup s (parse_float a)]"
  using assms by (auto simp: success_effect_def Let_def is_topup_def split: api_res.splits)

lemma success_visit_topup:
  assumes "runs \<noteq> []" "\<not> sp_processed p" "s \<noteq> []" "a \<noteq> []" "t \<noteq> []"
  shows "filter is_topup (sp_calls (success_visit (Some s) (Some a) (Some t) runs p))
           = filter is_topup (sp_calls p) @ [W_topup s (parse_float a)]"
proof -
  obtain r now rest where runs: "runs = (r, now) # rest" using assms(1) by (metis list.exhaust prod.exhaust)
  let ?q = "success_effect (Some s) (Some a) (Some t) r now p"
  have "success_visit (Some s) (Some a) (Some t) runs p = success_visit (Some s) (Some a) (Some t) rest ?q"
    by (simp add: success_visit_def runs)
  also have "\<dots> = ?q" by (rule success_visit_done [OF success_effect_processed])
  finally show ?thesis using success_effect_topup [OF assms(2-5)] by simp
qed

text \<open>(C30) The Stripe return page sends exactly one TopUpWallet request per visit however often its effect re-runs, but a reload is a new visit and sends another one: the localStorage key checked after the request only suppresses the toast.\<close>

theorem reload_repeats_topup:
  assumes "s \<noteq> []" "a \<noteq> []" "t \<noteq> []" and "\<forall>runs \<in> set visits. runs \<noteq> []"
  shows "filter is_topup (sp_calls (success_reloads (Some s) (Some a) (Some t) visits p))
           = filter is_topup (sp_calls p) @ replicate (length visits) (W_topup s (parse_float a))"
  using assms(4)
proof (induction visits arbitrary: p)
  case Nil
  then show ?case by simp
next
  case (Cons runs visits)
  let ?m = "success_mount (sp_storage p) (sp_calls p)"
  have "filter is_topup (sp_calls (success_visit (Some s) (Some a) (Some t) runs ?m))
          = filter is_topup (sp_calls p) @ [W_topup s (parse_float a)]"
    using success_visit_topup [of runs ?m s a t] Cons.prems assms(1-3) by (simp add: success_mount_def)
  with Cons show ?case by (simp add: replicate_app_Cons_same)
qed

end
