(* ===== verification/Profile.thy ===== *)
theory Profile
  imports Template Cost
begin

text \<open>
  The tutor's profile editor, \<open>pages/tutor/TutorProfile.tsx\<close>, and its
  lesson-type chip input \<open>components/TutorLessonTypeInput.tsx\<close>: the form state,
  its field handlers (rate input and its blur normalisation, file drop and
  deletions, lesson types) and the save handler with its validation and
  confirmation. The profile service is a collaborator: the save handler takes
  its answer as an argument and records the request it sends.
\<close>

section \<open>String helpers\<close>

text \<open>\<open>String.prototype.trim\<close> on ASCII text: blanks, tabs and line breaks at either end.\<close>

definition is_ws :: "char \<Rightarrow> bool" where
  "is_ws c \<longleftrightarrow> c \<in> {CHR '' '', CHR 0x09, CHR 0x0A, CHR 0x0B, CHR 0x0C, CHR 0x0D}"

definition trim :: "string \<Rightarrow> string" where
  "trim s = rev (dropWhile is_ws (rev (dropWhile is_ws s)))"

text \<open>\<open>toLowerCase\<close> on ASCII letters.\<close>

definition lower :: "char \<Rightarrow> char" where
  "lower c = (let k = (of_char c :: nat) in if 65 \<le> k \<and> k \<le> 90 then char_of (k + 32) else c)"

text \<open>\<open>s.includes(t)\<close>: \<open>t\<close> occurs contiguously in \<open>s\<close>.\<close>

fun js_includes :: "string \<Rightarrow> string \<Rightarrow> bool" where
  "js_includes s t = (take (length t) s = t \<or> (case s of [] \<Rightarrow> False | _ # r \<Rightarrow> js_includes r t))"

section \<open>TutorLessonTypeInput\<close>

text \<open>
  The component's state: the chosen lesson types (\<open>value\<close>, held by the parent,
  which stores every \<open>onChange\<close> value and passes it back), the text typed so far
  (\<open>input\<close>) and whether the suggestion list is open (\<open>showSuggestions\<close>).
\<close>

record lesson_box =
  lb_value :: "string list"
  lb_input :: string
  lb_show :: bool

text \<open>\<open>addLesson\<close>: a blank or already listed lesson type is ignored; otherwise it is appended, the input is cleared and the list closed.\<close>

definition add_lesson :: "string \<Rightarrow> lesson_box \<Rightarrow> lesson_box" where
  "add_lesson l b =
     (let t = trim l in
      if t = [] \<or> t \<in> set (lb_value b) then b
      else b\<lparr>lb_value := lb_value b @ [t], lb_input := [], lb_show := False\<rparr>)"

definition remove_lesson :: "string \<Rightarrow> lesson_box \<Rightarrow> lesson_box" where
  "remove_lesson l b = b\<lparr>lb_value := filter (\<lambda>x. x \<noteq> l) (lb_value b)\<rparr>"

text \<open>\<open>filteredSuggestions\<close>: case-insensitive matches of the input that are not chosen yet.\<close>

definition filtered_suggestions :: "string list \<Rightarrow> string \<Rightarrow> string list \<Rightarrow> string list" where
  "filtered_suggestions sugg input v =
     filter (\<lambda>s. js_includes (map lower s) (map lower input) \<and> s \<notin> set v) sugg"

text \<open>
  The component's events: typing (the text box's \<open>onChange\<close>), Enter in the text
  box (\<open>handleKeyDown\<close>, only for a non-blank input), a click on an item of the
  suggestion list (rendered only while it is open and not empty), a click on a
  chip's remove button.
\<close>

datatype lesson_event = Type_text string | Press_enter | Pick_suggestion string | Remove_chip string

fun lesson_step :: "string list \<Rightarrow> lesson_box \<Rightarrow> lesson_event \<Rightarrow> lesson_box" where
  "lesson_step sugg b (Type_text s) = b\<lparr>lb_input := s, lb_show := True\<rparr>"
| "lesson_step sugg b Press_enter = (if trim (lb_input b) = [] then b else add_lesson (lb_input b) b)"
| "lesson_step sugg b (Pick_suggestion s) =
     (if lb_show b \<and> s \<in> set (filtered_suggestions sugg (lb_input b) (lb_value b)) then add_lesson s b else b)"
| "lesson_step sugg b (Remove_chip l) = remove_lesson l b"

definition lesson_run :: "string list \<Rightarrow> lesson_box \<Rightarrow> lesson_event list \<Rightarrow> lesson_box" where
  "lesson_run sugg b evs = foldl (lesson_step sugg) b evs"

definition lessons_wf :: "string list \<Rightarrow> bool" where
  "lessons_wf v \<longleftrightarrow> distinct v \<and> list_all (\<lambda>x. x \<noteq> [] \<and> trim x = x) v"

section \<open>The profile form\<close>

text \<open>A dropped file, known by name and size; a stored qualification, by name and content hash.\<close>

record upload =
  up_name :: string
  up_size :: nat

record qualification =
  q_name :: string
  q_hash :: string
  q_deleted :: bool

record profile_form =
  pf_user_id :: user_id
  pf_subject :: string
  pf_rate :: js_num
  pf_description :: string
  pf_availability :: availability
  pf_lesson_types :: "string list"
  pf_uploads :: "upload list"
  pf_quals :: "qualification list"

text \<open>
  The profile as \<open>GetTutorProfile\<close> returns it; \<open>None\<close> is a field the
  response leaves undefined.
\<close>

record profile_resp =
  pr_user_id :: "user_id option"
  pr_subject :: "string option"
  pr_rate :: "js_num option"
  pr_description :: "string option"
  pr_availability :: "availability option"
  pr_lesson_types :: "string list option"
  pr_uploads :: "upload list option"
  pr_quals :: "qualification list option"

text \<open>
  \<open>x || d\<close> on the three kinds of field: an empty string is falsy, so is a
  number that is \<open>0\<close> or \<open>NaN\<close>; an array or object is truthy whenever it is defined.
\<close>

definition or_str :: "string option \<Rightarrow> string \<Rightarrow> string" where
  "or_str x d = (case x of Some s \<Rightarrow> if s = [] then d else s | None \<Rightarrow> d)"

definition or_num :: "js_num option \<Rightarrow> js_num \<Rightarrow> js_num" where
  "or_num x d = (case x of Some (Some r) \<Rightarrow> if r = 0 then d else Some r | _ \<Rightarrow> d)"

definition or_obj :: "'a option \<Rightarrow> 'a \<Rightarrow> 'a" where
  "or_obj x d = (case x of Some v \<Rightarrow> v | None \<Rightarrow> d)"

text \<open>\<open>defaultProfile\<close>: the form before the profile arrives.\<close>

definition default_profile :: profile_form where
  "default_profile =
     \<lparr>pf_user_id = [], pf_subject = [], pf_rate = Some 0, pf_description = [],
      pf_availability = default_availability, pf_lesson_types = [], pf_uploads = [], pf_quals = []\<rparr>"

definition profile_of_resp :: "profile_resp \<Rightarrow> profile_form" where
  "profile_of_resp r =
     \<lparr>pf_user_id = or_str (pr_user_id r) (pf_user_id default_profile),
      pf_subject = or_str (pr_subject r) (pf_subject default_profile),
      pf_rate = or_num (pr_rate r) (pf_rate default_profile),
      pf_description = or_str (pr_description r) (pf_description default_profile),
      pf_availability = or_obj (pr_availability r) (pf_availability default_profile),
      pf_lesson_types = or_obj (pr_lesson_types r) (pf_lesson_types default_profile),
      pf_uploads = or_obj (pr_uploads r) (pf_uploads default_profile),
      pf_quals = or_obj (pr_quals r) (pf_quals default_profile)\<rparr>"

text \<open>
  \<open>fetchProfile\<close>, the mount effect: without a token the page shows an error
  and leaves for \<open>/\<close> (\<open>Inl\<close> the path); a failed request only logs, so the
  form keeps what it had (\<open>None\<close> the service's failure); otherwise the form
  becomes the response with the defaults filled in.
\<close>

definition profile_load :: "string \<Rightarrow> profile_resp option \<Rightarrow> profile_form \<Rightarrow> string + profile_form" where
  "profile_load tok res p =
     (if tok = [] then Inl ''/''
      else case res of None \<Rightarrow> Inr p | Some r \<Rightarrow> Inr (profile_of_resp r))"

text \<open>\<open>onDrop\<close>: new files that are neither an upload of the same name and size nor a stored qualification of the same name.\<close>

definition profile_drop :: "upload list \<Rightarrow> profile_form \<Rightarrow> profile_form" where
  "profile_drop files p =
     p\<lparr>pf_uploads := pf_uploads p @
        filter (\<lambda>f. \<not> (\<exists>g \<in> set (pf_uploads p). up_name g = up_name f \<and> up_size g = up_size f)
                   \<and> \<not> (\<exists>q \<in> set (pf_quals p). q_name q = up_name f)) files\<rparr>"

definition delete_upload :: "upload \<Rightarrow> profile_form \<Rightarrow> profile_form" where
  "delete_upload f p =
     p\<lparr>pf_uploads := filter (\<lambda>g. \<not> (up_name g = up_name f \<and> up_size g = up_size f)) (pf_uploads p)\<rparr>"

definition delete_qualification :: "qualification \<Rightarrow> profile_form \<Rightarrow> profile_form" where
  "delete_qualification f p =
     p\<lparr>pf_quals := filter (\<lambda>g. \<not> (q_name g = q_name f \<and> q_hash g = q_hash f)) (pf_quals p)\<rparr>"

text \<open>\<open>handleChange\<close> on the rate input: \<open>Number(value)\<close> of the number field's text.\<close>

definition rate_change :: "string \<Rightarrow> profile_form \<Rightarrow> profile_form" where
  "rate_change v p = p\<lparr>pf_rate := js_number v\<rparr>"

text \<open>
  \<open>handleBlur\<close>: a negative rate is negated, any other is rounded to cents
  (\<open>Number(x.toFixed(2))\<close>, ties to the larger value; rates are modelled as exact
  rationals). \<open>NaN\<close> stays \<open>NaN\<close>.
\<close>

definition round_cents :: "rat \<Rightarrow> rat" where
  "round_cents x = of_int \<lfloor>x * 100 + 1 / 2\<rfloor> / 100"

definition blur_rate :: "js_num \<Rightarrow> js_num" where
  "blur_rate r = (case r of None \<Rightarrow> None | Some x \<Rightarrow> Some (if x < 0 then - x else round_cents x))"

definition profile_blur :: "profile_form \<Rightarrow> profile_form" where
  "profile_blur p = p\<lparr>pf_rate := blur_rate (pf_rate p)\<rparr>"

text \<open>
  The checks of \<open>handleSave\<close>, in order, with their messages.
  \<open>Object.values(profile.availability)\<close> is read over the seven weekday keys,
  the only keys the availability picker writes.
\<close>

datatype save_error = No_available_day | No_lesson_type | No_qualification_file

definition save_check :: "profile_form \<Rightarrow> save_error option" where
  "save_check p =
     (if \<not> (\<exists>d \<in> set days_of_week. case pf_availability p d of Some ts \<Rightarrow> ts_enabled ts | None \<Rightarrow> False)
      then Some No_available_day
      else if pf_lesson_types p = [] then Some No_lesson_type
      else if pf_uploads p = [] then Some No_qualification_file
      else None)"

datatype save_notice = PN_invalid save_error | PN_no_token | PN_saved | PN_save_failed

record save_outcome =
  so_sent :: "profile_form list"
  so_notices :: "save_notice list"
  so_navigated_back :: bool

text \<open>
  \<open>handleSave\<close>: after the checks it asks for confirmation, but the answer only
  gates \<open>dispatch(setLoading(true))\<close> (\<open>confirm(...) && dispatch(...)\<close>); the
  \<open>try\<close> block that sends \<open>UpdateTutorProfile\<close> runs either way. \<open>ok\<close> is whether
  the service accepted the update.
\<close>

definition profile_save :: "bool \<Rightarrow> string \<Rightarrow> bool \<Rightarrow> profile_form \<Rightarrow> save_outcome" where
  "profile_save confirmed tok ok p =
     (case save_check p of
        Some e \<Rightarrow> \<lparr>so_sent = [], so_notices = [PN_invalid e], so_navigated_back = False\<rparr>
      | None \<Rightarrow>
          if tok = [] then \<lparr>so_sent = [], so_notices = [PN_no_token], so_navigated_back = False\<rparr>
          else if ok then \<lparr>so_sent = [p], so_notices = [PN_saved], so_navigated_back = True\<rparr>
          else \<lparr>so_sent = [p], so_notices = [PN_save_failed], so_navigated_back = False\<rparr>)"


section \<open>Properties of the profile editor\<close>

lemma dropWhile_twice: "dropWhile P (dropWhile P xs) = dropWhile P xs"
  by (induction xs) auto

lemma dropWhile_trim: "dropWhile is_ws (trim s) = trim s"
proof (cases "dropWhile is_ws s")
  case Nil
  then show ?thesis unfolding trim_def Nil by simp
next
  case (Cons a w)
  then have a: "\<not> is_ws a" by (metis hd_dropWhile list.distinct(1) list.sel(1))
  have "trim s = a # rev (dropWhile is_ws (rev w))"
    using Cons a by (simp add: trim_def dropWhile_append3)
  then show ?thesis using a by simp
qed

lemma trim_trim: "trim (trim s) = trim s"
proof -
  have "trim (trim s) = rev (dropWhile is_ws (rev (dropWhile is_ws (trim s))))"
    by (rule trim_def)
  also have "\<dots> = rev (dropWhile is_ws (rev (trim s)))" by (simp only: dropWhile_trim)
  also have "\<dots> = trim s" by (simp add: trim_def dropWhile_twice)
  finally show ?thesis .
qed

lemma lessons_wf_add: "lessons_wf (lb_value b) \<Longrightarrow> lessons_wf (lb_value (add_lesson l b))"
  by (auto simp: lessons_wf_def add_lesson_def Let_def trim_trim)

lemma lessons_wf_remove: "lessons_wf (lb_value b) \<Longrightarrow> lessons_wf (lb_value (remove_lesson l b))"
  by (auto simp: lessons_wf_def remove_lesson_def list_all_iff)

lemma lessons_wf_step: "lessons_wf (lb_value b) \<Longrightarrow> lessons_wf (lb_value (lesson_step sugg b e))"
  by (cases e) (simp_all add: lessons_wf_add lessons_wf_remove)

text \<open>(C31) Whatever the tutor types, picks or removes in the lesson-type input, the list it holds stays free of duplicates and of blank or untrimmed entries.\<close>

theorem lesson_input_wf:
  assumes "lessons_wf (lb_value b)" shows "lessons_wf (lb_value (lesson_run sugg b evs))"
  using assms unfolding lesson_run_def
  by (induction evs arbitrary: b) (simp_all add: lessons_wf_step)

lemma round_cents_bounds:
  assumes "0 \<le> x"
  shows "0 \<le> round_cents x" "\<bar>round_cents x - x\<bar> \<le> 1 / 200"
proof -
  let ?z = "x * 100 + 1 / 2"
  have f: "of_int \<lfloor>?z\<rfloor> \<le> ?z" "?z < of_int \<lfloor>?z\<rfloor> + 1"
    using floor_correct [of ?z] by simp_all
  have "0 \<le> \<lfloor>?z\<rfloor>" using assms by simp
  then show "0 \<le> round_cents x" by (simp add: round_cents_def)
  define r where "r = (of_int \<lfloor>?z\<rfloor> :: rat)"
  have "r / 100 - x \<le> 1 / 200" "x - r / 100 \<le> 1 / 200"
    using f unfolding r_def by linarith+
  then show "\<bar>round_cents x - x\<bar> \<le> 1 / 200"
    unfolding round_cents_def r_def [symmetric] by (simp only: abs_le_iff minus_diff_eq)
qed

lemma round_cents_cents: "\<exists>n::int. round_cents x = of_int n / 100"
  by (auto simp: round_cents_def)

text \<open>(C32) Leaving the rate field never yields a negative rate: a non-negative rate is rounded to whole cents, at most half a cent away, and a negative one is replaced by its absolute value rather than rounded.\<close>

theorem blur_rate_bounds:
  assumes "blur_rate (Some x) = Some y"
  shows "0 \<le> y \<and> (0 \<le> x \<longrightarrow> (\<exists>n::int. y = of_int n / 100) \<and> \<bar>y - x\<bar> \<le> 1 / 200) \<and> (x < 0 \<longrightarrow> y = - x)"
proof (cases "x < 0")
  case True
  then show ?thesis using assms by (simp add: blur_rate_def)
next
  case False
  then have y: "y = round_cents x" using assms by (simp add: blur_rate_def)
  show ?thesis using False round_cents_bounds [of x] round_cents_cents [of x] by (simp add: y)
qed

text \<open>Loading the profile page shows the stored rate when it is a non-zero number and 0 when the service leaves it out, sends 0 or sends NaN: the form never holds a NaN rate after a successful load.\<close>

theorem load_rate_defaults:
  assumes "profile_load tok (Some r) p = Inr p'"
  shows "pf_rate p' = (case pr_rate r of Some (Some x) \<Rightarrow> Some x | _ \<Rightarrow> Some 0)"
  using assms
  by (auto simp: profile_load_def profile_of_resp_def or_num_def default_profile_def
           split: if_splits option.splits)

text \<open>(C33) Saving the profile sends the update whenever the checks pass and the tutor is logged in, whether or not the tutor confirmed the dialog: the confirmation answer does not occur in what is sent.\<close>

theorem save_ignores_confirmation:
  "so_sent (profile_save confirmed tok ok p) = (if save_check p = None \<and> tok \<noteq> [] then [p] else [])"
  by (simp add: profile_save_def split: option.split)

end
