(* ===== verification/Access.thy ===== *)
theory Access
  imports Profile
begin

text \<open>
  Who reaches which page: the route table of \<open>App.tsx\<close> with React Router's
  path matching, the three role guards \<open>components/routes/AdminRoute.tsx\<close>,
  \<open>UserRoute.tsx\<close> and \<open>StudentRoute.tsx\<close> (one definition, parametrised by
  the guard), and the navigation bar \<open>components/Navbar.tsx\<close> with its link
  table \<open>components/NavLinks.tsx\<close>. The role-check endpoints
  (\<open>CurrentAdmin\<close>, \<open>CurrentUser\<close>, \<open>CurrentStudent\<close>) and the notification
  service are collaborators: their answers are events of the models.
\<close>

section \<open>The route table\<close>

text \<open>The pages \<open>App\<close> mounts, one constructor per element of a \<open>Route\<close>.\<close>

datatype page =
    Login_user_page | Login_admin_page | Register_page
  | Admin_dashboard_page | Manage_tutors_page | Admin_tutor_details_page | Admin_admin_details_page
  | Admin_student_details_page | Manage_students_page | Manage_admins_page | Transaction_page
  | User_dashboard_page
  | Tutor_dashboard_page | Tutor_profile_page | Tutor_wallet_page | Reviews_page
  | Student_dashboard_page | Find_tutor_page | View_tutor_details_page | Student_wallet_page
  | Wallet_success_page | Wallet_cancel_page | Past_sessions_page

datatype guard_kind = Admin_guard | User_guard | Student_guard

text \<open>
  \<open>App\<close>'s \<open>Routes\<close>, in order: a path pattern, the layout route that wraps it
  (\<open>None\<close> for the three public pages) and the page.
\<close>

definition app_routes :: "(string \<times> guard_kind option \<times> page) list" where
  "app_routes =
     [(''/'', None, Login_user_page),
      (''/admin/login'', None, Login_admin_page),
      (''/register'', None, Register_page),
      (''/admin/dashboard'', Some Admin_guard, Admin_dashboard_page),
      (''/admin/tutors'', Some Admin_guard, Manage_tutors_page),
      (''/admin/tutors/:tutorId'', Some Admin_guard, Admin_tutor_details_page),
      (''/admin/admins/:adminId'', Some Admin_guard, Admin_admin_details_page),
      (''/admin/students/:studentId'', Some Admin_guard, Admin_student_details_page),
      (''/admin/students'', Some Admin_guard, Manage_students_page),
      (''/admin/admins'', Some Admin_guard, Manage_admins_page),
      (''/admin/transaction'', Some Admin_guard, Transaction_page),
      (''/user/dashboard'', Some User_guard, User_dashboard_page),
      (''/tutor/dashboard'', Some User_guard, Tutor_dashboard_page),
      (''/tutor/profile'', Some User_guard, Tutor_profile_page),
      (''/tutor/wallet'', Some User_guard, Tutor_wallet_page),
      (''/tutor/reviews'', Some User_guard, Reviews_page),
      (''/student/dashboard'', Some Student_guard, Student_dashboard_page),
      (''/student/find-tutor'', Some Student_guard, Find_tutor_page),
      (''/student/view-tutor/:id'', Some Student_guard, View_tutor_details_page),
      (''/student/wallet'', Some Student_guard, Student_wallet_page),
      (''/wallet/success'', Some Student_guard, Wallet_success_page),
      (''/wallet/cancel'', Some Student_guard, Wallet_cancel_page),
      (''/student/past-sessions'', Some Student_guard, Past_sessions_page)]"

text \<open>
  React Router compiles a pattern to \<open>^/seg/seg\/*$\<close>, case-insensitively, with
  a \<open>:param\<close> segment matching one or more characters other than \<open>/\<close>. A
  path matches when it starts with \<open>/\<close>, and after dropping trailing slashes its
  segments agree with the pattern's one by one.
\<close>

definition path_segments :: "string \<Rightarrow> string list" where
  "path_segments s = (let t = rev (dropWhile (\<lambda>c. c = CHR ''/'') (rev s)) in
                      if t = [] then [] else split_on CHR ''/'' t)"

text \<open>A pattern segment \<open>:name\<close> is a parameter; any other is matched case-insensitively.\<close>

definition is_param :: "string \<Rightarrow> bool" where
  "is_param p \<longleftrightarrow> take 1 p = '':''"

definition seg_matches :: "string \<Rightarrow> string \<Rightarrow> bool" where
  "seg_matches p seg = (if is_param p then seg \<noteq> [] else map lower seg = map lower p)"

definition path_matches :: "string \<Rightarrow> string \<Rightarrow> bool" where
  "path_matches pat path \<longleftrightarrow>
     take 1 path = ''/'' \<and> list_all2 seg_matches (path_segments (tl pat)) (path_segments (tl path))"

text \<open>The page \<open>Routes\<close> renders for a location, with the guard around it.\<close>

definition app_route :: "string \<Rightarrow> (guard_kind option \<times> page) option" where
  "app_route path = map_option snd (List.find (\<lambda>r. path_matches (fst r) path) app_routes)"

text \<open>
  Two segment lists no path matches both: their lengths differ, or at some
  position both have a static segment and the two differ. The check is sound for
  patterns written in lower case, which every pattern of \<open>App\<close> is.
\<close>

definition pattern_segs :: "string \<Rightarrow> string list" where
  "pattern_segs pat = path_segments (tl pat)"

definition segs_disjoint :: "string list \<Rightarrow> string list \<Rightarrow> bool" where
  "segs_disjoint ps qs \<longleftrightarrow>
     length ps \<noteq> length qs
     \<or> list_ex (\<lambda>(a, b). \<not> is_param a \<and> \<not> is_param b \<and> a \<noteq> b) (zip ps qs)"

definition segs_lower :: "string list \<Rightarrow> bool" where
  "segs_lower ps \<longleftrightarrow> list_all (\<lambda>a. is_param a \<or> map lower a = a) ps"

fun pairwise_disjoint :: "string list list \<Rightarrow> bool" where
  "pairwise_disjoint [] = True"
| "pairwise_disjoint (p # ps) = (list_all (segs_disjoint p) ps \<and> pairwise_disjoint ps)"

definition routes_disjoint :: "(string \<times> guard_kind option \<times> page) list \<Rightarrow> bool" where
  "routes_disjoint rs \<longleftrightarrow>
     (let ss = map (pattern_segs \<circ> fst) rs in list_all segs_lower ss \<and> pairwise_disjoint ss)"


section \<open>The role guards\<close>

text \<open>
  \<open>AdminRoute\<close>, \<open>UserRoute\<close> and \<open>StudentRoute\<close> share one shape and differ
  in the endpoint that checks the role, the toast and the page they send a
  refused visitor to. The state is their hooks: \<open>loading\<close> (cleared by a
  one-second timer), \<open>isAdmin\<close>/\<open>isUser\<close>/\<open>isStudent\<close> (\<open>g_ok\<close>), the token of
  the signed-in user (\<open>None\<close> without a user), the tokens whose role check is
  still in flight, the toasts shown, and the path of the \<open>navigate(..., replace)\<close>
  that unmounts the guard.
\<close>

definition guard_fail_path :: "guard_kind \<Rightarrow> string" where
  "guard_fail_path k = (case k of Admin_guard \<Rightarrow> ''/admin/login'' | _ \<Rightarrow> ''/'')"

definition guard_message :: "guard_kind \<Rightarrow> string" where
  "guard_message k = (case k of
       Admin_guard \<Rightarrow> ''Please login as admin to continue''
     | User_guard \<Rightarrow> ''Please login as user to continue''
     | Student_guard \<Rightarrow> ''Please login as student to continue'')"

record guard_state =
  g_loading :: bool
  g_ok :: bool
  g_user :: "string option"
  g_inflight :: "string list"
  g_toasts :: "string list"
  g_left :: "string option"

text \<open>
  The effect on \<open>[user]\<close>: with a token it starts the role check
  (\<open>CurrentAdmin\<close>, \<open>CurrentUser\<close> or \<open>CurrentStudent\<close>), whose answer arrives
  later; without one it clears the flag.
\<close>

definition user_effect :: "string option \<Rightarrow> guard_state \<Rightarrow> guard_state" where
  "user_effect u s =
     (case u of
        Some t \<Rightarrow> if t = [] then s\<lparr>g_user := u, g_ok := False\<rparr>
                 else s\<lparr>g_user := u, g_inflight := g_inflight s @ [t]\<rparr>
      | None \<Rightarrow> s\<lparr>g_user := u, g_ok := False\<rparr>)"

text \<open>
  The effect on \<open>[loading, isX, navigate]\<close> runs when one of them has changed:
  once loading is over and the check has not succeeded, it toasts and leaves.
\<close>

definition redirect_effect :: "guard_kind \<Rightarrow> guard_state \<Rightarrow> guard_state \<Rightarrow> guard_state" where
  "redirect_effect k s0 s =
     (if (g_loading s \<noteq> g_loading s0 \<or> g_ok s \<noteq> g_ok s0) \<and> \<not> g_loading s \<and> \<not> g_ok s
      then s\<lparr>g_toasts := g_toasts s @ [guard_message k], g_left := Some (guard_fail_path k)\<rparr>
      else s)"

definition guard_init :: guard_state where
  "guard_init = \<lparr>g_loading = True, g_ok = False, g_user = None, g_inflight = [], g_toasts = [], g_left = None\<rparr>"

text \<open>Mounting runs the effects in order; the redirect effect sees \<open>loading\<close> set and does nothing.\<close>

definition guard_mount :: "string option \<Rightarrow> guard_state" where
  "guard_mount u = user_effect u guard_init"

text \<open>
  What happens to a mounted guard: the timer fires, the signed-in user changes,
  or the role check for a token settles (\<open>.then\<close> with \<open>True\<close>, \<open>.catch\<close> with
  \<open>False\<close>). Once it has navigated away the guard is unmounted and nothing more
  happens to it.
\<close>

datatype guard_event = Timer_fired | User_changed "string option" | Check_settled string bool

fun guard_update :: "guard_state \<Rightarrow> guard_event \<Rightarrow> guard_state" where
  "guard_update s Timer_fired = s\<lparr>g_loading := False\<rparr>"
| "guard_update s (User_changed u) = user_effect u s"
| "guard_update s (Check_settled t b) =
     (if t \<in> set (g_inflight s) then s\<lparr>g_ok := b, g_inflight := remove1 t (g_inflight s)\<rparr> else s)"

definition guard_step :: "guard_kind \<Rightarrow> guard_state \<Rightarrow> guard_event \<Rightarrow> guard_state" where
  "guard_step k s e = (if g_left s \<noteq> None then s else redirect_effect k s (guard_update s e))"

definition guard_run :: "guard_kind \<Rightarrow> string option \<Rightarrow> guard_event list \<Rightarrow> guard_state" where
  "guard_run k u evs = foldl (guard_step k) (guard_mount u) evs"

text \<open>The render: \<open><Loading /></\<close> while loading, the nested page (\<open><Outlet /></\<close>) once the check has succeeded, nothing otherwise.\<close>

datatype guard_view = Show_loading | Show_outlet | Show_nothing

definition guard_view :: "guard_state \<Rightarrow> guard_view" where
  "guard_view s = (if g_left s \<noteq> None then Show_nothing else if g_loading s then Show_loading
                   else if g_ok s then Show_outlet else Show_nothing)"


section \<open>The navigation bar\<close>

text \<open>\<open>NavLink\<close> and \<open>navConfig\<close>: the links of each role, with the permissions one of which a link needs (none: always shown).\<close>

record nav_link =
  nl_name :: string
  nl_path :: string
  nl_perms :: "string list"

definition nav_config :: "string \<Rightarrow> nav_link list option" where
  "nav_config role =
     (if role = ''ADMIN'' then Some
        [\<lparr>nl_name = ''Dashboard'', nl_path = ''/admin/dashboard'', nl_perms = []\<rparr>,
         \<lparr>nl_name = ''Students'', nl_path = ''/admin/students'', nl_perms = [''VIEW_STUDENTS'']\<rparr>,
         \<lparr>nl_name = ''Tutors'', nl_path = ''/admin/tutors'', nl_perms = [''VIEW_TUTORS'']\<rparr>,
         \<lparr>nl_name = ''Admins'', nl_path = ''/admin/admins'', nl_perms = [''VIEW_ADMIN'']\<rparr>,
         \<lparr>nl_name = ''Transaction'', nl_path = ''/admin/transaction'', nl_perms = []\<rparr>]
      else if role = ''STUDENT'' then Some
        [\<lparr>nl_name = ''Home'', nl_path = ''/student/dashboard'', nl_perms = []\<rparr>,
         \<lparr>nl_name = ''Find a Tutor'', nl_path = ''/student/find-tutor'', nl_perms = []\<rparr>]
      else if role = ''TUTOR'' then Some
        [\<lparr>nl_name = ''Home'', nl_path = ''/tutor/dashboard'', nl_perms = []\<rparr>,
         \<lparr>nl_name = ''Reviews'', nl_path = ''/tutor/reviews'', nl_perms = []\<rparr>]
      else None)"

text \<open>The signed-in user as the bar reads it from the store; \<open>permissions\<close> may be absent.\<close>

record nav_user =
  nu_id :: string
  nu_token :: string
  nu_role :: string
  nu_perms :: "string list option"

text \<open>\<open>user?.role || "ADMIN"\<close>: no user, or an empty role, reads as an admin.\<close>

definition nav_role :: "nav_user option \<Rightarrow> string" where
  "nav_role u = (case u of Some v \<Rightarrow> if nu_role v = [] then ''ADMIN'' else nu_role v | None \<Rightarrow> ''ADMIN'')"

definition has_perm :: "nav_user option \<Rightarrow> string \<Rightarrow> bool" where
  "has_perm u p = (case u of Some v \<Rightarrow> (case nu_perms v of Some ps \<Rightarrow> p \<in> set ps | None \<Rightarrow> False) | None \<Rightarrow> False)"

definition nav_links :: "nav_user option \<Rightarrow> nav_link list" where
  "nav_links u = filter (\<lambda>l. nl_perms l = [] \<or> (\<exists>p \<in> set (nl_perms l). has_perm u p))
                        (case nav_config (nav_role u) of Some ls \<Rightarrow> ls | None \<Rightarrow> [])"

text \<open>\<open>isActive\<close>: the location is the link's path or starts with it.\<close>

definition nav_active :: "string \<Rightarrow> nav_link \<Rightarrow> bool" where
  "nav_active pathname l \<longleftrightarrow> pathname = nl_path l \<or> take (length (nl_path l)) pathname = nl_path l"

text \<open>
  The bar's state: the notifications (by id and read flag), whether the
  notifications dialog is open, the user in the store and whether
  \<open>localStorage\<close> holds it, and where \<open>handleLogout\<close> navigated.
\<close>

record notif =
  nf_id :: string
  nf_read :: bool

record navbar =
  nb_notifs :: "notif list"
  nb_open :: bool
  nb_user :: "nav_user option"
  nb_stored :: bool
  nb_left :: "string option"

definition signed_in :: "navbar \<Rightarrow> bool" where
  "signed_in b \<longleftrightarrow> (case nb_user b of Some v \<Rightarrow> nu_id v \<noteq> [] \<and> nu_token v \<noteq> [] | None \<Rightarrow> False)"

text \<open>
  The events: the initial \<open>fetchNotifications\<close> resolving, a notification
  arriving over the server-sent event stream (both only while a user with id and
  token is signed in, as the effect returns early otherwise), a click on a
  notification (\<open>handleMarkAsRead\<close>, with the service's answer), the bell and
  the dialog's close button, the admin's \<open>GetAdminByUserId\<close> resolving, and
  Logout.
\<close>

datatype nav_event =
    Notifs_fetched "notif list" | Notif_pushed notif | Mark_read string bool
  | Open_bell | Close_bell | Perms_fetched "string list option" | Logout

text \<open>The permissions effect fetches only for an admin signed in without permissions; its answer is applied to the user in the store, which the model takes to be the one it was fetched for.\<close>

definition needs_perms :: "navbar \<Rightarrow> bool" where
  "needs_perms b \<longleftrightarrow> nav_role (nb_user b) = ''ADMIN'' \<and> signed_in b
                      \<and> (case nb_user b of Some v \<Rightarrow> (case nu_perms v of Some ps \<Rightarrow> ps = [] | None \<Rightarrow> True) | None \<Rightarrow> False)"

fun navbar_step :: "navbar \<Rightarrow> nav_event \<Rightarrow> navbar" where
  "navbar_step b (Notifs_fetched ns) = (if signed_in b then b\<lparr>nb_notifs := ns\<rparr> else b)"
| "navbar_step b (Notif_pushed n) = (if signed_in b then b\<lparr>nb_notifs := n # nb_notifs b\<rparr> else b)"
| "navbar_step b (Mark_read i ok) =
     (if (case nb_user b of Some v \<Rightarrow> nu_token v \<noteq> [] | None \<Rightarrow> False) \<and> ok
      then b\<lparr>nb_notifs := map (\<lambda>n. if nf_id n = i then n\<lparr>nf_read := True\<rparr> else n) (nb_notifs b)\<rparr> else b)"
| "navbar_step b Open_bell = b\<lparr>nb_open := True\<rparr>"
| "navbar_step b Close_bell = b\<lparr>nb_open := False\<rparr>"
| "navbar_step b (Perms_fetched ps) =
     (if needs_perms b then
        b\<lparr>nb_user := map_option (\<lambda>v. v\<lparr>nu_perms := Some (case ps of Some qs \<Rightarrow> qs | None \<Rightarrow> [])\<rparr>) (nb_user b),
          nb_stored := True\<rparr>
      else b)"
| "navbar_step b Logout =
     b\<lparr>nb_user := None, nb_stored := False,
       nb_left := Some (if nav_role (nb_user b) = ''ADMIN'' then ''/admin/login'' else ''/'')\<rparr>"

definition unread_count :: "navbar \<Rightarrow> nat" where
  "unread_count b = length (filter (\<lambda>n. \<not> nf_read n) (nb_notifs b))"


section \<open>Properties of the route table\<close>

lemma segs_not_disjoint:
  assumes "segs_lower ps" "segs_lower qs" "list_all2 seg_matches ps xs" "list_all2 seg_matches qs xs"
  shows "\<not> segs_disjoint ps qs"
proof -
  have l: "length ps = length qs" using assms by (simp add: list_all2_lengthD)
  have "\<not> (\<not> is_param a \<and> \<not> is_param b \<and> a \<noteq> b)" if ab: "(a, b) \<in> set (zip ps qs)" for a b
  proof -
    obtain i where i: "i < length ps" "a = ps ! i" "b = qs ! i" using ab l by (fastforce simp: set_zip)
    have "seg_matches a (xs ! i)" "seg_matches b (xs ! i)"
      using assms i l by (auto simp: list_all2_conv_all_nth)
    moreover have "is_param a \<or> map lower a = a" "is_param b \<or> map lower b = b"
      using assms(1,2) i l by (auto simp: segs_lower_def list_all_length)
    ultimately show ?thesis by (auto simp: seg_matches_def split: if_splits)
  qed
  then show ?thesis using l by (auto simp: segs_disjoint_def list_ex_iff)
qed

lemma pairwise_disjoint_nth:
  "pairwise_disjoint ss \<Longrightarrow> i < j \<Longrightarrow> j < length ss \<Longrightarrow> segs_disjoint (ss ! i) (ss ! j)"
proof (induction ss arbitrary: i j)
  case Nil
  then show ?case by simp
next
  case (Cons p ps)
  show ?case
  proof (cases i)
    case 0
    then obtain j' where "j = Suc j'" "j' < length ps" using Cons.prems by (cases j) auto
    then show ?thesis using Cons.prems 0 by (simp add: list_all_length)
  next
    case (Suc i')
    then obtain j' where "j = Suc j'" using Cons.prems by (cases j) auto
    then show ?thesis using Cons Suc by simp
  qed
qed

lemma routes_disjoint_unique:
  assumes d: "routes_disjoint rs" and i: "i < length rs" and j: "j < length rs"
    and m: "path_matches (fst (rs ! i)) path" "path_matches (fst (rs ! j)) path"
  shows "i = j"
proof (rule ccontr)
  let ?ss = "map (pattern_segs \<circ> fst) rs"
  have lw: "segs_lower (?ss ! k)" if "k < length rs" for k
    using d that by (simp add: routes_disjoint_def Let_def list_all_length)
  have ma: "list_all2 seg_matches (?ss ! k) (path_segments (tl path))"
    if "k < length rs" "path_matches (fst (rs ! k)) path" for k
    using that by (simp add: path_matches_def pattern_segs_def)
  assume "i \<noteq> j"
  then have "segs_disjoint (?ss ! i) (?ss ! j) \<or> segs_disjoint (?ss ! j) (?ss ! i)"
    using d i j pairwise_disjoint_nth [of ?ss] by (simp add: routes_disjoint_def Let_def) (metis linorder_neqE_nat)
  then show False using segs_not_disjoint lw ma i j m by blast
qed

lemma app_routes_disjoint: "routes_disjoint app_routes"
  by code_simp

lemma find_nth_unique:
  "i < length xs \<Longrightarrow> P (xs ! i) \<Longrightarrow> (\<And>j. j < length xs \<Longrightarrow> P (xs ! j) \<Longrightarrow> j = i)
   \<Longrightarrow> List.find P xs = Some (xs ! i)"
proof (induction xs arbitrary: i)
  case Nil
  then show ?case by simp
next
  case (Cons x xs)
  show ?case
  proof (cases i)
    case 0
    then show ?thesis using Cons.prems(2) by simp
  next
    case (Suc k)
    have "\<not> P x" using Cons.prems(3) [of 0] Suc by auto
    moreover have "List.find P xs = Some (xs ! k)"
      using Cons.prems Suc by (intro Cons.IH) fastforce+
    ultimately show ?thesis using Suc by simp
  qed
qed

text \<open>(C34) App's route table is unambiguous: whichever of its routes matches a location, App renders that route's page inside that route's guard, so taking the first match, as the model does, agrees with React Router's ranking.\<close>

theorem route_match_unique:
  assumes "r \<in> set app_routes" "path_matches (fst r) path"
  shows "app_route path = Some (snd r)"
proof -
  obtain i where i: "i < length app_routes" "r = app_routes ! i"
    using assms(1) by (auto simp: in_set_conv_nth)
  have m: "path_matches (fst (app_routes ! i)) path" using assms(2) i(2) by simp
  have "List.find (\<lambda>r. path_matches (fst r) path) app_routes = Some (app_routes ! i)"
  proof (rule find_nth_unique [OF i(1)])
    show "path_matches (fst (app_routes ! i)) path" by (rule m)
    fix j assume "j < length app_routes" "path_matches (fst (app_routes ! j)) path"
    then show "j = i" using routes_disjoint_unique [OF app_routes_disjoint _ i(1) _ m] by blast
  qed
  then show ?thesis using i(2) by (simp add: app_route_def)
qed

section \<open>Properties of the role guards\<close>

lemma redirect_effect_fields [simp]:
  "g_ok (redirect_effect k s0 s) = g_ok s" "g_inflight (redirect_effect k s0 s) = g_inflight s"
  "g_loading (redirect_effect k s0 s) = g_loading s" "g_user (redirect_effect k s0 s) = g_user s"
  by (simp_all add: redirect_effect_def)

lemma guard_step_fields:
  "g_ok (guard_step k s e) = (if g_left s \<noteq> None then g_ok s else g_ok (guard_update s e))"
  "g_inflight (guard_step k s e) = (if g_left s \<noteq> None then g_inflight s else g_inflight (guard_update s e))"
  by (simp_all add: guard_step_def)

lemma guard_run_snoc: "guard_run k u (evs @ [e]) = guard_step k (guard_run k u evs) e"
  by (simp add: guard_run_def)

lemma guard_update_inflight:
  "t \<in> set (g_inflight (guard_update s e)) \<Longrightarrow> t \<in> set (g_inflight s) \<or> (t \<noteq> [] \<and> e = User_changed (Some t))"
  by (cases e) (auto simp: user_effect_def split: option.splits if_splits dest: subsetD [OF set_remove1_subset])

lemma guard_update_ok:
  "g_ok (guard_update s e) \<Longrightarrow> g_ok s \<or> (\<exists>t. t \<in> set (g_inflight s) \<and> e = Check_settled t True)"
  by (cases e) (auto simp: user_effect_def split: option.splits if_splits)

lemma guard_mount_fields:
  "t \<in> set (g_inflight (guard_mount u)) \<Longrightarrow> t \<noteq> [] \<and> u = Some t" "\<not> g_ok (guard_mount u)"
  by (auto simp: guard_mount_def guard_init_def user_effect_def split: option.splits if_splits)

lemma guard_run_inv:
  "(\<forall>t \<in> set (g_inflight (guard_run k u evs)). t \<noteq> [] \<and> (u = Some t \<or> User_changed (Some t) \<in> set evs))
   \<and> (g_ok (guard_run k u evs) \<longrightarrow>
        (\<exists>t. t \<noteq> [] \<and> (u = Some t \<or> User_changed (Some t) \<in> set evs) \<and> Check_settled t True \<in> set evs))"
proof (induction evs rule: rev_induct)
  case Nil
  then show ?case using guard_mount_fields by (simp add: guard_run_def)
next
  case (snoc e evs)
  let ?s = "guard_run k u evs"
  show ?case
  proof (cases "g_left ?s = None")
    case False
    then show ?thesis using snoc by (auto simp: guard_run_snoc guard_step_fields)
  next
    case True
    have i: "\<forall>t \<in> set (g_inflight (guard_update ?s e)). t \<noteq> [] \<and> (u = Some t \<or> User_changed (Some t) \<in> set (evs @ [e]))"
    proof
      fix t assume "t \<in> set (g_inflight (guard_update ?s e))"
      from guard_update_inflight [OF this] show "t \<noteq> [] \<and> (u = Some t \<or> User_changed (Some t) \<in> set (evs @ [e]))"
      proof
        assume "t \<in> set (g_inflight ?s)"
        then show ?thesis using snoc.IH by auto
      qed simp
    qed
    have o: "g_ok (guard_update ?s e) \<longrightarrow> (\<exists>t. t \<noteq> [] \<and> (u = Some t \<or> User_changed (Some t) \<in> set (evs @ [e]))
                                             \<and> Check_settled t True \<in> set (evs @ [e]))"
    proof
      assume "g_ok (guard_update ?s e)"
      from guard_update_ok [OF this] show "\<exists>t. t \<noteq> [] \<and> (u = Some t \<or> User_changed (Some t) \<in> set (evs @ [e]))
                                             \<and> Check_settled t True \<in> set (evs @ [e])"
      proof
        assume "g_ok ?s"
        then show ?thesis using snoc.IH by auto
      next
        assume "\<exists>t. t \<in> set (g_inflight ?s) \<and> e = Check_settled t True"
        then obtain t where "t \<in> set (g_inflight ?s)" "e = Check_settled t True" by blast
        then show ?thesis using snoc.IH by auto
      qed
    qed
    show ?thesis using True i o by (simp add: guard_run_snoc guard_step_fields)
  qed
qed

text \<open>(C35) Whatever happens to a role guard (timer, changes of the signed-in user, role checks settling in any order), it shows the protected page only after a role check succeeded for a non-empty token it was given.\<close>

theorem guard_outlet_needs_check:
  assumes "guard_view (guard_run k u evs) = Show_outlet"
  shows "\<exists>t. t \<noteq> [] \<and> (u = Some t \<or> User_changed (Some t) \<in> set evs) \<and> Check_settled t True \<in> set evs"
  using assms guard_run_inv [of k u evs] by (simp add: guard_view_def split: if_splits)


end
