(* ===== verification/Auth.thy ===== *)
theory Auth
  imports Access
begin

text \<open>
  Signing in and registering: \<open>pages/LoginUserPage.tsx\<close>,
  \<open>pages/LoginAdminPage.tsx\<close> and \<open>pages/UserRegister.tsx\<close>. The user service
  (\<open>LoginUser\<close>, \<open>RegisterUser\<close>) and the sequence service
  (\<open>getNextStudentId\<close>) are collaborators: their answers are inputs. The
  login handlers connect to \<open>Access\<close>: the path they navigate to is routed by
  \<open>App\<close> behind a guard.
\<close>

section \<open>Login\<close>

text \<open>The two login pages: student and tutor, or administrator.\<close>

datatype login_page = User_login | Admin_login

text \<open>The user object \<open>LoginUser\<close> returns, as far as the pages read it.\<close>

record login_user =
  lu_id :: string
  lu_token :: string
  lu_role :: string

text \<open>The service's answer: the user, or an error with \<open>error.response?.data?.message\<close>.\<close>

datatype login_answer = Login_ok login_user | Login_failed "string option"

text \<open>What a submission does: the user stored (\<open>localStorage\<close> and the store), the toasts, the navigation.\<close>

record login_outcome =
  lo_stored :: "login_user option"
  lo_toasts :: "string list"
  lo_nav :: "string option"
  lo_sent :: bool

text \<open>\<open>required: true\<close> on both fields.\<close>

definition login_valid :: "string \<Rightarrow> string \<Rightarrow> bool" where
  "login_valid email password \<longleftrightarrow> email \<noteq> [] \<and> password \<noteq> []"

definition role_allowed :: "login_page \<Rightarrow> string \<Rightarrow> bool" where
  "role_allowed k r = (case k of User_login \<Rightarrow> r = ''STUDENT'' \<or> r = ''TUTOR'' | Admin_login \<Rightarrow> r = ''ADMIN'')"

definition wrong_role_message :: "login_page \<Rightarrow> string" where
  "wrong_role_message k = (case k of User_login \<Rightarrow> ''Please use the admin login page instead.''
                                   | Admin_login \<Rightarrow> ''Only administrators can log in here.'')"

definition welcome_message :: "login_page \<Rightarrow> string" where
  "welcome_message k = (case k of User_login \<Rightarrow> ''Welcome back!'' | Admin_login \<Rightarrow> ''Welcome back, Admin!'')"

text \<open>Where a stored user is sent: the student's or tutor's dashboard, or the admin dashboard.\<close>

definition home_path :: "login_page \<Rightarrow> string \<Rightarrow> string" where
  "home_path k r = (case k of User_login \<Rightarrow> if r = ''STUDENT'' then ''/student/dashboard'' else ''/tutor/dashboard''
                            | Admin_login \<Rightarrow> ''/admin/dashboard'')"

text \<open>\<open>onSubmit\<close> of either page.\<close>

definition login_submit :: "login_page \<Rightarrow> string \<Rightarrow> string \<Rightarrow> login_answer \<Rightarrow> login_outcome" where
  "login_submit k email password ans =
     (if \<not> login_valid email password then \<lparr>lo_stored = None, lo_toasts = [], lo_nav = None, lo_sent = False\<rparr>
      else case ans of
        Login_failed m \<Rightarrow>
          \<lparr>lo_stored = None, lo_toasts = [case m of Some x \<Rightarrow> if x = [] then ''Login failed'' else x | None \<Rightarrow> ''Login failed''],
           lo_nav = None, lo_sent = True\<rparr>
      | Login_ok u \<Rightarrow>
          if \<not> role_allowed k (lu_role u)
          then \<lparr>lo_stored = None, lo_toasts = [wrong_role_message k], lo_nav = None, lo_sent = True\<rparr>
          else \<lparr>lo_stored = Some u, lo_toasts = [welcome_message k], lo_nav = Some (home_path k (lu_role u)),
                lo_sent = True\<rparr>)"

section \<open>Registration\<close>

text \<open>The register form's fields, as \<open>getValues()\<close> returns them.\<close>

record register_form =
  rf_first :: string
  rf_last :: string
  rf_email :: string
  rf_password :: string
  rf_role :: string
  rf_grade :: string
  rf_subject :: string

text \<open>\<open>/^[A-Z0-9._%+-]+@[A-Z0-9.-]+\.[A-Z]{2,}$/i\<close>\<close>

definition is_alpha :: "char \<Rightarrow> bool" where
  "is_alpha c \<longleftrightarrow> (let k = (of_char c :: nat) in (65 \<le> k \<and> k \<le> 90) \<or> (97 \<le> k \<and> k \<le> 122))"

definition is_digit :: "char \<Rightarrow> bool" where
  "is_digit c \<longleftrightarrow> (let k = (of_char c :: nat) in 48 \<le> k \<and> k \<le> 57)"

definition local_char :: "char \<Rightarrow> bool" where
  "local_char c \<longleftrightarrow> is_alpha c \<or> is_digit c \<or> c \<in> set ''._%+-''"

definition domain_char :: "char \<Rightarrow> bool" where
  "domain_char c \<longleftrightarrow> is_alpha c \<or> is_digit c \<or> c \<in> set ''.-''"

text \<open>
  The domain part \<open>[A-Z0-9.-]+\.[A-Z]{2,}\<close>: the letters after its last dot,
  at least two, and before that dot a non-empty run of domain characters (the
  regular expression can only split at the last dot, as the top-level domain has
  no dot).
\<close>

definition domain_ok :: "string \<Rightarrow> bool" where
  "domain_ok d \<longleftrightarrow>
     (let tld = rev (takeWhile (\<lambda>c. c \<noteq> CHR ''.'') (rev d));
          pre = rev (drop (Suc (length tld)) (rev d))
      in CHR ''.'' \<in> set d \<and> 2 \<le> length tld \<and> list_all is_alpha tld \<and> pre \<noteq> [] \<and> list_all domain_char pre)"

definition email_ok :: "string \<Rightarrow> bool" where
  "email_ok s \<longleftrightarrow>
     (case split_on CHR ''@'' s of [l, d] \<Rightarrow> l \<noteq> [] \<and> list_all local_char l \<and> domain_ok d | _ \<Rightarrow> False)"

text \<open>The rules \<open>trigger()\<close> checks; the grade and subject selects are registered only while shown.\<close>

definition register_valid :: "string \<Rightarrow> register_form \<Rightarrow> bool" where
  "register_valid shown f \<longleftrightarrow>
     rf_first f \<noteq> [] \<and> length (rf_first f) \<le> 100 \<and> rf_last f \<noteq> [] \<and> length (rf_last f) \<le> 100
     \<and> rf_email f \<noteq> [] \<and> email_ok (rf_email f) \<and> rf_password f \<noteq> [] \<and> rf_role f \<noteq> []
     \<and> (shown = ''STUDENT'' \<longrightarrow> rf_grade f \<noteq> []) \<and> (shown = ''TUTOR'' \<longrightarrow> rf_subject f \<noteq> [])"

text \<open>The body of \<open>RegisterUser\<close>: the role-specific fields are spread in only for their role.\<close>

record register_payload =
  rp_first :: string
  rp_last :: string
  rp_email :: string
  rp_password :: string
  rp_role :: string
  rp_student_number :: "string option"
  rp_grade :: "string option"
  rp_subject :: "string option"

definition register_payload :: "string \<Rightarrow> register_form \<Rightarrow> register_payload" where
  "register_payload student_no f =
     \<lparr>rp_first = rf_first f, rp_last = rf_last f, rp_email = rf_email f, rp_password = rf_password f,
      rp_role = rf_role f,
      rp_student_number = (if rf_role f = ''STUDENT'' then Some student_no else None),
      rp_grade = (if rf_role f = ''STUDENT'' then Some (rf_grade f) else None),
      rp_subject = (if rf_role f = ''TUTOR'' then Some (rf_subject f) else None)\<rparr>"

text \<open>
  The register page's state: the role chosen in the select (\<open>selectedRole\<close>),
  the student number the sequence service returned, the requests sent, the
  number of student-id requests, and the toasts (\<open>True\<close> a success toast).
\<close>

record register_page =
  rg_role :: string
  rg_student_no :: string
  rg_sent :: "register_payload list"
  rg_id_requests :: nat
  rg_toasts :: "(bool \<times> string) list"

definition register_init :: register_page where
  "register_init = \<lparr>rg_role = [], rg_student_no = [], rg_sent = [], rg_id_requests = 0, rg_toasts = []\<rparr>"

text \<open>
  The events: choosing a role (the effect on \<open>[selectedRole]\<close> asks for the
  next student id when it is \<open>STUDENT\<close>), the id arriving, and submitting the
  form with the service's answer: whether the status is 200 and the message, or
  a thrown error's message.
\<close>

datatype register_event =
    Choose_role string | Student_id_arrived string
  | Submit_register register_form "(bool \<times> string) + string"

fun register_step :: "register_page \<Rightarrow> register_event \<Rightarrow> register_page" where
  "register_step p (Choose_role r) =
     (if r = rg_role p then p
      else if r = ''STUDENT'' then p\<lparr>rg_role := r, rg_id_requests := Suc (rg_id_requests p)\<rparr>
      else p\<lparr>rg_role := r\<rparr>)"
| "register_step p (Student_id_arrived i) = p\<lparr>rg_student_no := i\<rparr>"
| "register_step p (Submit_register f ans) =
     (if \<not> register_valid (rg_role p) f then p
      else let p' = p\<lparr>rg_sent := rg_sent p @ [register_payload (rg_student_no p) f]\<rparr> in
        case ans of Inl (ok, m) \<Rightarrow> p'\<lparr>rg_toasts := rg_toasts p @ [(ok, m)]\<rparr>
                  | Inr m \<Rightarrow> p'\<lparr>rg_toasts := rg_toasts p @ [(False, m)]\<rparr>)"

definition register_run :: "register_event list \<Rightarrow> register_page" where
  "register_run evs = foldl register_step register_init evs"


section \<open>Properties of login and registration\<close>

lemma app_route_homes:
  "app_route ''/student/dashboard'' = Some (Some Student_guard, Student_dashboard_page)"
  "app_route ''/tutor/dashboard'' = Some (Some User_guard, Tutor_dashboard_page)"
  "app_route ''/admin/dashboard'' = Some (Some Admin_guard, Admin_dashboard_page)"
  by code_simp+

text \<open>(C12) Whatever the user service answers, a login page navigates only after storing a user whose role the page accepts, and the path it navigates to is routed by App to that role's dashboard behind a guard: a student to the student dashboard behind StudentRoute, a tutor to the tutor dashboard behind UserRoute, an administrator to the admin dashboard behind AdminRoute.\<close>

theorem login_lands_guarded:
  assumes "lo_nav (login_submit k e pw ans) = Some path"
  shows "\<exists>u. lo_stored (login_submit k e pw ans) = Some u \<and> role_allowed k (lu_role u)
             \<and> app_route path =
                 Some (case k of Admin_login \<Rightarrow> (Some Admin_guard, Admin_dashboard_page)
                               | User_login \<Rightarrow> if lu_role u = ''STUDENT'' then (Some Student_guard, Student_dashboard_page)
                                               else (Some User_guard, Tutor_dashboard_page))"
  using assms
  by (cases k; cases ans)
     (auto simp: login_submit_def home_path_def app_route_homes split: if_splits)

lemma register_before_id:
  assumes "rf_role f = ''STUDENT''" "register_valid ''STUDENT'' f"
  shows "rg_sent (register_run [Choose_role ''STUDENT'', Submit_register f ans]) = [register_payload [] f]
         \<and> rp_student_number (register_payload [] f) = Some []"
  using assms by (simp add: register_run_def register_init_def register_payload_def Let_def split: sum.split prod.split)

lemma email_ok_example: "email_ok ''ann.lee@mail.example.sg'' \<and> \<not> email_ok ''ann@localhost''"
  by code_simp

end
