(* ===== verification/Admin.thy ===== *)
theory Admin
  imports Profile "HOL-Library.List_Lexorder" "HOL-Library.Char_ord" "HOL-Library.Multiset"
begin

text \<open>
  The admin tables: \<open>pages/admin/ManageTutors.tsx\<close>, \<open>ManageStudents.tsx\<close> and
  \<open>ManageAdmins.tsx\<close>. The three pages share one shape (a fetched list, a search
  box, a Suspend/Activate and a Delete button per row behind a permission and a
  \<open>confirm\<close>, a refetch after each action) and differ in the fields they search,
  the conditions that enable the buttons, pagination (tutors and students, ten
  rows a page) and sorting (tutors only). One step function over a table state
  is instantiated by a configuration record per page. The admin service
  (\<open>GetAll...\<close>, \<open>SuspendUser\<close>, \<open>ActivateUser\<close>, \<open>DeleteUser\<close>) is a
  collaborator: the requests are recorded and its answers are inputs.
\<close>

section \<open>The admin service\<close>

datatype admin_role = Role_tutor | Role_student | Role_admin

text \<open>The requests the tables send: \<open>(adminId, targetId, token, role)\<close>; the token is the caller's.\<close>

datatype admin_call =
    Suspend_user string string admin_role
  | Activate_user string string admin_role
  | Delete_user string string admin_role

text \<open>The signed-in admin as the pages read it: \<open>user?.permissions || []\<close>.\<close>

record admin_user =
  au_id :: string
  au_token :: string
  au_perms :: "string list"

section \<open>Rows of the three tables\<close>

text \<open>\<open>Tutor\<close> as \<open>ManageTutors\<close> reads it, and \<open>StudentDetails\<close> / the admin rows (\<open>id, name, email, status\<close>).\<close>

record tutor_row =
  tr_user_id :: string
  tr_first :: string
  tr_last :: string
  tr_email :: string
  tr_status :: string

record person_row =
  pr_id :: string
  pr_name :: string
  pr_email :: string
  pr_status :: string

text \<open>\<open>s.toLowerCase().includes(term.toLowerCase())\<close>\<close>

definition ci_includes :: "string \<Rightarrow> string \<Rightarrow> bool" where
  "ci_includes s t \<longleftrightarrow> js_includes (map lower s) (map lower t)"

definition tutor_matches :: "string \<Rightarrow> tutor_row \<Rightarrow> bool" where
  "tutor_matches t r \<longleftrightarrow>
     ci_includes (tr_first r) t \<or> ci_includes (tr_last r) t \<or> ci_includes (tr_email r) t \<or> ci_includes (tr_status r) t"

definition person_matches :: "string \<Rightarrow> person_row \<Rightarrow> bool" where
  "person_matches t r \<longleftrightarrow> ci_includes (pr_name r) t"

section \<open>Sorting\<close>

text \<open>
  The columns \<open>ManageTutors\<close> sorts by, and its comparator
  \<open>a[key] > b[key] ? order : a[key] < b[key] ? -order : 0\<close> with \<open>order\<close>
  \<open>1\<close> ascending and \<open>-1\<close> descending. JavaScript compares strings by code
  units, lexicographically: the order of \<open>List_Lexorder\<close> on \<open>char\<close> lists.
\<close>

datatype tutor_key = Key_first | Key_email | Key_status

definition tutor_key_of :: "tutor_key \<Rightarrow> tutor_row \<Rightarrow> string" where
  "tutor_key_of k r = (case k of Key_first \<Rightarrow> tr_first r | Key_email \<Rightarrow> tr_email r | Key_status \<Rightarrow> tr_status r)"

definition key_cmp :: "('a \<Rightarrow> string) \<Rightarrow> int \<Rightarrow> 'a \<Rightarrow> 'a \<Rightarrow> int" where
  "key_cmp f order a b = (if f a > f b then order else if f a < f b then - order else 0)"

text \<open>
  \<open>Array.prototype.sort\<close> is stable (ES2019): an insertion sort that puts each
  element after every earlier one it does not compare below.
\<close>

fun ins_by :: "('a \<Rightarrow> 'a \<Rightarrow> int) \<Rightarrow> 'a \<Rightarrow> 'a list \<Rightarrow> 'a list" where
  "ins_by c x [] = [x]"
| "ins_by c x (y # ys) = (if c x y < 0 then x # y # ys else y # ins_by c x ys)"

definition js_sort :: "('a \<Rightarrow> 'a \<Rightarrow> int) \<Rightarrow> 'a list \<Rightarrow> 'a list" where
  "js_sort c xs = foldl (\<lambda>acc x. ins_by c x acc) [] xs"

text \<open>\<open>sortConfig\<close>: a column and \<open>order\<close>; without one the comparator returns \<open>0\<close>.\<close>

definition sort_rows :: "('k \<Rightarrow> 'a \<Rightarrow> string) \<Rightarrow> ('k \<times> int) option \<Rightarrow> 'a list \<Rightarrow> 'a list" where
  "sort_rows key cfg xs = js_sort (\<lambda>a b. case cfg of None \<Rightarrow> 0 | Some (k, order) \<Rightarrow> key_cmp (key k) order a b) xs"

text \<open>\<open>handleSort\<close>: the same column flips the direction, another one sorts ascending.\<close>

definition sort_click :: "'k \<Rightarrow> ('k \<times> int) option \<Rightarrow> ('k \<times> int) option" where
  "sort_click k cfg = (case cfg of Some (k', d) \<Rightarrow> if k' = k then Some (k, - d) else Some (k, 1)
                                 | None \<Rightarrow> Some (k, 1))"

section \<open>Pagination\<close>

definition page_size :: nat where
  "page_size = 10"

text \<open>\<open>xs.slice(start, end)\<close> for \<open>0 \<le> start \<le> end\<close>; at page 0 both bounds read as 0 and the slice is empty, as in JavaScript.\<close>

definition js_slice :: "nat \<Rightarrow> nat \<Rightarrow> 'a list \<Rightarrow> 'a list" where
  "js_slice s e xs = take (e - s) (drop s xs)"

definition page_rows :: "nat \<Rightarrow> 'a list \<Rightarrow> 'a list" where
  "page_rows p xs = js_slice (p * page_size - page_size) (p * page_size) xs"

text \<open>\<open>Math.ceil(n / perPage)\<close>\<close>

definition total_pages :: "nat \<Rightarrow> nat" where
  "total_pages n = (n + page_size - 1) div page_size"


section \<open>The tables\<close>

text \<open>
  What distinguishes the three pages: the role sent with each request, the
  noun of the toasts, the row's id, status and search test, the conditions
  that enable Suspend/Activate and Delete (the \<open>disabled\<close> expressions, which
  the \<open>onClick\<close> permission test repeats), whether rows are paginated and
  sortable, and the view route prefix.
\<close>

record ('r, 'k) table_conf =
  tc_role :: admin_role
  tc_noun :: string
  tc_Noun :: string
  tc_id :: "'r \<Rightarrow> string"
  tc_status :: "'r \<Rightarrow> string"
  tc_matches :: "string \<Rightarrow> 'r \<Rightarrow> bool"
  tc_key :: "'k \<Rightarrow> 'r \<Rightarrow> string"
  tc_suspend_ok :: "admin_user \<Rightarrow> 'r \<Rightarrow> bool"
  tc_delete_ok :: "admin_user \<Rightarrow> 'r \<Rightarrow> bool"
  tc_paged :: bool
  tc_sortable :: bool
  tc_view :: string

record ('r, 'k) admin_table =
  at_rows :: "'r list"
  at_search :: string
  at_page :: nat
  at_sort :: "('k \<times> int) option"
  at_toasts :: "string list"
  at_calls :: "admin_call list"
  at_nav :: "string option"

definition table_init :: "('r, 'k) admin_table" where
  "table_init = \<lparr>at_rows = [], at_search = [], at_page = 1, at_sort = None, at_toasts = [], at_calls = [], at_nav = None\<rparr>"

definition has_perm_a :: "admin_user \<Rightarrow> string \<Rightarrow> bool" where
  "has_perm_a u p \<longleftrightarrow> p \<in> set (au_perms u)"

text \<open>\<open>filteredX\<close>, then \<open>sortedTutors\<close>: the list the pages are cut from.\<close>

definition listed :: "('r, 'k) table_conf \<Rightarrow> ('r, 'k) admin_table \<Rightarrow> 'r list" where
  "listed C s = sort_rows (tc_key C) (at_sort s) (filter (tc_matches C (at_search s)) (at_rows s))"

text \<open>The rows of the table body: \<open>currentX\<close> on the paginated pages, every listed row otherwise.\<close>

definition visible :: "('r, 'k) table_conf \<Rightarrow> ('r, 'k) admin_table \<Rightarrow> 'r list" where
  "visible C s = (if tc_paged C then page_rows (at_page s) (listed C s) else listed C s)"

text \<open>
  The events: the list request settling (\<open>None\<close> a failure), typing in the
  search box, a page button (Prev, a number, Next), a column header, and the
  View, Suspend/Activate and Delete buttons of the row at a position of the
  table body, with the answer to \<open>confirm\<close> and whether the service accepted.
\<close>

datatype ('r, 'k) table_event =
    Fetched "'r list option" | Search_typed string | Page_click nat | Header_click 'k
  | View_click nat | Suspend_click nat bool bool | Delete_click nat bool bool

definition toast :: "string \<Rightarrow> ('r, 'k) admin_table \<Rightarrow> ('r, 'k) admin_table" where
  "toast m s = s\<lparr>at_toasts := at_toasts s @ [m]\<rparr>"

definition send :: "admin_call \<Rightarrow> ('r, 'k) admin_table \<Rightarrow> ('r, 'k) admin_table" where
  "send c s = s\<lparr>at_calls := at_calls s @ [c]\<rparr>"

text \<open>
  \<open>handleSuspendModal\<close>: \<open>SUSPENDED\<close> rows are activated, any other is
  suspended; nothing happens without confirmation or token; the refetch that
  follows a success is the next \<open>Fetched\<close> event.
\<close>

definition suspend_row :: "('r, 'k) table_conf \<Rightarrow> admin_user \<Rightarrow> 'r \<Rightarrow> bool \<Rightarrow> bool \<Rightarrow> ('r, 'k) admin_table \<Rightarrow> ('r, 'k) admin_table" where
  "suspend_row C u r confirmed ok s =
     (let act = (tc_status C r = ''SUSPENDED'');
          verb = (if act then ''activate'' else ''suspend'')
      in if \<not> confirmed \<or> au_token u = [] then s
         else let s' = send ((if act then Activate_user else Suspend_user) (au_id u) (tc_id C r) (tc_role C)) s
              in if ok then toast (tc_Noun C @ (if act then '' activated successfully'' else '' suspended successfully'')) s'
                 else toast (''Failed to '' @ verb @ '' '' @ tc_noun C) s')"

text \<open>\<open>handleDelete\<close>\<close>

definition delete_row :: "('r, 'k) table_conf \<Rightarrow> admin_user \<Rightarrow> 'r \<Rightarrow> bool \<Rightarrow> bool \<Rightarrow> ('r, 'k) admin_table \<Rightarrow> ('r, 'k) admin_table" where
  "delete_row C u r confirmed ok s =
     (if \<not> confirmed \<or> au_token u = [] then s
      else let s' = send (Delete_user (au_id u) (tc_id C r) (tc_role C)) s
           in if ok then toast (tc_Noun C @ '' deleted successfully'') s'
              else toast (''Failed to delete '' @ tc_noun C) s')"

text \<open>
  One event on a table. A click on a disabled button does nothing; the list
  request is only sent with a token, so its answer only arrives then.
\<close>

fun table_step :: "('r, 'k) table_conf \<Rightarrow> admin_user \<Rightarrow> ('r, 'k) admin_table \<Rightarrow> ('r, 'k) table_event \<Rightarrow> ('r, 'k) admin_table" where
  "table_step C u s (Fetched res) =
     (if au_token u = [] then s else case res of Some rows \<Rightarrow> s\<lparr>at_rows := rows\<rparr>
                                              | None \<Rightarrow> toast (''Failed to fetch '' @ tc_noun C @ ''s'') s)"
| "table_step C u s (Search_typed t) = (if tc_paged C then s\<lparr>at_search := t, at_page := 1\<rparr> else s\<lparr>at_search := t\<rparr>)"
| "table_step C u s (Page_click p) =
     (if tc_paged C \<and> 0 < p \<and> p \<le> total_pages (length (listed C s)) then s\<lparr>at_page := p\<rparr> else s)"
| "table_step C u s (Header_click k) = (if tc_sortable C then s\<lparr>at_sort := sort_click k (at_sort s)\<rparr> else s)"
| "table_step C u s (View_click i) =
     (if i < length (visible C s) then s\<lparr>at_nav := Some (tc_view C @ tc_id C (visible C s ! i))\<rparr> else s)"
| "table_step C u s (Suspend_click i confirmed ok) =
     (if i < length (visible C s) \<and> tc_suspend_ok C u (visible C s ! i)
      then suspend_row C u (visible C s ! i) confirmed ok s else s)"
| "table_step C u s (Delete_click i confirmed ok) =
     (if i < length (visible C s) \<and> tc_delete_ok C u (visible C s ! i)
      then delete_row C u (visible C s ! i) confirmed ok s else s)"

definition table_run :: "('r, 'k) table_conf \<Rightarrow> admin_user \<Rightarrow> ('r, 'k) table_event list \<Rightarrow> ('r, 'k) admin_table" where
  "table_run C u evs = foldl (table_step C u) table_init evs"

section \<open>The three pages\<close>

text \<open>
  \<open>ManageTutors\<close>: searches names, email and status; Suspend needs
  \<open>SUSPEND_TUTOR\<close> and a tutor that is neither \<open>DELETED\<close> nor \<open>REJECTED\<close>;
  Delete needs \<open>DELETE_TUTOR\<close> and a \<open>SUSPENDED\<close> or \<open>REJECTED\<close> tutor.
\<close>

definition tutor_conf :: "(tutor_row, tutor_key) table_conf" where
  "tutor_conf =
     \<lparr>tc_role = Role_tutor, tc_noun = ''tutor'', tc_Noun = ''Tutor'', tc_id = tr_user_id, tc_status = tr_status,
      tc_matches = tutor_matches, tc_key = tutor_key_of,
      tc_suspend_ok = (\<lambda>u r. has_perm_a u ''SUSPEND_TUTOR'' \<and> tr_status r \<noteq> ''DELETED'' \<and> tr_status r \<noteq> ''REJECTED''),
      tc_delete_ok = (\<lambda>u r. has_perm_a u ''DELETE_TUTOR'' \<and> (tr_status r = ''SUSPENDED'' \<or> tr_status r = ''REJECTED'')),
      tc_paged = True, tc_sortable = True, tc_view = ''/admin/tutors/''\<rparr>"

text \<open>\<open>ManageStudents\<close>: searches the name; Delete only for \<open>SUSPENDED\<close> students. It has no sort headers.\<close>

definition student_conf :: "(person_row, unit) table_conf" where
  "student_conf =
     \<lparr>tc_role = Role_student, tc_noun = ''student'', tc_Noun = ''Student'', tc_id = pr_id, tc_status = pr_status,
      tc_matches = person_matches, tc_key = (\<lambda>_. pr_name),
      tc_suspend_ok = (\<lambda>u r. has_perm_a u ''SUSPEND_STUDENT'' \<and> pr_status r \<noteq> ''DELETED''),
      tc_delete_ok = (\<lambda>u r. has_perm_a u ''DELETE_STUDENT'' \<and> pr_status r = ''SUSPENDED''),
      tc_paged = True, tc_sortable = False, tc_view = ''/admin/students/''\<rparr>"

text \<open>\<open>ManageAdmins\<close>: no pagination; an admin cannot suspend their own row.\<close>

definition admin_conf :: "(person_row, unit) table_conf" where
  "admin_conf =
     \<lparr>tc_role = Role_admin, tc_noun = ''admin'', tc_Noun = ''Admin'', tc_id = pr_id, tc_status = pr_status,
      tc_matches = person_matches, tc_key = (\<lambda>_. pr_name),
      tc_suspend_ok = (\<lambda>u r. has_perm_a u ''SUSPEND_ADMIN'' \<and> pr_id r \<noteq> au_id u \<and> pr_status r \<noteq> ''DELETED''),
      tc_delete_ok = (\<lambda>u r. has_perm_a u ''DELETE_ADMIN'' \<and> pr_status r = ''SUSPENDED''),
      tc_paged = False, tc_sortable = False, tc_view = ''/admin/admins/''\<rparr>"


text \<open>The rows the list request has delivered over a sequence of events.\<close>

definition fetched_rows :: "('r, 'k) table_event list \<Rightarrow> 'r list" where
  "fetched_rows evs = concat (map (\<lambda>e. case e of Fetched (Some rs) \<Rightarrow> rs | _ \<Rightarrow> []) evs)"

section \<open>Properties of pagination\<close>

lemma page_rows_Suc: "page_rows (Suc i) xs = take page_size (drop (i * page_size) xs)"
  by (simp add: page_rows_def js_slice_def)

lemma concat_pages_take:
  "concat (map (\<lambda>i. take k (drop (i * k) xs)) [0..<n]) = take (n * k) xs"
proof (induction n)
  case 0
  then show ?case by simp
next
  case (Suc n)
  have "take (Suc n * k) xs = take (n * k) xs @ take k (drop (n * k) xs)"
    by (metis take_add mult_Suc add.commute)
  then show ?case using Suc.IH by simp
qed

lemma ceil_tenth_bounds: "(n::nat) \<le> (n + 9) div 10 * 10" "0 < (n::nat) \<Longrightarrow> (n + 9) div 10 * 10 - 10 < n"
  by presburger+

lemma total_pages_bounds:
  "length xs \<le> total_pages (length xs) * page_size"
  "0 < length xs \<Longrightarrow> (total_pages (length xs) - 1) * page_size < length xs"
  using ceil_tenth_bounds [of "length xs"] by (simp_all add: total_pages_def page_size_def diff_mult_distrib)

text \<open>(C39) The pages of an admin table list every row of the filtered and sorted list exactly once and in order, no page up to the last is empty, and every page after the last is empty.\<close>

theorem pages_partition:
  "concat (map (\<lambda>p. page_rows p xs) [1..<Suc (total_pages (length xs))]) = xs
   \<and> list_all (\<lambda>p. page_rows p xs \<noteq> []) [1..<Suc (total_pages (length xs))]
   \<and> page_rows (total_pages (length xs) + Suc j) xs = []"
proof (intro conjI)
  let ?T = "total_pages (length xs)"
  have u: "[1..<Suc ?T] = map Suc [0..<?T]" by (simp add: map_Suc_upt)
  show "concat (map (\<lambda>p. page_rows p xs) [1..<Suc ?T]) = xs"
    unfolding u map_map comp_def page_rows_Suc concat_pages_take
    using total_pages_bounds(1) [of xs] by simp
  show "list_all (\<lambda>p. page_rows p xs \<noteq> []) [1..<Suc ?T]"
  proof (cases "xs = []")
    case True
    then show ?thesis by (simp add: total_pages_def page_size_def)
  next
    case False
    have lt: "i * page_size < length xs" if "i < ?T" for i
    proof -
      have "i \<le> ?T - 1" using that by simp
      then have "i * page_size \<le> (?T - 1) * page_size" by (rule mult_le_mono1)
      moreover have "(?T - 1) * page_size < length xs" using total_pages_bounds(2) [of xs] False by simp
      ultimately show ?thesis by (rule le_less_trans)
    qed
    then have "page_rows p xs \<noteq> []" if pm: "p \<in> set [1..<Suc ?T]" for p
    proof -
      obtain i where "p = Suc i" "i < ?T" using pm unfolding set_upt by (cases p) auto
      then show ?thesis using lt [of i]
        by (simp add: page_rows_Suc page_size_def)
    qed
    then show ?thesis by (simp only: list_all_iff) blast
  qed
  show "page_rows (?T + Suc j) xs = []"
    using total_pages_bounds(1) [of xs]
    by (simp add: page_rows_Suc) (metis add_leE mult.commute mult_le_mono2 le_add1 order_trans)
qed

section \<open>Properties of the sort\<close>

lemma mset_ins_by: "mset (ins_by c x ys) = add_mset x (mset ys)"
  by (induction ys) auto

lemma mset_js_sort_acc: "mset (foldl (\<lambda>acc x. ins_by c x acc) acc xs) = mset acc + mset xs"
  by (induction xs arbitrary: acc) (simp_all add: mset_ins_by)

text \<open>A comparator that is the strict part of a total preorder \<open>le\<close>.\<close>

lemma ins_by_sorted:
  assumes c: "\<And>a b. c a b < 0 \<longleftrightarrow> \<not> le b a" and tot: "\<And>a b. le a b \<or> le b a"
    and tr: "\<And>a b d. le a b \<Longrightarrow> le b d \<Longrightarrow> le a d"
  shows "sorted_wrt le ys \<Longrightarrow> sorted_wrt le (ins_by c x ys)"
proof (induction ys)
  case Nil
  then show ?case by simp
next
  case (Cons y ys)
  show ?case
  proof (cases "c x y < 0")
    case True
    then have "le x y" using c tot by blast
    then show ?thesis using Cons.prems tr True by auto
  next
    case False
    then have "le y x" using c by blast
    moreover have "set (ins_by c x ys) = insert x (set ys)"
      using mset_ins_by [of c x ys] by (metis set_mset_add_mset_insert set_mset_mset)
    ultimately show ?thesis using Cons False by auto
  qed
qed

lemma ins_by_filter_class:
  assumes c: "\<And>a b. c a b < 0 \<longleftrightarrow> \<not> le b a" and tot: "\<And>a b. le a b \<or> le b a"
    and tr: "\<And>a b d. le a b \<Longrightarrow> le b d \<Longrightarrow> le a d"
  shows "sorted_wrt le ys \<Longrightarrow> filter (\<lambda>y. le w y \<and> le y w) (ins_by c x ys)
           = filter (\<lambda>y. le w y \<and> le y w) ys @ filter (\<lambda>y. le w y \<and> le y w) [x]"
proof (induction ys)
  case Nil
  then show ?case by simp
next
  case (Cons y ys)
  show ?case
  proof (cases "c x y < 0")
    case True
    then have nyx: "\<not> le y x" using c by blast
    have "filter (\<lambda>y. le w y \<and> le y w) (y # ys) = []" if qx: "le w x \<and> le x w"
    proof -
      have "\<not> (le w z \<and> le z w)" if z: "z \<in> set (y # ys)" for z
      proof
        assume "le w z \<and> le z w"
        with qx have "le z x" using tr by blast
        moreover have "le y z" using z Cons.prems tot by auto
        ultimately show False using nyx tr by blast
      qed
      then show ?thesis by (simp add: filter_empty_conv del: filter.simps)
    qed
    then show ?thesis using True by auto
  next
    case False
    then show ?thesis using Cons by simp
  qed
qed

lemma js_sort_props:
  assumes c: "\<And>a b. c a b < 0 \<longleftrightarrow> \<not> le b a" and tot: "\<And>a b. le a b \<or> le b a"
    and tr: "\<And>a b d. le a b \<Longrightarrow> le b d \<Longrightarrow> le a d"
  shows "sorted_wrt le (js_sort c xs)"
    and "filter (\<lambda>y. le w y \<and> le y w) (js_sort c xs) = filter (\<lambda>y. le w y \<and> le y w) xs"
proof -
  have "sorted_wrt le acc \<Longrightarrow> sorted_wrt le (foldl (\<lambda>acc x. ins_by c x acc) acc xs)
        \<and> filter (\<lambda>y. le w y \<and> le y w) (foldl (\<lambda>acc x. ins_by c x acc) acc xs)
            = filter (\<lambda>y. le w y \<and> le y w) acc @ filter (\<lambda>y. le w y \<and> le y w) xs" for acc
  proof (induction xs arbitrary: acc)
    case Nil
    then show ?case by simp
  next
    case (Cons x xs)
    have "sorted_wrt le (ins_by c x acc)" using ins_by_sorted [OF c tot tr Cons.prems] .
    moreover have "filter (\<lambda>y. le w y \<and> le y w) (ins_by c x acc)
                   = filter (\<lambda>y. le w y \<and> le y w) acc @ filter (\<lambda>y. le w y \<and> le y w) [x]"
      using ins_by_filter_class [OF c tot tr Cons.prems] .
    ultimately show ?case using Cons.IH [of "ins_by c x acc"] by simp
  qed
  then show "sorted_wrt le (js_sort c xs)"
    and "filter (\<lambda>y. le w y \<and> le y w) (js_sort c xs) = filter (\<lambda>y. le w y \<and> le y w) xs"
    by (simp_all add: js_sort_def)
qed

lemma js_sort_zero: "js_sort (\<lambda>a b. 0) xs = xs"
proof -
  have i: "ins_by (\<lambda>a b. 0) x ys = ys @ [x]" for x ys by (induction ys) simp_all
  have "foldl (\<lambda>acc x. ins_by (\<lambda>a b. 0) x acc) acc xs = acc @ xs" for acc
    by (induction xs arbitrary: acc) (simp_all add: i)
  then show ?thesis by (simp add: js_sort_def)
qed

lemma key_cmp_asc: "key_cmp f 1 a b < 0 \<longleftrightarrow> \<not> f b \<le> f a"
  by (auto simp: key_cmp_def not_le)

lemma key_cmp_desc: "key_cmp f (- 1) a b < 0 \<longleftrightarrow> \<not> f a \<le> f b"
  by (auto simp: key_cmp_def not_le)

lemma js_sort_asc: "js_sort (key_cmp f 1) xs = sort_key f xs"
proof -
  let ?le = "\<lambda>a b. f a \<le> f b"
  have tot: "\<And>a b. ?le a b \<or> ?le b a" by auto
  have tr: "\<And>a b d. ?le a b \<Longrightarrow> ?le b d \<Longrightarrow> ?le a d" by (rule order_trans)
  note p = js_sort_props [of "key_cmp f 1" ?le, OF key_cmp_asc tot tr]
  show ?thesis
  proof (rule properties_for_sort_key [symmetric])
    show "mset (js_sort (key_cmp f 1) xs) = mset xs" by (simp add: js_sort_def mset_js_sort_acc)
    show "sorted (map f (js_sort (key_cmp f 1) xs))" using p(1) by (simp add: sorted_map)
    fix k
    have e: "(\<lambda>y. f k \<le> f y \<and> f y \<le> f k) = (\<lambda>x. f k = f x)" by (auto simp: fun_eq_iff)
    show "filter (\<lambda>x. f k = f x) (js_sort (key_cmp f 1) xs) = filter (\<lambda>x. f k = f x) xs"
      using p(2) [where w = k] unfolding e .
  qed
qed

lemma js_sort_desc: "js_sort (key_cmp f (- 1)) xs = rev (sort_key f (rev xs))"
proof -
  let ?le = "\<lambda>a b. f b \<le> f a"
  let ?r = "js_sort (key_cmp f (- 1)) xs"
  have tot: "\<And>a b. ?le a b \<or> ?le b a" by auto
  have tr: "\<And>a b d. ?le a b \<Longrightarrow> ?le b d \<Longrightarrow> ?le a d" using order_trans by blast
  note p = js_sort_props [of "key_cmp f (- 1)" ?le, OF key_cmp_desc tot tr]
  have "sort_key f (rev xs) = rev ?r"
  proof (rule properties_for_sort_key)
    show "mset (rev ?r) = mset (rev xs)" by (simp add: js_sort_def mset_js_sort_acc)
    show "sorted (map f (rev ?r))" using p(1) by (simp add: sorted_map rev_map sorted_wrt_rev)
    fix k
    have e: "(\<lambda>y. f y \<le> f k \<and> f k \<le> f y) = (\<lambda>x. f k = f x)" by (auto simp: fun_eq_iff)
    have "filter (\<lambda>x. f k = f x) ?r = filter (\<lambda>x. f k = f x) xs"
      using p(2) [where w = k] unfolding e .
    then show "filter (\<lambda>x. f k = f x) (rev ?r) = filter (\<lambda>x. f k = f x) (rev xs)"
      by (simp add: rev_filter [symmetric])
  qed
  then show ?thesis by simp
qed

text \<open>(C38) The tutor table's sort, the stable Array.prototype.sort with the page's comparator, is the identity without a sort column, the library's stable sort by the column ascending, and its mirror image descending: the stable descending order keeps rows with equal keys in their original order.\<close>

theorem sort_rows_reference:
  "sort_rows key None xs = xs
   \<and> sort_rows key (Some (k, 1)) xs = sort_key (key k) xs
   \<and> sort_rows key (Some (k, - 1)) xs = rev (sort_key (key k) (rev xs))"
  by (simp add: sort_rows_def js_sort_zero js_sort_asc js_sort_desc)

section \<open>Properties of the actions\<close>

lemma tutor_conf_simps [simp]:
  "tc_role tutor_conf = Role_tutor" "tc_noun tutor_conf = ''tutor''" "tc_Noun tutor_conf = ''Tutor''"
  "tc_id tutor_conf = tr_user_id" "tc_status tutor_conf = tr_status" "tc_matches tutor_conf = tutor_matches"
  "tc_key tutor_conf = tutor_key_of" "tc_paged tutor_conf" "tc_sortable tutor_conf" "tc_view tutor_conf = ''/admin/tutors/''"
  "tc_suspend_ok tutor_conf u r \<longleftrightarrow> has_perm_a u ''SUSPEND_TUTOR'' \<and> tr_status r \<noteq> ''DELETED'' \<and> tr_status r \<noteq> ''REJECTED''"
  "tc_delete_ok tutor_conf u r \<longleftrightarrow> has_perm_a u ''DELETE_TUTOR'' \<and> (tr_status r = ''SUSPENDED'' \<or> tr_status r = ''REJECTED'')"
  by (simp_all add: tutor_conf_def)

lemma at_calls_toast [simp]: "at_calls (toast m s) = at_calls s"
  by (simp add: toast_def)

lemma at_calls_delete_row:
  "at_calls (delete_row C u r confirmed ok s) =
     (if confirmed \<and> au_token u \<noteq> [] then at_calls s @ [Delete_user (au_id u) (tc_id C r) (tc_role C)] else at_calls s)"
  by (simp add: delete_row_def send_def Let_def)

lemma set_js_sort [simp]: "set (js_sort c xs) = set xs"
  by (metis js_sort_def mset_js_sort_acc add_0 mset_zero_iff_right set_mset_mset)

lemma set_page_rows: "set (page_rows p xs) \<subseteq> set xs"
  by (auto simp: page_rows_def js_slice_def dest: in_set_takeD in_set_dropD)

lemma set_listed: "set (listed C s) \<subseteq> set (at_rows s)"
  by (auto simp: listed_def sort_rows_def)

lemma set_visible: "set (visible C s) \<subseteq> set (at_rows s)"
  using set_page_rows [of "at_page s" "listed C s"] set_listed [of C s]
  by (auto simp: visible_def)

lemma at_calls_suspend_row:
  "set (at_calls (suspend_row C u r confirmed ok s)) \<subseteq> set (at_calls s) \<union>
     {Suspend_user (au_id u) (tc_id C r) (tc_role C), Activate_user (au_id u) (tc_id C r) (tc_role C)}"
  by (auto simp: suspend_row_def send_def Let_def)

lemma at_rows_step:
  "set (at_rows (table_step C u s e)) \<subseteq> set (at_rows s) \<union> set (fetched_rows [e])"
  by (cases e) (auto simp: fetched_rows_def toast_def suspend_row_def delete_row_def send_def Let_def
                     split: option.splits)

lemma delete_calls_step:
  assumes "Delete_user a t rl \<in> set (at_calls (table_step tutor_conf u s e))"
    and "Delete_user a t rl \<notin> set (at_calls s)"
  shows "rl = Role_tutor \<and> a = au_id u \<and> has_perm_a u ''DELETE_TUTOR''
         \<and> (\<exists>r \<in> set (at_rows s). tr_user_id r = t \<and> (tr_status r = ''SUSPENDED'' \<or> tr_status r = ''REJECTED''))"
proof (cases e)
  case (Suspend_click i c ok)
  then show ?thesis
    using assms at_calls_suspend_row [of tutor_conf u "visible tutor_conf s ! i" c ok s]
    by (auto split: if_splits)
next
  case (Delete_click i c ok)
  then have i: "i < length (visible tutor_conf s)" and
    ok: "has_perm_a u ''DELETE_TUTOR''"
        "tr_status (visible tutor_conf s ! i) = ''SUSPENDED'' \<or> tr_status (visible tutor_conf s ! i) = ''REJECTED''"
    and c: "Delete_user a t rl = Delete_user (au_id u) (tr_user_id (visible tutor_conf s ! i)) Role_tutor"
    using assms by (auto simp: at_calls_delete_row split: if_splits)
  have "visible tutor_conf s ! i \<in> set (at_rows s)" using i set_visible by (metis nth_mem subsetD)
  then show ?thesis using ok c by auto
qed (use assms in \<open>auto simp: toast_def split: if_splits option.splits\<close>)

text \<open>(C11) Whatever the admin types, clicks and confirms on the tutor table and whatever the admin service answers, every delete request it sends is for a tutor the service listed as SUSPENDED or REJECTED, carries the admin's own id and the tutor role, and is only sent by an admin holding DELETE_TUTOR.\<close>

theorem tutor_delete_safe:
  assumes "Delete_user a t rl \<in> set (at_calls (table_run tutor_conf u evs))"
  shows "rl = Role_tutor \<and> a = au_id u \<and> has_perm_a u ''DELETE_TUTOR''
         \<and> (\<exists>r \<in> set (fetched_rows evs). tr_user_id r = t \<and> (tr_status r = ''SUSPENDED'' \<or> tr_status r = ''REJECTED''))"
proof -
  have "set (at_rows (table_run tutor_conf u evs)) \<subseteq> set (fetched_rows evs)
        \<and> (\<forall>a t rl. Delete_user a t rl \<in> set (at_calls (table_run tutor_conf u evs)) \<longrightarrow>
             rl = Role_tutor \<and> a = au_id u \<and> has_perm_a u ''DELETE_TUTOR''
             \<and> (\<exists>r \<in> set (fetched_rows evs). tr_user_id r = t \<and> (tr_status r = ''SUSPENDED'' \<or> tr_status r = ''REJECTED'')))"
  proof (induction evs rule: rev_induct)
    case Nil
    then show ?case by (simp add: table_run_def table_init_def fetched_rows_def)
  next
    case (snoc e evs)
    let ?s = "table_run tutor_conf u evs"
    have run: "table_run tutor_conf u (evs @ [e]) = table_step tutor_conf u ?s e" by (simp add: table_run_def)
    have f: "set (fetched_rows (evs @ [e])) = set (fetched_rows evs) \<union> set (fetched_rows [e])"
      by (simp add: fetched_rows_def)
    have rows: "set (at_rows (table_step tutor_conf u ?s e)) \<subseteq> set (fetched_rows (evs @ [e]))"
      using at_rows_step [of tutor_conf u ?s e] snoc.IH f by blast
    have calls: "rl = Role_tutor \<and> a = au_id u \<and> has_perm_a u ''DELETE_TUTOR''
             \<and> (\<exists>r \<in> set (fetched_rows (evs @ [e])). tr_user_id r = t \<and> (tr_status r = ''SUSPENDED'' \<or> tr_status r = ''REJECTED''))"
      if d: "Delete_user a t rl \<in> set (at_calls (table_step tutor_conf u ?s e))" for a t rl
    proof (cases "Delete_user a t rl \<in> set (at_calls ?s)")
      case True
      then show ?thesis using snoc.IH f by blast
    next
      case False
      from delete_calls_step [OF d False] show ?thesis using snoc.IH f by blast
    qed
    show ?case using rows calls by (simp add: run)
  qed
  then show ?thesis using assms by blast
qed

end
