(* ===== verification/Search.thy ===== *)
theory Search
  imports Profile
begin

text \<open>
  The student's tutor search, \<open>pages/student/FindTutor.tsx\<close>: the filter
  state, the request \<open>handleSearch\<close> sends (\<open>SearchTutors\<close> of the student
  service, a collaborator whose answer is an input), the Clear button with the
  effect that searches again once the filters are reset, and the text of a
  result card. A search is atomic: while it runs the Search and Clear buttons
  are disabled, so no other search can start.
\<close>

section \<open>The request\<close>

text \<open>\<open>TutorSearchRequest\<close>: \<open>undefined\<close> fields are \<open>None\<close>.\<close>

record search_request =
  sq_name :: "string option"
  sq_subject :: "string option"
  sq_min :: int
  sq_max :: int
  sq_availability :: "string option"

text \<open>\<open>s || undefined\<close>: an empty string is left out.\<close>

definition or_undefined :: "string \<Rightarrow> string option" where
  "or_undefined s = (if s = [] then None else Some s)"

section \<open>Result cards\<close>

text \<open>A tutor of the result list, with its availability object's entries in their JSON order.\<close>

record tutor_card =
  cd_id :: string
  cd_first :: string
  cd_last :: string
  cd_subject :: string
  cd_rate :: js_num
  cd_image :: string
  cd_availability :: "(string \<times> time_slot) list"

definition upper :: "char \<Rightarrow> char" where
  "upper c = (let k = (of_char c :: nat) in if 97 \<le> k \<and> k \<le> 122 then char_of (k - 32) else c)"

text \<open>\<open>day.charAt(0).toUpperCase() + day.slice(1).toLowerCase()\<close>\<close>

definition day_label :: "string \<Rightarrow> string" where
  "day_label d = (case d of [] \<Rightarrow> [] | c # cs \<Rightarrow> upper c # map lower cs)"

definition join_comma :: "string list \<Rightarrow> string" where
  "join_comma xs = foldr (\<lambda>x acc. if acc = [] then x else x @ '', '' @ acc) xs []"

text \<open>The "Available:" line: the enabled entries as \<open>Day (start - end)\<close>, joined with commas.\<close>

definition available_text :: "(string \<times> time_slot) list \<Rightarrow> string" where
  "available_text es =
     join_comma (map (\<lambda>(d, v). day_label d @ '' ('' @ ts_start v @ '' - '' @ ts_end v @ '')'')
                     (filter (\<lambda>(d, v). ts_enabled v) es))"

text \<open>\<open>tutor.profileImageUrl || defaultProfile\<close>\<close>

definition card_image :: "string \<Rightarrow> tutor_card \<Rightarrow> string" where
  "card_image fallback c = (if cd_image c = [] then fallback else cd_image c)"

definition card_link :: "tutor_card \<Rightarrow> string" where
  "card_link c = ''/student/view-tutor/'' @ cd_id c"

section \<open>The page\<close>

record find_page =
  fp_search :: string
  fp_subject :: string
  fp_price :: "int \<times> int"
  fp_availability :: string
  fp_results :: "tutor_card list"
  fp_error :: "string option"
  fp_sent :: "search_request list"

text \<open>The initial state: empty filters and the slider at \<open>[MIN, MAX] = [0, 100]\<close>.\<close>

definition find_init :: find_page where
  "find_init = \<lparr>fp_search = [], fp_subject = [], fp_price = (0, 100), fp_availability = [],
                fp_results = [], fp_error = None, fp_sent = []\<rparr>"

definition request_of :: "find_page \<Rightarrow> search_request" where
  "request_of p =
     \<lparr>sq_name = or_undefined (fp_search p), sq_subject = or_undefined (fp_subject p),
      sq_min = fst (fp_price p), sq_max = snd (fp_price p),
      sq_availability = or_undefined (fp_availability p)\<rparr>"

text \<open>
  \<open>handleSearch\<close> with the service's answer (\<open>None\<close> a failure): without a
  token it only shows the error; otherwise it sends the request built from the
  current filters and shows the results, or an error keeping the old results.
\<close>

definition handle_search :: "string \<Rightarrow> tutor_card list option \<Rightarrow> find_page \<Rightarrow> find_page" where
  "handle_search tok ans p =
     (if tok = [] then p\<lparr>fp_error := Some ''No auth token found. Please login.''\<rparr>
      else let p' = p\<lparr>fp_error := None, fp_sent := fp_sent p @ [request_of p]\<rparr> in
        case ans of Some rs \<Rightarrow> p'\<lparr>fp_results := rs\<rparr>
                  | None \<Rightarrow> p'\<lparr>fp_error := Some ''Failed to fetch tutors. Please try again.''\<rparr>)"

text \<open>
  \<open>handleClear\<close> resets the four filters and sets \<open>filtersCleared\<close>; the
  effect on \<open>[filtersCleared]\<close> then runs \<open>handleSearch\<close> from the re-rendered
  page, with the reset filters, and clears the flag.
\<close>

definition handle_clear :: "string \<Rightarrow> tutor_card list option \<Rightarrow> find_page \<Rightarrow> find_page" where
  "handle_clear tok ans p =
     handle_search tok ans (p\<lparr>fp_search := [], fp_subject := [], fp_price := (0, 100), fp_availability := []\<rparr>)"

text \<open>
  The events: typing a name, choosing a subject or a day, moving the slider
  (\<open>react-range\<close> reports the two thumbs), and the Search and Clear buttons
  with the service's answer. Mounting runs a search.
\<close>

datatype find_event =
    Type_search string | Pick_subject string | Pick_day string | Move_price int int
  | Click_search "tutor_card list option" | Click_clear "tutor_card list option"

fun find_step :: "string \<Rightarrow> find_page \<Rightarrow> find_event \<Rightarrow> find_page" where
  "find_step tok p (Type_search s) = p\<lparr>fp_search := s\<rparr>"
| "find_step tok p (Pick_subject s) = p\<lparr>fp_subject := s\<rparr>"
| "find_step tok p (Pick_day d) = p\<lparr>fp_availability := d\<rparr>"
| "find_step tok p (Move_price a b) = p\<lparr>fp_price := (a, b)\<rparr>"
| "find_step tok p (Click_search ans) = handle_search tok ans p"
| "find_step tok p (Click_clear ans) = handle_clear tok ans p"

definition find_run :: "string \<Rightarrow> tutor_card list option \<Rightarrow> find_event list \<Rightarrow> find_page" where
  "find_run tok ans0 evs = foldl (find_step tok) (handle_search tok ans0 find_init) evs"

text \<open>The options of the subject and availability filters.\<close>

definition subject_options :: "string list" where
  "subject_options = [''Math'', ''Science'', ''English'', ''History'']"

definition day_options :: "string list" where
  "day_options = [''MONDAY'', ''TUESDAY'', ''WEDNESDAY'', ''THURSDAY'', ''FRIDAY'', ''SATURDAY'', ''SUNDAY'']"


section \<open>Properties of the search\<close>

lemma or_undefined_not_empty [simp]: "or_undefined s \<noteq> Some []"
  by (simp add: or_undefined_def)

lemma sent_handle_search:
  "fp_sent (handle_search tok ans p) = (if tok = [] then fp_sent p else fp_sent p @ [request_of p])"
  by (simp add: handle_search_def Let_def split: option.split)

lemma sent_find_step:
  "set (fp_sent (find_step tok p e)) \<subseteq> set (fp_sent p) \<union> {request_of q | q. True}"
  by (cases e) (auto simp: sent_handle_search handle_clear_def)

text \<open>(C40) Whatever the student types or picks, every search request the page sends leaves an empty filter out instead of sending an empty string, and the search that Clear triggers sends the unfiltered request (no name, subject or day, price 0 to 100) whatever the filters were.\<close>

theorem search_requests:
  "list_all (\<lambda>q. sq_name q \<noteq> Some [] \<and> sq_subject q \<noteq> Some [] \<and> sq_availability q \<noteq> Some [])
            (fp_sent (find_run tok ans0 evs))
   \<and> (tok \<noteq> [] \<longrightarrow> fp_sent (find_step tok p (Click_clear ans)) =
        fp_sent p @ [\<lparr>sq_name = None, sq_subject = None, sq_min = 0, sq_max = 100, sq_availability = None\<rparr>])"
proof
  have "set (fp_sent (foldl (find_step tok) p evs)) \<subseteq> set (fp_sent p) \<union> {request_of q | q. True}" for p
  proof (induction evs arbitrary: p)
    case Nil
    then show ?case by simp
  next
    case (Cons e evs)
    then show ?case using sent_find_step [of tok p e] by fastforce
  qed
  moreover have "set (fp_sent (handle_search tok ans0 find_init)) \<subseteq> {request_of q | q. True}"
    by (auto simp: sent_handle_search find_init_def)
  ultimately have "set (fp_sent (find_run tok ans0 evs)) \<subseteq> {request_of q | q. True}"
    unfolding find_run_def by blast
  then show "list_all (\<lambda>q. sq_name q \<noteq> Some [] \<and> sq_subject q \<noteq> Some [] \<and> sq_availability q \<noteq> Some [])
            (fp_sent (find_run tok ans0 evs))"
    by (auto simp: list_all_iff request_of_def)
  show "tok \<noteq> [] \<longrightarrow> fp_sent (find_step tok p (Click_clear ans)) =
        fp_sent p @ [\<lparr>sq_name = None, sq_subject = None, sq_min = 0, sq_max = 100, sq_availability = None\<rparr>]"
    by (simp add: handle_clear_def sent_handle_search request_of_def or_undefined_def)
qed

end
