(* ===== verification/Scenarios.thy ===== *)
theory Scenarios
  imports Student Wallet Auth Admin Search
begin

text \<open>
  Concrete fixtures (a browser in Singapore, UTC+8, and one in New York,
  UTC-5, both on 2025-09-10; a template enabled on Mondays) and the witness
  theorems that apply each claim of the development at such inputs, with every
  hypothesis discharged by evaluation.
\<close>

section \<open>Fixtures\<close>

definition sg_env :: env where
  "sg_env = \<lparr>env_tz = 480, env_today = CDate 2025 9 10, env_day_name = en_short_weekday\<rparr>"

definition ny_env :: env where
  "ny_env = \<lparr>env_tz = -300, env_today = CDate 2025 9 10, env_day_name = en_short_weekday\<rparr>"

definition monday_template :: availability where
  "monday_template = [''Mon'' \<mapsto> default_slot\<lparr>ts_enabled := True\<rparr>]"

definition one_confirmed :: "booked_slot list" where
  "one_confirmed = [\<lparr>bs_date = ''2025-09-22'', bs_status = ''confirmed''\<rparr>]"

text \<open>A tutor with the Monday template at 50 per hour, a booking request for Monday 2025-09-22, 10:00 to 12:00, a rival request for the same slot, and a request to move it a week on; the engine states after creating, accepting and asking to reschedule it.\<close>

definition tutor_prof :: tutor_profile where
  "tutor_prof = \<lparr>tp_availability = monday_template, tp_rate = Some 50\<rparr>"

definition profs0 :: profiles where
  "profs0 = [''t1'' \<mapsto> tutor_prof]"

definition rq_mon :: booking_request where
  "rq_mon = \<lparr>rq_tutor = ''t1'', rq_student = ''s1'', rq_tutor_name = ''Tan'', rq_student_name = ''Ali'',
             rq_date = ''2025-09-22'', rq_start = ''10:00'', rq_end = ''12:00'', rq_lesson_type = ''Math''\<rparr>"

definition rq_rival :: booking_request where
  "rq_rival = rq_mon\<lparr>rq_student := ''s2'', rq_student_name := ''Bo''\<rparr>"

definition rq_move :: booking_request where
  "rq_move = rq_mon\<lparr>rq_date := ''2025-09-29''\<rparr>"

definition e1 :: engine where
  "e1 = insert_booking (new_booking rq_mon ''t1'' ''s1'' Pending None 100) init_engine"

definition e2 :: engine where
  "e2 = set_status 0 Confirmed e1"

definition e3 :: engine where
  "e3 = insert_booking (new_booking rq_move ''t1'' ''s1'' On_hold (Some 0) 100) (set_status 0 Reschedule_requested e2)"

text \<open>The tutor of these fixtures logged into the dashboard, with booking 0 pending on the calendar and the modal open on its day; and a dashboard whose only upcoming row awaits a reschedule decision.\<close>

definition tutor_user :: dash_user where
  "tutor_user = \<lparr>du_id = ''t1'', du_token = ''tok''\<rparr>"

definition booking0 :: booking where
  "booking0 = new_booking rq_mon ''t1'' ''s1'' Pending None 100"

definition dash0 :: tutor_dash where
  "dash0 = \<lparr>td_booked = [resp_of 0 booking0], td_recent = [], td_past = [], td_recent_count = 0, td_past_count = 0,
            td_month = CDate 2025 9 1, td_selected = Some (CDate 2025 9 22, default_slot\<lparr>ts_enabled := True\<rparr>),
            td_show_modal = True, td_notices = []\<rparr>"

definition dash_rr :: tutor_dash where
  "dash_rr = dash0\<lparr>td_recent := [resp_of 0 (booking0\<lparr>b_status := Reschedule_requested\<rparr>)]\<rparr>"

text \<open>The student of these fixtures, the tutor as the booking page reads it, the page with Monday 2025-09-22 10:00 to 12:00 selected, and a tutor who lists no lesson types.\<close>

definition student_s1 :: student_user where
  "student_s1 = \<lparr>su_id = ''s1'', su_name = ''Ali'', su_token = ''tok''\<rparr>"

definition tinfo :: tutor_info where
  "tinfo = \<lparr>ti_user_id = ''t1'', ti_first_name = ''Tan'', ti_last_name = ''Lee'', ti_rate = Some 50,
            ti_lesson_types = Some [''Math''], ti_availability = monday_template, ti_description = []\<rparr>"

definition tinfo_nolessons :: tutor_info where
  "tinfo_nolessons = tinfo\<lparr>ti_lesson_types := Some []\<rparr>"

definition page0 :: view_page where
  "page0 = \<lparr>vp_tutor = Some tinfo, vp_selected = Some (CDate 2025 9 22, \<lparr>ts_enabled = True, ts_start = ''10:00'', ts_end = ''12:00''\<rparr>),
            vp_show_modal = True, vp_booked = [], vp_month = CDate 2025 9 1, vp_notices = []\<rparr>"

definition sdash0 :: student_dash where
  "sdash0 = \<lparr>sd_bookings = [resp_of 0 booking0, resp_of 1 (booking0\<lparr>b_status := Confirmed\<rparr>)], sd_balance = 0,
             sd_loading_wallet = False, sd_only_confirmed = True, sd_resched = None, sd_notices = []\<rparr>"

text \<open>A lesson-type input, a profile response with a NaN rate, and a profile that passes the save checks.\<close>

definition lessons0 :: lesson_box where
  "lessons0 = \<lparr>lb_value = [''Maths''], lb_input = [], lb_show = False\<rparr>"

definition lesson_events0 :: "lesson_event list" where
  "lesson_events0 = [Type_text '' piano '', Press_enter, Type_text ''MA'', Pick_suggestion ''Maths'',
                     Type_text ''ch'', Pick_suggestion ''Chemistry'', Remove_chip ''Maths'']"

definition nan_rate_resp :: profile_resp where
  "nan_rate_resp = \<lparr>pr_user_id = Some ''t1'', pr_subject = Some ''Maths'', pr_rate = Some None,
                    pr_description = None, pr_availability = None, pr_lesson_types = Some [''Sec 1''],
                    pr_uploads = Some [], pr_quals = Some []\<rparr>"

definition ready_profile :: profile_form where
  "ready_profile = default_profile\<lparr>pf_availability := [''Mon'' \<mapsto> default_slot\<lparr>ts_enabled := True\<rparr>],
                                    pf_lesson_types := [''Sec 1''],
                                    pf_uploads := [\<lparr>up_name = ''degree.pdf'', up_size = 1024\<rparr>]\<rparr>"

text \<open>An admin allowed to delete tutors, the tutor list the service returns, and a student's login answer.\<close>

definition admin0 :: admin_user where
  "admin0 = \<lparr>au_id = ''a1'', au_token = ''tok'', au_perms = [''DELETE_TUTOR'']\<rparr>"

definition tutors0 :: "tutor_row list" where
  "tutors0 = [\<lparr>tr_user_id = ''t9'', tr_first = ''Ann'', tr_last = ''Lee'', tr_email = ''ann@mail.sg'', tr_status = ''SUSPENDED''\<rparr>,
              \<lparr>tr_user_id = ''t7'', tr_first = ''Bob'', tr_last = ''Tan'', tr_email = ''bob@mail.sg'', tr_status = ''ACTIVE''\<rparr>]"

definition admin_events0 :: "(tutor_row, tutor_key) table_event list" where
  "admin_events0 = [Fetched (Some tutors0), Delete_click 1 True True, Delete_click 0 True True]"

definition student_login :: login_answer where
  "student_login = Login_ok \<lparr>lu_id = ''s1'', lu_token = ''tok'', lu_role = ''STUDENT''\<rparr>"

section \<open>Witnesses: dates\<close>

lemma api_date_roundtrip_witness:
  "reformat_api_date 480 ''2025-09-22'' = ''2025-09-22'' \<and> reformat_api_date (-300) ''2025-09-22'' = ''2025-09-21''"
proof -
  have v: "valid_date (CDate 2025 9 22)" by code_simp
  have f: "format_date (CDate 2025 9 22) = ''2025-09-22''" "format_date (prev_day (CDate 2025 9 22)) = ''2025-09-21''"
    by code_simp+
  show ?thesis
    using api_date_roundtrip [OF v, of 480] api_date_roundtrip [OF v, of "-300"] f by simp
qed

section \<open>Witnesses: calendar\<close>

lemma resolver_available_iff_witness:
  "get_slot_status 480 (CDate 2025 9 10) one_confirmed (CDate 2025 9 29) True = StAvailable"
proof -
  have "reformat_api_date 480 ''2025-09-22'' \<noteq> format_date (CDate 2025 9 29)" "\<not> CDate 2025 9 29 < CDate 2025 9 10"
    by code_simp+
  then show ?thesis
    using resolver_available_iff [of 480 "CDate 2025 9 10" one_confirmed "CDate 2025 9 29" True]
    by (simp add: one_confirmed_def)
qed

lemma grid_month_shape_witness:
  "length (project sg_env Student Map.empty [] (CDate 2024 2 1)) = 29 \<and>
   cell_date (project sg_env Student Map.empty [] (CDate 2024 2 1) ! 28) = CDate 2024 2 29"
proof -
  have d: "days_in_month 2024 2 = 29" by code_simp
  show ?thesis using grid_month_shape [of sg_env Student Map.empty "[]" "CDate 2024 2 1"] d by simp
qed

lemma student_click_iff_available_witness:
  "cell_clickable (render_cell sg_env Student monday_template [] (CDate 2025 9 22))"
proof -
  have "cell_status (render_cell sg_env Student monday_template [] (CDate 2025 9 22)) = StAvailable"
    by code_simp
  then show ?thesis using student_click_iff_available by blast
qed

lemma resolver_confirmed_wins_witness:
  "get_slot_status 480 (CDate 2025 9 30) (one_confirmed @ [\<lparr>bs_date = ''2025-09-22'', bs_status = ''pending''\<rparr>])
     (CDate 2025 9 22) True = StBooked"
proof -
  have "reformat_api_date 480 ''2025-09-22'' = format_date (CDate 2025 9 22)" by code_simp
  then show ?thesis
    by (intro resolver_confirmed_wins [where b = "\<lparr>bs_date = ''2025-09-22'', bs_status = ''confirmed''\<rparr>"])
       (simp_all add: one_confirmed_def)
qed

lemma grid_disabled_days_witness:
  "cell_status (render_cell sg_env Tutor Map.empty one_confirmed (CDate 2025 9 22)) = StDisabled"
proof -
  have m: "CDate 2025 9 22 \<in> set (get_month_dates (CDate 2025 9 1))" by code_simp
  have "render_cell sg_env Tutor Map.empty one_confirmed (CDate 2025 9 22)
          \<in> set (project sg_env Tutor Map.empty one_confirmed (CDate 2025 9 1))"
    using m by (simp add: project_def)
  from grid_disabled_days [OF this] show ?thesis
    by (simp add: render_cell_simps slot_enabled_def)
qed

lemma grid_monday_only_witness:
  "cell_status (render_cell sg_env Student monday_template [] (CDate 2025 9 22)) = StAvailable"
proof -
  have m: "CDate 2025 9 22 \<in> set (get_month_dates (CDate 2025 9 1))" by code_simp
  have wd: "get_day (CDate 2025 9 22) = Mon" by code_simp
  have lt: "\<not> CDate 2025 9 22 < CDate 2025 9 10" by code_simp
  have "render_cell sg_env Student monday_template [] (CDate 2025 9 22)
          \<in> set (project sg_env Student monday_template [] (CDate 2025 9 1))"
    using m by (simp add: project_def)
  from grid_monday_only [OF _ _ this [unfolded monday_template_def]] wd lt show ?thesis
    by (simp add: sg_env_def render_cell_simps monday_template_def)
qed

lemma booking_shown_on_local_date_witness:
  "get_slot_status (-300) (CDate 2025 9 1) one_confirmed (CDate 2025 9 21) True = StBooked"
proof -
  have p: "parse_iso_date ''2025-09-22'' = Some (CDate 2025 9 22)" by code_simp
  have v: "valid_date (CDate 2025 9 21)" by code_simp
  have l: "CDate 2025 9 21 = local_date_of_utc (-300) (CDate 2025 9 22)" by code_simp
  have "get_slot_status (-300) (CDate 2025 9 1) [\<lparr>bs_date = ''2025-09-22'', bs_status = ''confirmed''\<rparr>]
          (CDate 2025 9 21) True = StBooked \<longleftrightarrow> CDate 2025 9 21 = local_date_of_utc (-300) (CDate 2025 9 22)"
    by (rule booking_shown_on_local_date [OF p _ _ v]) simp_all
  then show ?thesis using l by (simp add: one_confirmed_def)
qed

lemma tutor_click_statuses_witness:
  "\<not> cell_clickable (render_cell ny_env Tutor monday_template [] (CDate 2025 9 8))"
proof -
  have "CDate 2025 9 8 < env_today ny_env" by code_simp
  then show ?thesis using tutor_click_statuses by blast
qed

lemma month_navigation_roundtrip_witness:
  "cal_month (cal_step (cal_step \<lparr>cal_month = CDate 2025 12 1, cal_loading = False\<rparr> Next_month) Prev_month)
     = CDate 2025 12 1"
  using month_navigation_roundtrip [of "\<lparr>cal_month = CDate 2025 12 1, cal_loading = False\<rparr>"]
  by (simp add: month_start_of_def)


section \<open>Witnesses: cost\<close>


lemma booking_hours_bounds_witness:
  "confirm_hours ''10:00'' ''10:00'' = Some 0"
proof -
  have v: "valid_hhmm ''10:00''" by code_simp
  from booking_hours_bounds [OF v v] show ?thesis by auto
qed

lemma booking_amount_errors_witness:
  "isl (booking_amount (Some 50) ''10:00'' ''10:00'') \<and> \<not> isl (booking_amount (Some 50) ''10:00'' ''12:00'')"
proof -
  have v: "valid_hhmm ''10:00''" "valid_hhmm ''12:00''" by code_simp+
  show ?thesis
    using booking_amount_errors [OF v(1) v(1), of "Some 50"] booking_amount_errors [OF v(1) v(2), of "Some 50"]
    by simp
qed

section \<open>Witnesses: booking engine\<close>

lemma e1_create: "create profs0 (CDate 2025 9 10) rq_mon init_engine = Inr e1"
proof -
  have p: "parse_iso_date ''2025-09-22'' = Some (CDate 2025 9 22)" by code_simp
  have a: "booking_amount (Some 50) ''10:00'' ''12:00'' = Inr 100" by code_simp
  have s: "slot_available tutor_prof (CDate 2025 9 10) init_engine ''t1'' (CDate 2025 9 22)" by code_simp
  show ?thesis using p a s by (simp add: create_def profs0_def rq_mon_def tutor_prof_def e1_def)
qed

lemma e2_accept: "accept 0 e1 = Inr e2"
  by (simp add: accept_def e1_def e2_def insert_booking_def init_engine_def)

lemma e3_request: "request_reschedule profs0 (CDate 2025 9 10) 0 rq_move e2 = Inr e3"
proof -
  have p: "parse_iso_date ''2025-09-29'' = Some (CDate 2025 9 29)" by code_simp
  have s: "slot_available tutor_prof (CDate 2025 9 10) e2 ''t1'' (CDate 2025 9 29)" by code_simp
  show ?thesis using p s
    by (simp add: request_reschedule_def profs0_def rq_move_def rq_mon_def e3_def e2_def e1_def
                  set_status_def insert_booking_def init_engine_def)
qed

lemma reach_e1: "reach e1"
  using reach_step [OF reach_init] e1_create by (metis step.simps(1))

lemma reach_e2: "reach e2"
  using reach_step [OF reach_e1] e2_accept by (metis step.simps(2))

lemma one_live_booking_per_day_witness:
  "reach e1 \<and> bookings e1 0 = Some (new_booking rq_mon ''t1'' ''s1'' Pending None 100) \<and> (0::nat) = 0"
  using reach_e1 one_live_booking_per_day [OF reach_e1, of 0 "new_booking rq_mon ''t1'' ''s1'' Pending None 100" 0]
  by (simp add: e1_def insert_booking_def init_engine_def new_booking_def)

lemma concurrent_create_one_wins_witness:
  "create profs0 (CDate 2025 9 10) rq_rival e1 = Inl SlotUnavailable"
proof -
  have a: "booking_amount (Some 50) ''10:00'' ''12:00'' = Inr 100" by code_simp
  show ?thesis
    using concurrent_create_one_wins [OF e1_create, of tutor_prof rq_rival "CDate 2025 9 10"] a
    by (simp add: profs0_def rq_rival_def rq_mon_def tutor_prof_def)
qed

lemma reschedule_approve_roundtrip_witness:
  "\<exists>s'. approve_reschedule 1 e3 = Inr s' \<and> map_option b_status (bookings s' 0) = Some Cancelled
        \<and> map_option b_date (bookings s' 1) = Some ''2025-09-29'' \<and> map_option b_status (bookings s' 1) = Some Confirmed"
proof -
  have n: "next_id e2 = 1" by (simp add: e2_def e1_def set_status_def insert_booking_def init_engine_def)
  show ?thesis
    using reschedule_approve_roundtrip [OF reach_e2 e3_request] n
    by (auto simp: new_booking_def rq_move_def rq_mon_def)
qed

lemma reschedule_reject_roundtrip_witness:
  "\<exists>s'. reject_reschedule 1 e3 = Inr s' \<and> bookings s' 0 = bookings e2 0
        \<and> map_option b_status (bookings s' 1) = Some Cancelled"
proof -
  have n: "next_id e2 = 1" by (simp add: e2_def e1_def set_status_def insert_booking_def init_engine_def)
  show ?thesis
    using reschedule_reject_roundtrip [OF reach_e2 e3_request] n
    by (auto simp: new_booking_def)
qed

lemma accept_cancel_transitions_witness:
  "\<exists>s1 s2. accept 0 e1 = Inr s1 \<and> accept 0 s1 = Inl InvalidTransition \<and> cancel 0 ''s1'' s1 = Inr s2"
  using accept_cancel_transitions [of e1 0 "new_booking rq_mon ''t1'' ''s1'' Pending None 100" "''s1''"]
  by (auto simp: e1_def insert_booking_def init_engine_def new_booking_def)

lemma other_tutors_untouched_witness:
  "tutor_view e2 ''t2'' = tutor_view e1 ''t2''"
proof -
  have c: "cmd_tutor e1 (Accept 0) \<noteq> Some ''t2''"
    by (simp add: cmd_tutor_def e1_def insert_booking_def init_engine_def new_booking_def)
  show ?thesis
    using other_tutors_untouched [OF reach_e1 _ c, of profs0 "CDate 2025 9 10" e2] e2_accept by simp
qed

section \<open>Witnesses: the wire and the tutor dashboard\<close>

lemma client_request_served_witness:
  "serve profs0 (CDate 2025 9 10) ''h'' (api_request ''h'' ''tok'' (Accept_booking ''0'')) e1 = Inr e2"
proof -
  have "call_args_ok (Accept_booking ''0'')" by (simp add: seg_ok_def)
  moreover have "parse_booking_id ''0'' = Some 0" by code_simp
  ultimately show ?thesis
    using client_request_served [of "Accept_booking ''0''" profs0 "CDate 2025 9 10" "''h''" "''tok''" e1] e2_accept
    by (simp add: with_id_def)
qed

lemma e1_bookings0: "bookings e1 0 = Some booking0"
  by (simp add: e1_def booking0_def insert_booking_def init_engine_def)

lemma dash0_rows: "\<forall>r \<in> set (td_booked dash0 @ td_recent dash0 @ td_past dash0). row_of e1 ''t1'' r"
proof -
  have "row_of e1 ''t1'' (resp_of 0 booking0)"
    unfolding row_of_def by (intro exI [of _ 0] exI [of _ booking0]) (simp add: e1_bookings0 booking0_def new_booking_def)
  then show ?thesis by (simp add: dash0_def)
qed

lemma dash0_modal: "dash_modal dash0 = Accept_modal (Act_confirm ''0'') (Act_cancel ''0'')"
proof -
  have "format_date (CDate 2025 9 22) = ''2025-09-22''" "nat_str 0 = ''0''" "status_str Pending = ''pending''" by code_simp+
  then show ?thesis
    by (simp add: dash_modal_def modal_for_def dash0_def booking0_def new_booking_def rq_mon_def)
qed

lemma modal_actions_succeed_witness:
  "\<exists>s' c' n cmd. dash_do profs0 (CDate 2025 9 10) (spec_queries (CDate 2025 9 10)) (Some tutor_user)
                   (Act_cancel ''0'') (e1, dash0) = (s', c')
     \<and> td_notices c' = td_notices dash0 @ [n] \<and> \<not> dash_failure n \<and> step profs0 (CDate 2025 9 10) e1 cmd = Inr s'"
  using modal_actions_succeed [OF reach_e1 _ _ _ dash0_modal, of tutor_user "Act_cancel ''0''"] dash0_rows
  by (simp add: tutor_user_def)

lemma accept_patch_matches_service_witness:
  "list_all (row_of (fst (dash_confirm profs0 (CDate 2025 9 10) (Some tutor_user) (nat_str 0) (e1, dash0))) ''t1'')
     (td_booked (snd (dash_confirm profs0 (CDate 2025 9 10) (Some tutor_user) (nat_str 0) (e1, dash0)))
      @ td_recent (snd (dash_confirm profs0 (CDate 2025 9 10) (Some tutor_user) (nat_str 0) (e1, dash0))))"
proof -
  have f: "\<forall>r \<in> set (td_booked dash0 @ td_recent dash0). row_of e1 ''t1'' r" using dash0_rows by auto
  show ?thesis using accept_patch_matches_service [OF f surjective_pairing] by (simp only: list_all_iff)
qed

lemma month_range_roundtrip_witness:
  "parse_iso_date (month_first (CDate 2024 2 1)) = Some (CDate 2024 2 1)
   \<and> parse_iso_date (month_last (CDate 2024 2 1)) = Some (CDate 2024 2 29)"
proof -
  have "days_in_month 2024 2 = 29" by code_simp
  then show ?thesis using month_range_roundtrip [of "CDate 2024 2 1"] by simp
qed

lemma upcoming_list_empty_iff_witness: "upcoming_rows dash_rr = Some []"
proof -
  have "status_str Reschedule_requested = ''reschedule_requested''" by code_simp
  then show ?thesis using upcoming_list_empty_iff [of dash_rr] by (simp add: dash_rr_def)
qed

section \<open>Witnesses: the student pages\<close>

lemma lesson_types_gate_booking_witness:
  "modal_confirms (page_lesson_types (tutor_with_defaults tinfo_nolessons)) [Press_confirm] = []"
  using lesson_types_gate_booking [of tinfo_nolessons] by (simp add: tinfo_nolessons_def)

lemma card_cancel_accepted_witness:
  "fst (student_cancel profs0 (CDate 2025 9 10) (\<lambda>s u. []) None (Some student_s1) True ''0'' (e1, sdash0))
     = set_status 0 Cancelled e1"
proof -
  have "card_overlay False (br_status (resp_of 0 booking0)) True = Cancel_overlay"
    by (simp add: booking0_def new_booking_def card_overlay_def status_str_def)
  moreover have "nat_str 0 = ''0''" by code_simp
  ultimately show ?thesis
    using card_cancel_accepted [OF e1_bookings0 _ _, of student_s1 profs0 "CDate 2025 9 10" "\<lambda>s u. []" None sdash0]
    by (simp add: booking0_def new_booking_def student_s1_def)
qed

lemma student_cancel_only_pending_witness:
  "card_overlay False ''confirmed'' True \<noteq> Cancel_overlay \<and>
   list_all (\<lambda>r. card_overlay False (br_status r) True \<noteq> Cancel_overlay) (student_upcoming (CDate 2025 9 10, 0) sdash0)"
  using student_cancel_only_pending [of False True sdash0 "(CDate 2025 9 10, 0)"]
  by (simp add: sdash0_def list_all_iff)


lemma page0_confirm:
  "view_confirm profs0 (CDate 2025 9 10) (Some student_s1) ''t1'' ''Math'' (init_engine, page0) =
     (insert_booking (new_booking (view_request tinfo student_s1 (CDate 2025 9 22)
                        \<lparr>ts_enabled = True, ts_start = ''10:00'', ts_end = ''12:00''\<rparr> ''Math'') ''t1'' ''s1'' Pending None 100)
        init_engine,
      page0\<lparr>vp_booked := [\<lparr>bs_date = ''2025-09-22'', bs_status = ''pending''\<rparr>], vp_notices := [S_booking_created 100],
            vp_show_modal := False, vp_selected := None\<rparr>)"
proof -
  have f: "format_date (CDate 2025 9 22) = ''2025-09-22''" by code_simp
  have p: "parse_iso_date ''2025-09-22'' = Some (CDate 2025 9 22)" by code_simp
  have a: "booking_amount (Some 50) ''10:00'' ''12:00'' = Inr 100" by code_simp
  have sl: "slot_available tutor_prof (CDate 2025 9 10) init_engine ''t1'' (CDate 2025 9 22)" by code_simp
  show ?thesis using f p a sl
    by (simp add: view_confirm_def page0_def tinfo_def student_s1_def view_request_def create_def profs0_def
                  tutor_prof_def)
qed

lemma booked_day_locked_witness:
  "\<not> cell_clickable (render_cell sg_env Student monday_template [\<lparr>bs_date = ''2025-09-22'', bs_status = ''pending''\<rparr>]
                       (CDate 2025 9 22))"
proof -
  have v: "valid_date (CDate 2025 9 22)" by code_simp
  have "vp_notices page0 = []" "vp_selected page0 = Some (CDate 2025 9 22, \<lparr>ts_enabled = True, ts_start = ''10:00'', ts_end = ''12:00''\<rparr>)"
    by (simp_all add: page0_def)
  then show ?thesis
    using booked_day_locked [OF _ v _ _ _ page0_confirm, where e = sg_env and amt = 100 and avail = monday_template]
    by (simp add: sg_env_def)
qed

section \<open>Witnesses: the wallet\<close>

lemma reload_repeats_topup_witness:
  "filter is_topup (sp_calls (success_reloads (Some ''s1'') (Some ''50'') (Some ''tok'')
                                [[(Ok None, ''1''), (Ok None, ''1'')], [(Ok None, ''2'')]] (success_mount [] [])))
     = [W_topup ''s1'' (parse_float ''50''), W_topup ''s1'' (parse_float ''50'')]"
  using reload_repeats_topup [of "''s1''" "''50''" "''tok''" "[[(Ok None, ''1''), (Ok None, ''1'')], [(Ok None, ''2'')]]"
                                 "success_mount [] []"]
  by (simp add: success_mount_def numeral_2_eq_2)


section \<open>Witnesses: the profile editor\<close>

lemma lesson_input_wf_witness:
  "lessons_wf (lb_value lessons0)
   \<and> lb_value (lesson_run [''Maths'', ''Chemistry''] lessons0 lesson_events0) = [''piano'', ''Chemistry'']
   \<and> lessons_wf (lb_value (lesson_run [''Maths'', ''Chemistry''] lessons0 lesson_events0))"
proof -
  have w: "lessons_wf (lb_value lessons0)" by code_simp
  have r: "lb_value (lesson_run [''Maths'', ''Chemistry''] lessons0 lesson_events0) = [''piano'', ''Chemistry'']"
    by code_simp
  show ?thesis using w r lesson_input_wf [OF w, of "[''Maths'', ''Chemistry'']" lesson_events0] by simp
qed

lemma blur_rate_bounds_witness:
  "blur_rate (Some (1234 / 1000)) = Some (123 / 100)
   \<and> 0 \<le> (123 / 100 :: rat) \<and> \<bar>123 / 100 - 1234 / 1000\<bar> \<le> (1 / 200 :: rat)"
proof -
  have b: "blur_rate (Some (1234 / 1000)) = Some (123 / 100)" by code_simp
  show ?thesis using blur_rate_bounds [OF b] b by simp
qed

lemma load_rate_defaults_witness:
  "profile_load ''tok'' (Some nan_rate_resp) default_profile = Inr (profile_of_resp nan_rate_resp)
   \<and> pf_rate (profile_of_resp nan_rate_resp) = Some 0"
proof -
  have l: "profile_load ''tok'' (Some nan_rate_resp) default_profile = Inr (profile_of_resp nan_rate_resp)"
    by (simp add: profile_load_def)
  show ?thesis using l load_rate_defaults [OF l] by (simp add: nan_rate_resp_def)
qed

lemma save_ignores_confirmation_witness:
  "save_check ready_profile = None \<and> so_sent (profile_save False ''tok'' True ready_profile) = [ready_profile]"
proof -
  have c: "save_check ready_profile = None" by code_simp
  show ?thesis using c save_ignores_confirmation [of False "''tok''" True ready_profile] by simp
qed


section \<open>Witnesses: routes and guards\<close>

lemma route_match_unique_witness:
  "(''/student/view-tutor/:id'', Some Student_guard, View_tutor_details_page) \<in> set app_routes
   \<and> path_matches ''/student/view-tutor/:id'' ''/Student/view-tutor/t42/''
   \<and> app_route ''/Student/view-tutor/t42/'' = Some (Some Student_guard, View_tutor_details_page)"
proof -
  have r: "(''/student/view-tutor/:id'', Some Student_guard, View_tutor_details_page) \<in> set app_routes"
    by (simp add: app_routes_def)
  have m: "path_matches ''/student/view-tutor/:id'' ''/Student/view-tutor/t42/''" by code_simp
  show ?thesis using r m route_match_unique [OF r] by simp
qed

lemma guard_outlet_needs_check_witness:
  "guard_view (guard_run Student_guard (Some ''tok'') [Check_settled ''tok'' True, Timer_fired]) = Show_outlet
   \<and> (\<exists>t. t \<noteq> [] \<and> (Some ''tok'' = Some t \<or> User_changed (Some t) \<in> set [Check_settled ''tok'' True, Timer_fired])
          \<and> Check_settled t True \<in> set [Check_settled ''tok'' True, Timer_fired])"
proof -
  have v: "guard_view (guard_run Student_guard (Some ''tok'') [Check_settled ''tok'' True, Timer_fired]) = Show_outlet"
    by code_simp
  show ?thesis using v guard_outlet_needs_check [OF v] by simp
qed



section \<open>Witnesses: admin tables, search and login\<close>

lemma tutor_delete_safe_witness:
  "at_calls (table_run tutor_conf admin0 admin_events0) = [Delete_user ''a1'' ''t9'' Role_tutor]
   \<and> (\<exists>r \<in> set (fetched_rows admin_events0). tr_user_id r = ''t9'' \<and> (tr_status r = ''SUSPENDED'' \<or> tr_status r = ''REJECTED''))"
proof -
  have c: "at_calls (table_run tutor_conf admin0 admin_events0) = [Delete_user ''a1'' ''t9'' Role_tutor]" by code_simp
  then have m: "Delete_user ''a1'' ''t9'' Role_tutor \<in> set (at_calls (table_run tutor_conf admin0 admin_events0))" by simp
  show ?thesis using c tutor_delete_safe [OF m] by simp
qed

lemma search_requests_witness:
  "''tok'' \<noteq> []
   \<and> fp_sent (find_step ''tok'' find_init (Click_clear None)) =
        [\<lparr>sq_name = None, sq_subject = None, sq_min = 0, sq_max = 100, sq_availability = None\<rparr>]"
  using search_requests [where tok = "''tok''" and ans0 = None and evs = "[]" and p = find_init and ans = None]
  by (simp add: find_init_def)

lemma login_lands_guarded_witness:
  "lo_nav (login_submit User_login ''ann@mail.sg'' ''pw'' student_login) = Some ''/student/dashboard''
   \<and> app_route ''/student/dashboard'' = Some (Some Student_guard, Student_dashboard_page)"
proof -
  have n: "lo_nav (login_submit User_login ''ann@mail.sg'' ''pw'' student_login) = Some ''/student/dashboard''"
    by (simp add: login_submit_def student_login_def login_valid_def role_allowed_def home_path_def)
  show ?thesis using n login_lands_guarded [OF n] by (auto simp: student_login_def login_submit_def login_valid_def role_allowed_def)
qed

end
