(* ===== verification/Spec2Isabelle.thy ===== *)
theory Spec2Isabelle
  imports Scenarios
begin

text \<open>
  \<^bold>\<open>TutorLink: a verification library for the frontend\<close>

  TutorLink is a React frontend (\<open>src/frontend/src\<close>) for booking one-to-one
  lessons. Tutors publish a weekly availability template; students browse a
  tutor's month calendar and book a free day; tutors accept, cancel, or
  approve and reject reschedules; both sides pay through a wallet. The booking
  records live in a backend service that is not part of the sources. The
  frontend talks to it through \<open>api/bookingAPI.ts\<close> and the other request
  modules. This library models the frontend's state and handlers as HOL
  functions over explicit state. It models the backend's booking lifecycle
  from the specification. It proves the properties that make the two work
  together.

  \<^bold>\<open>Theories and what they model.\<close>
  \<^item> \<open>Prelude\<close>: type names (\<open>user_id\<close>; \<open>js_num = rat option\<close>, where
    \<open>None\<close> is \<open>NaN\<close>), the collections \<open>js_simps\<close> and \<open>status_simps\<close>, and
    generic list lemmas.
  \<^item> \<open>Dates\<close>: the JavaScript \<open>Date\<close> arithmetic the components rely on.
    This covers \<open>formatDate\<close>/\<open>formatLocalDate\<close> of
    \<open>AvailabilityCalendar.tsx\<close> and \<open>RescheduleModal.tsx\<close>, ISO date parsing,
    local calendar fields under a time-zone offset, weekdays and the order on
    dates (an \<open>instantiation\<close> of \<open>linorder\<close>).
  \<^item> \<open>Template\<close>: \<open>components/AvailabilityPicker.tsx\<close>, the weekly template
    and its edit handler.
  \<^item> \<open>Calendar\<close>: \<open>components/AvailabilityCalendar.tsx\<close>. It holds the slot
    status resolver (\<open>getSlotStatus\<close>), the loop of \<open>getMonthDates\<close> (a
    \<open>function\<close> with a measure), the month grid and its cells, and month
    navigation.
  \<^item> \<open>Cost\<close>: the two cost computations. These are the estimate of
    \<open>BookingModal.tsx\<close> and the amount \<open>ViewTutorDetails.confirmBooking\<close>
    sends.
  \<^item> \<open>Booking\<close>: the backend's booking engine, modelled from the
    specification, section 4.3. It has the operations create, accept, cancel,
    request, approve and reject reschedule, over a store of bookings, with
    errors as \<open>booking_error + engine\<close>. The inductive \<open>reach\<close> gives the
    reachable stores, and \<open>engine_inv\<close> is proved for them by rule induction.
  \<^item> \<open>Wire\<close>: \<open>api/bookingAPI.ts\<close> and \<open>types/BookingType.ts\<close>, covering the
    HTTP request each client function builds, and the service boundary that
    routes a request to an engine operation.
  \<^item> \<open>TutorDash\<close>: \<open>pages/tutor/TutorDashboard.tsx\<close>. It covers the queries
    for the month, upcoming and past lists (an interface record
    \<open>tutor_queries\<close> with its soundness predicate), the modal and its
    confirm, approve and cancel handlers, and the local patch after an accept.
  \<^item> \<open>Student\<close>: \<open>pages/student/ViewTutorDetails.tsx\<close>,
    \<open>components/BookingModal.tsx\<close>, \<open>pages/student/StudentDashboard.tsx\<close>,
    \<open>components/BookingCard.tsx\<close> and \<open>components/RescheduleModal.tsx\<close>:
    booking a day, the card overlays, cancelling, and the reschedule dialog's
    window and request.
  \<^item> \<open>Wallet\<close>: \<open>api/walletAPI.ts\<close>, \<open>pages/student/Wallet.tsx\<close>,
    \<open>pages/tutor/TutorWalletPage.tsx\<close> and
    \<open>pages/student/WalletSuccessPage.tsx\<close>, as step functions over user
    events, with the wallet service's answers as inputs.
  \<^item> \<open>Profile\<close>: \<open>pages/tutor/TutorProfile.tsx\<close> and
    \<open>components/TutorLessonTypeInput.tsx\<close>, covering load, field handlers,
    rate blur, lesson types and save.
  \<^item> \<open>Access\<close>: three parts. The route table of \<open>App.tsx\<close> with React
    Router's segment matching; the guards \<open>components/routes/AdminRoute.tsx\<close>,
    \<open>UserRoute.tsx\<close> and \<open>StudentRoute.tsx\<close> as one step function over
    timer, user and role-check events; and \<open>components/Navbar.tsx\<close> with
    \<open>NavLinks.tsx\<close>.
  \<^item> \<open>Admin\<close>: \<open>pages/admin/ManageTutors.tsx\<close>, \<open>ManageStudents.tsx\<close>
    and \<open>ManageAdmins.tsx\<close> as one step function over a table state, with one
    configuration record per page. It covers search, the tutor table's sort
    (the stable \<open>Array.prototype.sort\<close> as an insertion sort),
    pagination, and the suspend/activate and delete actions behind permissions
    and \<open>confirm\<close>.
  \<^item> \<open>Search\<close>: \<open>pages/student/FindTutor.tsx\<close>, covering the filters, the
    search request, Clear and its effect, and the text of a result card.
  \<^item> \<open>Auth\<close>: \<open>pages/LoginUserPage.tsx\<close>, \<open>LoginAdminPage.tsx\<close> and
    \<open>UserRegister.tsx\<close>, covering the login handlers, the register rules
    (the e-mail pattern included) and the role-dependent payload.
  \<^item> \<open>Scenarios\<close>: fixtures, and one witness per claim with a hypothesis,
    evaluated by \<open>simp\<close> or \<open>code_simp\<close>.

  \<^bold>\<open>How the parts interact.\<close> The pages call the booking client (\<open>Wire\<close>).
  The client's requests are served by the engine (\<open>Booking\<close>). One theorem
  of \<open>Wire\<close> says that serving the request a client function builds performs
  the engine operation that function names. The dashboard's handlers are stated
  against that composition: each action its modal offers is a successful
  engine step. The resolver of
  \<open>Calendar\<close> is shared by the calendar the student clicks and by the
  engine's availability check, so a day that is booked for one student is
  locked for the others. The login pages hand over to the routing of
  \<open>Access\<close>: the path a login navigates to is routed to the dashboard of the
  stored user's role, behind that area's guard.

  \<^bold>\<open>What the lemma groups show.\<close>
  \<^item> The engine keeps at most one live booking per tutor and day in every
    reachable store. Concurrent creates have one winner. The reschedule round
    trips, and the error behaviour of accept and cancel, are proved as well.
  \<^item> The resolver computes each status. The month grid has one cell per day,
    and clickability agrees with status for students.
  \<^item> Both cost computations agree, and the hours they produce are bounded.
  \<^item> Client requests are served as named. The dashboard's local patches
    agree with the service.
  \<^item> The wallet pages send only valid requests.
  \<^item> The profile's lesson-type list stays well formed, and the rate blur
    keeps its bounds.
  \<^item> The route table is unambiguous. A guard shows its page only after a
    successful role check, with the timing races stated as they are.
  \<^item> The admin tables' sort equals the library's stable \<open>sort_key\<close>
    (mirrored when descending). Their pages partition the list. The tutor
    table only ever deletes tutors the service listed as suspended or
    rejected.
  \<^item> The search never sends an empty filter, and Clear searches unfiltered.
    A login lands behind the guard of its role.
  \<^item> The claims that record behaviour the specification or the UI text does
    not intend are listed as findings in the manifest.

  \<^bold>\<open>Parameters.\<close> The browser environment is a record \<open>env\<close>. It holds the
  time-zone offset in minutes (\<open>env_tz\<close>, so UTC dates from the API are shown
  on the local calendar day), today's local date (\<open>env_today\<close>), and the
  locale's short weekday names (\<open>env_day_name\<close>). JavaScript numbers are
  exact rationals with \<open>NaN\<close> as \<open>None\<close>: every amount the code computes is a
  small rational, where doubles are exact enough for its comparisons. No model
  uses fuel. The one loop of the sources (\<open>getMonthDates\<close>) is a
  \<open>function\<close> whose termination is proved by the measure of days left.
  Every handler is total.

  \<^bold>\<open>Not modelled.\<close>
  \<^item> \<open>AdminDashboard\<close> (statistics display), \<open>CreateAdminModal\<close> (a form
    posting to the admin service), \<open>PastSessionsPage\<close>, \<open>Reviews\<close>,
    \<open>ReviewModal\<close> and \<open>UserDashboard\<close>: list and form pages over service
    queries. They are not in the library.
  \<^item> The request modules \<open>tutorAPI\<close>, \<open>notificationAPI\<close> and
    \<open>sequenceAPI\<close>: the pages that are modelled take these services' answers
    as inputs.
  \<^item> The SSE hook \<open>useSseNotifications\<close> and the test setup files: I/O and
    configuration only.
  \<^item> Rendering and styling, beyond the text, classes and clickability of
    calendar cells, card text and the enabled state of buttons.
  \<^item> The backend beyond the booking lifecycle of the specification: wallets,
    payments, users and the role-check endpoints, whose answers are inputs of
    the models.
\<close>

end
